theory Spec2Isabelle
  imports Main
begin

section \<open>Values shared by the packages base and tilesets\<close>

type_synonym bytes = string

text \<open>
  Errors that the Go libraries hand to the client: \<^verbatim>\<open>net/http\<close> and \<^verbatim>\<open>net/url\<close>
  (a URL that does not parse, a failed round trip), \<^verbatim>\<open>os\<close> (a file that does not
  open), \<^verbatim>\<open>io\<close> (a body that cannot be read to its end) and \<^verbatim>\<open>encoding/json\<close>.
  Each carries the library's message.
\<close>

datatype lib_error =
    URLError string
  | PathError string
  | ReadError string
  | SyntaxError
  | UnmarshalTypeError string

text \<open>
  A Go \<^verbatim>\<open>error\<close> value as the client sees it. \<open>ErrorString\<close> is what
  \<^verbatim>\<open>errors.New\<close> and \<^verbatim>\<open>fmt.Errorf\<close> build; \<open>LibError\<close> is an error of a library,
  passed on as it is.

  Modelled from the spec: \<open>ErrorAPILimitExceeded\<close> and \<open>ErrorAPIUnauthorized\<close> are
  declared in a file of package base that is not among the sources; the spec (section 7)
  calls them "two named sentinel errors". Go compares such errors by identity, so they
  are constructors of their own, equal to no other error.
\<close>

datatype error =
    ErrorAPILimitExceeded
  | ErrorAPIUnauthorized
  | ErrorString string
  | LibError lib_error

definition is_sentinel :: "error \<Rightarrow> bool" where
  "is_sentinel e = (e = ErrorAPILimitExceeded \<or> e = ErrorAPIUnauthorized)"

text \<open>
  How a call ends: it returns, it panics (a nil pointer is dereferenced), or the process
  exits (\<^verbatim>\<open>log.Fatal\<close> calls \<^verbatim>\<open>os.Exit(1)\<close>). A loop that never ends is the value
  \<open>None\<close> of the looping function, below.
\<close>

datatype 'a outcome = Returns 'a | Panics | Exits int

subsection \<open>fmt.Sprintf\<close>

text \<open>
  The client formats with the verb \<^verbatim>\<open>%s\<close> only, always with as many string operands
  as verbs. \<open>Sprintf\<close> interprets the format: each \<^verbatim>\<open>%s\<close> is replaced by the next
  operand, copied as it is (an operand is never read as a format); any other character
  is copied. A verb without an operand prints as Go prints it.
\<close>

fun Sprintf :: "string \<Rightarrow> string list \<Rightarrow> string" where
  "Sprintf [] args = []"
| "Sprintf [c] args = [c]"
| "Sprintf (c # d # fs) args =
     (if c = CHR ''%'' \<and> d = CHR ''s'' then
        (case args of
           [] \<Rightarrow> ''%!s(MISSING)'' @ Sprintf fs []
         | a # rest \<Rightarrow> a @ Sprintf fs rest)
      else c # Sprintf (d # fs) args)"

definition newline :: string where
  "newline = [CHR 0x0A]"

section \<open>Package base\<close>

abbreviation BaseURL :: string where
  "BaseURL \<equiv> ''https://api.mapbox.com''"

abbreviation statusRateLimitExceeded :: int where
  "statusRateLimitExceeded \<equiv> 429"

abbreviation StatusOK :: int where
  "StatusOK \<equiv> 200"

abbreviation StatusBadRequest :: int where
  "StatusBadRequest \<equiv> 400"

abbreviation StatusUnauthorized :: int where
  "StatusUnauthorized \<equiv> 401"

record Base =
  token :: string
  debug :: bool

text \<open>
  \<^verbatim>\<open>NewBase\<close> returns \<^verbatim>\<open>(*Base, error)\<close>: a pair of two values, each of which may be
  nil. \<^verbatim>\<open>&Base{}\<close> is the zero value: an empty token and \<^verbatim>\<open>debug = false\<close>.
\<close>

definition NewBase :: "string \<Rightarrow> Base option \<times> error option" where
  "NewBase tok =
     (if tok = '''' then (None, Some (ErrorString ''Mapbox API token not found''))
      else
        (let b = \<lparr>token = '''', debug = False\<rparr>;
             b = b\<lparr>token := tok\<rparr>
         in (Some b, None)))"

text \<open>\<^verbatim>\<open>SetDebug\<close> has a pointer receiver: the updated \<^verbatim>\<open>Base\<close> is returned.\<close>

definition SetDebug :: "Base \<Rightarrow> bool \<Rightarrow> Base" where
  "SetDebug b dbg = b\<lparr>debug := True\<rparr>"

record MapboxAPIMessage =
  Message :: string

subsection \<open>The world the client runs in\<close>

text \<open>
  A request as \<^verbatim>\<open>http.NewRequest\<close> builds it. \<open>URL\<close> is the string the request was
  built from; \<open>RawQuery\<close> is \<open>None\<close> while the query is the one written in that string
  and \<open>Some v\<close> once it has been overwritten with \<^verbatim>\<open>v.Encode()\<close>, kept here as the
  \<^verbatim>\<open>url.Values\<close> that were encoded. A multipart payload is kept as its form field,
  file name and file content (the boundary is left out).
\<close>

type_synonym url_Values = "string \<rightharpoonup> string list"

datatype payload = NoBody | Raw bytes | Multipart string string bytes

record request =
  Method :: string
  URL :: string
  RawQuery :: "url_Values option"
  Header :: "(string \<times> string) list"
  Payload :: payload

text \<open>
  What can be read from a response body or a file: the bytes that \<^verbatim>\<open>ioutil.ReadAll\<close>
  returns, and the error it returns with them (if the read failed before the end).
\<close>

type_synonym reader = "bytes \<times> lib_error option"

definition ioutil_ReadAll :: "reader \<Rightarrow> bytes \<times> lib_error option" where
  "ioutil_ReadAll r = r"

record response =
  StatusCode :: int
  Body :: reader

text \<open>
  The result \<^verbatim>\<open>(resp, err)\<close> of \<^verbatim>\<open>client.Do\<close>: \<open>Failed e\<close> is \<^verbatim>\<open>(nil, e)\<close>,
  \<open>Replied r\<close> is \<^verbatim>\<open>(r, nil)\<close>, and \<open>RedirectFailed r e\<close> is \<^verbatim>\<open>(r, e)\<close>, which
  \<^verbatim>\<open>net/http\<close> returns only when the redirect policy fails. It never returns
  \<^verbatim>\<open>(nil, nil)\<close>.
\<close>

datatype http_result =
    Failed lib_error
  | Replied response
  | RedirectFailed response lib_error

definition response_of :: "http_result \<Rightarrow> response option" where
  "response_of res =
     (case res of Failed e \<Rightarrow> None | Replied r \<Rightarrow> Some r | RedirectFailed r e \<Rightarrow> Some r)"

definition err_of :: "http_result \<Rightarrow> lib_error option" where
  "err_of res =
     (case res of Failed e \<Rightarrow> Some e | Replied r \<Rightarrow> None | RedirectFailed r e \<Rightarrow> Some e)"

record os_File =
  Name :: string
  Contents :: reader

text \<open>A JSON text after parsing. A number keeps whether it is an integer literal.\<close>

datatype number_lit = IntLit int | OtherNumber string

datatype json =
    JNull
  | JBool bool
  | JNumber number_lit
  | JString string
  | JArray "json list"
  | JObject "(string \<times> json) list"

text \<open>
  Everything outside the program: whether \<^verbatim>\<open>net/url\<close> parses a URL (\<open>url_error\<close>
  gives the error when it does not), what the network answers to the \<open>k\<close>-th request
  of the run, what \<^verbatim>\<open>os.Open\<close> finds under a path, how \<^verbatim>\<open>encoding/json\<close> reads a
  text (\<open>None\<close> for a text that is not well-formed JSON) and how it folds the case of an
  object key. All of it is a parameter of the model.
\<close>

record env =
  url_error :: "string \<Rightarrow> lib_error option"
  round_trip :: "nat \<Rightarrow> request \<Rightarrow> http_result"
  os_Open :: "string \<Rightarrow> lib_error + os_File"
  json_parse :: "bytes \<Rightarrow> json option"
  fold_name :: "string \<Rightarrow> string"

text \<open>
  What the program has done to the world so far: the requests it handed to the network
  (oldest first), the time it slept (in nanoseconds, the unit of \<^verbatim>\<open>time.Duration\<close>) and
  what it wrote to the console.
\<close>

datatype console_line =
    Text string
  | RequestDump request
  | ResponseDump response
  | Logged error

record world =
  sent :: "request list"
  slept :: nat
  printed :: "console_line list"

definition print :: "console_line \<Rightarrow> world \<Rightarrow> world" where
  "print x w = w\<lparr>printed := printed w @ [x]\<rparr>"

definition Println :: "string \<Rightarrow> world \<Rightarrow> world" where
  "Println s w = print (Text (s @ newline)) w"

abbreviation time_Second :: nat where
  "time_Second \<equiv> 1000000000"

definition time_Sleep :: "nat \<Rightarrow> world \<Rightarrow> world" where
  "time_Sleep d w = w\<lparr>slept := slept w + d\<rparr>"

subsection \<open>net/http, path/filepath, fmt.Errorf\<close>

text \<open>
  \<^verbatim>\<open>http.NewRequest\<close> with one of the method constants fails exactly when the URL does
  not parse: \<open>Inl e\<close> is \<^verbatim>\<open>(nil, e)\<close>, \<open>Inr r\<close> is \<^verbatim>\<open>(r, nil)\<close>.
\<close>

definition http_NewRequest :: "env \<Rightarrow> string \<Rightarrow> string \<Rightarrow> payload \<Rightarrow> lib_error + request" where
  "http_NewRequest env method url body =
     (case url_error env url of
        Some e \<Rightarrow> Inl e
      | None \<Rightarrow> Inr \<lparr>Method = method, URL = url, RawQuery = None, Header = [], Payload = body\<rparr>)"

text \<open>\<^verbatim>\<open>client.Do\<close> hands the request to the network, which answers.\<close>

definition client_Do :: "env \<Rightarrow> request \<Rightarrow> world \<Rightarrow> http_result \<times> world" where
  "client_Do env req w = (round_trip env (length (sent w)) req, w\<lparr>sent := sent w @ [req]\<rparr>)"

text \<open>\<^verbatim>\<open>http.Get\<close> builds a GET request and does it.\<close>

definition http_Get :: "env \<Rightarrow> string \<Rightarrow> world \<Rightarrow> http_result \<times> world" where
  "http_Get env url w =
     (case http_NewRequest env ''GET'' url NoBody of
        Inl e \<Rightarrow> (Failed e, w)
      | Inr req \<Rightarrow> client_Do env req w)"

definition Header_Set :: "string \<Rightarrow> string \<Rightarrow> (string \<times> string) list \<Rightarrow> (string \<times> string) list" where
  "Header_Set k v h = filter (\<lambda>p. fst p \<noteq> k) h @ [(k, v)]"

definition Header_Add :: "string \<Rightarrow> string \<Rightarrow> (string \<times> string) list \<Rightarrow> (string \<times> string) list" where
  "Header_Add k v h = h @ [(k, v)]"

text \<open>
  \<^verbatim>\<open>filepath.Base\<close>: the last element of the path, trailing separators removed;
  \<^verbatim>\<open>"."\<close> for the empty path and \<^verbatim>\<open>"/"\<close> for a path of separators only.
\<close>

definition filepath_Base :: "string \<Rightarrow> string" where
  "filepath_Base path =
     (if path = [] then ''.''
      else
        (let p = dropWhile (\<lambda>c. c = CHR ''/'') (rev path)
         in if p = [] then ''/'' else rev (takeWhile (\<lambda>c. c \<noteq> CHR ''/'') p)))"

definition fmt_Errorf :: "string \<Rightarrow> string list \<Rightarrow> error" where
  "fmt_Errorf format args = ErrorString (Sprintf format args)"

definition errors_New :: "string \<Rightarrow> error" where
  "errors_New s = ErrorString s"

text \<open>A nil byte slice reads as the empty one.\<close>

definition bytes_of :: "bytes option \<Rightarrow> bytes" where
  "bytes_of d = (case d of None \<Rightarrow> [] | Some x \<Rightarrow> x)"

subsection \<open>encoding/json\<close>

text \<open>
  \<^verbatim>\<open>json.Unmarshal\<close> first checks that the whole text is well-formed and, if it is not,
  returns a syntax error without touching the target. Otherwise it stores the value:
  \<^item> into a string field a JSON string, into an int field an integer literal that fits
    64 bits; \<^verbatim>\<open>null\<close> leaves the field as it is; any other value leaves it as it is
    and is a type error;
  \<^item> into a struct a JSON object, key by key in the order of the text: a key names the
    field whose JSON name equals it, or else the first field whose name equals it after
    case folding; a key that names no field is skipped; \<^verbatim>\<open>null\<close> leaves the struct
    as it is, any other value leaves it as it is and is a type error;
  \<^item> a type error does not stop the decoding: the rest is stored, and the first type
    error is returned at the end.
  The Go type \<^verbatim>\<open>int\<close> is taken to have 64 bits. A type error carries the kind of the
  JSON value it met.
\<close>

definition json_kind :: "json \<Rightarrow> string" where
  "json_kind j =
     (case j of
        JNull \<Rightarrow> ''null''
      | JBool b \<Rightarrow> ''bool''
      | JNumber n \<Rightarrow> ''number''
      | JString s \<Rightarrow> ''string''
      | JArray xs \<Rightarrow> ''array''
      | JObject kvs \<Rightarrow> ''object'')"

definition store_string :: "json \<Rightarrow> string \<Rightarrow> lib_error option \<times> string" where
  "store_string j old =
     (case j of
        JString s \<Rightarrow> (None, s)
      | JNull \<Rightarrow> (None, old)
      | _ \<Rightarrow> (Some (UnmarshalTypeError (json_kind j)), old))"

definition store_int :: "json \<Rightarrow> int \<Rightarrow> lib_error option \<times> int" where
  "store_int j old =
     (case j of
        JNumber (IntLit n) \<Rightarrow>
          (if - (2 ^ 63) \<le> n \<and> n < 2 ^ 63 then (None, n)
           else (Some (UnmarshalTypeError ''number''), old))
      | JNull \<Rightarrow> (None, old)
      | _ \<Rightarrow> (Some (UnmarshalTypeError (json_kind j)), old))"

definition first_error :: "lib_error option \<Rightarrow> lib_error option \<Rightarrow> lib_error option" where
  "first_error e1 e2 = (case e1 of None \<Rightarrow> e2 | Some e \<Rightarrow> Some e)"

definition find_field :: "(string \<Rightarrow> string) \<Rightarrow> string list \<Rightarrow> string \<Rightarrow> string option" where
  "find_field fld names key =
     (if key \<in> set names then Some key
      else find (\<lambda>n. fld n = fld key) names)"

fun decode_fields ::
  "(string \<Rightarrow> string) \<Rightarrow> string list \<Rightarrow> (string \<Rightarrow> json \<Rightarrow> 'a \<Rightarrow> lib_error option \<times> 'a) \<Rightarrow>
   (string \<times> json) list \<Rightarrow> 'a \<Rightarrow> lib_error option \<times> 'a" where
  "decode_fields fld names store [] v = (None, v)"
| "decode_fields fld names store ((k, j) # kvs) v =
     (case find_field fld names k of
        None \<Rightarrow> decode_fields fld names store kvs v
      | Some n \<Rightarrow>
          (let (e, v1) = store n j v;
               (e', v2) = decode_fields fld names store kvs v1
           in (first_error e e', v2)))"

definition unmarshal_struct ::
  "(string \<Rightarrow> string) \<Rightarrow> string list \<Rightarrow> (string \<Rightarrow> json \<Rightarrow> 'a \<Rightarrow> lib_error option \<times> 'a) \<Rightarrow>
   json \<Rightarrow> 'a \<Rightarrow> lib_error option \<times> 'a" where
  "unmarshal_struct fld names store j v =
     (case j of
        JObject kvs \<Rightarrow> decode_fields fld names store kvs v
      | JNull \<Rightarrow> (None, v)
      | _ \<Rightarrow> (Some (UnmarshalTypeError (json_kind j)), v))"

text \<open>
  \<^verbatim>\<open>json.Unmarshal(data, p)\<close> for a pointer \<open>p\<close> to a value \<open>v\<close>, with \<open>dec\<close> the
  decoder of the value's type: the error returned and the value afterwards.
\<close>

definition json_Unmarshal ::
  "env \<Rightarrow> (json \<Rightarrow> 'a \<Rightarrow> lib_error option \<times> 'a) \<Rightarrow> bytes \<Rightarrow> 'a \<Rightarrow> lib_error option \<times> 'a" where
  "json_Unmarshal env dec data v =
     (case json_parse env data of
        None \<Rightarrow> (Some SyntaxError, v)
      | Some j \<Rightarrow> dec j v)"

text \<open>
  \<^verbatim>\<open>json.Unmarshal(data, &p)\<close> for a pointer variable \<open>p\<close> (nil is \<open>None\<close>): the
  target is the pointer itself. The \<^verbatim>\<open>encoding/json\<close> documentation: "To unmarshal
  JSON into a pointer, Unmarshal first handles the case of the JSON being the JSON
  literal null. In that case, Unmarshal sets the pointer to nil. Otherwise, Unmarshal
  unmarshals the JSON into the value pointed at by the pointer. If the pointer is nil,
  Unmarshal allocates a new value for it to point to." \<open>zero\<close> is that new value.
\<close>

definition json_Unmarshal_ptr ::
  "env \<Rightarrow> (json \<Rightarrow> 'a \<Rightarrow> lib_error option \<times> 'a) \<Rightarrow> 'a \<Rightarrow> bytes \<Rightarrow> 'a option \<Rightarrow>
   lib_error option \<times> 'a option" where
  "json_Unmarshal_ptr env dec zero data p =
     (case json_parse env data of
        None \<Rightarrow> (Some SyntaxError, p)
      | Some JNull \<Rightarrow> (None, None)
      | Some j \<Rightarrow>
          (let (e, v) = dec j (case p of None \<Rightarrow> zero | Some v \<Rightarrow> v)
           in (e, Some v)))"

text \<open>\<^verbatim>\<open>MapboxAPIMessage\<close> has no field tag: the JSON name of its field is the Go name.\<close>

definition store_MapboxAPIMessage ::
  "string \<Rightarrow> json \<Rightarrow> MapboxAPIMessage \<Rightarrow> lib_error option \<times> MapboxAPIMessage" where
  "store_MapboxAPIMessage n j m =
     (let (e, s) = store_string j (Message m) in (e, m\<lparr>Message := s\<rparr>))"

definition unmarshal_MapboxAPIMessage ::
  "env \<Rightarrow> json \<Rightarrow> MapboxAPIMessage \<Rightarrow> lib_error option \<times> MapboxAPIMessage" where
  "unmarshal_MapboxAPIMessage env =
     unmarshal_struct (fold_name env) [''Message''] store_MapboxAPIMessage"

subsection \<open>The requests of package base\<close>

text \<open>
  Each function takes the world and returns it updated. A Go result \<^verbatim>\<open>([]byte, error)\<close>
  or \<^verbatim>\<open>(*T, error)\<close> is a pair of options, \<open>None\<close> for nil.
\<close>

definition SimpleGET ::
  "env \<Rightarrow> Base \<Rightarrow> string \<Rightarrow> world \<Rightarrow> (bytes option \<times> error option) \<times> world" where
  "SimpleGET env b url w =
     (let url = Sprintf ''%s/%s?access_token=%s'' [BaseURL, url, token b]
      in case http_Get env url w of
           (Failed err, w1) \<Rightarrow> ((None, Some (LibError err)), w1)
         | (RedirectFailed response err, w1) \<Rightarrow> ((None, Some (LibError err)), w1)
         | (Replied response, w1) \<Rightarrow>
             (let (body, _) = ioutil_ReadAll (Body response)
              in ((Some body, None), w1)))"

text \<open>
  \<^verbatim>\<open>PostRequest\<close> does not look at the error of \<^verbatim>\<open>http.NewRequest\<close>: when the URL
  does not parse, \<^verbatim>\<open>request\<close> is nil, and \<^verbatim>\<open>request.Header.Set\<close> (for data that is
  not nil) or else \<^verbatim>\<open>client.Do\<close> dereferences it. \<^verbatim>\<open>bytes.NewBuffer(nil)\<close> is an empty
  buffer.
\<close>

definition PostRequest ::
  "env \<Rightarrow> Base \<Rightarrow> string \<Rightarrow> bytes option \<Rightarrow> world \<Rightarrow>
   (bytes option \<times> error option) outcome \<times> world" where
  "PostRequest env b postURL data w =
     (let postURL = Sprintf ''%s/%s?access_token=%s'' [BaseURL, postURL, token b]
      in case http_NewRequest env ''POST'' postURL (Raw (bytes_of data)) of
           Inl err \<Rightarrow> (Panics, w)
         | Inr request \<Rightarrow>
             (let request =
                    (if data \<noteq> None
                     then request\<lparr>Header := Header_Set ''Content-Type'' ''application/json'' (Header request)\<rparr>
                     else request)
              in case client_Do env request w of
                   (Failed err, w1) \<Rightarrow> (Returns (None, Some (LibError err)), w1)
                 | (RedirectFailed response err, w1) \<Rightarrow> (Returns (None, Some (LibError err)), w1)
                 | (Replied response, w1) \<Rightarrow>
                     (let (body, _) = ioutil_ReadAll (Body response)
                      in (Returns (Some body, None), w1))))"

text \<open>
  In \<^verbatim>\<open>PostUploadFileRequest\<close> the multipart writer writes to a buffer in memory, so
  \<^verbatim>\<open>CreateFormFile\<close> does not fail; \<^verbatim>\<open>io.Copy\<close> copies what can be read of the file
  and its error is dropped. The error of \<^verbatim>\<open>client.Do\<close> is overwritten by the one of
  \<^verbatim>\<open>ioutil.ReadAll(response.Body)\<close>, which dereferences \<^verbatim>\<open>response\<close>: a nil
  response panics there. The status is tested before the error of the read.
\<close>

definition PostUploadFileRequest ::
  "env \<Rightarrow> Base \<Rightarrow> string \<Rightarrow> string \<Rightarrow> string \<Rightarrow> world \<Rightarrow>
   (bytes option \<times> error option) outcome \<times> world" where
  "PostUploadFileRequest env b postURL file filetype w =
     (case os_Open env file of
        Inl err \<Rightarrow> (Returns (None, Some (LibError err)), w)
      | Inr geoJSON \<Rightarrow>
          (let body = Multipart filetype (filepath_Base (Name geoJSON)) (fst (Contents geoJSON));
               postURL = Sprintf ''%s/%s/?access_token=%s'' [BaseURL, postURL, token b]
           in case http_NewRequest env ''POST'' postURL body of
                Inl err \<Rightarrow> (Returns (None, Some (LibError err)), w)
              | Inr request \<Rightarrow>
                  (let request = request\<lparr>Header := Header_Add ''Content-Type'' ''multipart/form-data'' (Header request)\<rparr>;
                       (res, w1) = client_Do env request w
                   in case response_of res of
                        None \<Rightarrow> (Panics, w1)
                      | Some response \<Rightarrow>
                          (let (resBody, err) = ioutil_ReadAll (Body response)
                           in if StatusCode response \<noteq> StatusOK then
                                (let (messageErr, apiMessage) =
                                       json_Unmarshal env (unmarshal_MapboxAPIMessage env) resBody \<lparr>Message = ''''\<rparr>
                                 in if messageErr = None
                                    then (Returns (None, Some (fmt_Errorf ''api error: %s'' [Message apiMessage])), w1)
                                    else (Returns (None, Some (fmt_Errorf ''Bad Request (400) - no message'' [])), w1))
                              else
                                (case err of
                                   Some e \<Rightarrow> (Returns (None, Some (LibError e)), w1)
                                 | None \<Rightarrow> (Returns (Some resBody, None), Println resBody w1))))))"

text \<open>
  \<^verbatim>\<open>QueryRequest\<close> writes the token into the caller's \<^verbatim>\<open>url.Values\<close> first; the
  updated values are returned with the result.
\<close>

definition QueryRequest ::
  "env \<Rightarrow> Base \<Rightarrow> string \<Rightarrow> url_Values \<Rightarrow> world \<Rightarrow>
   ((response option \<times> error option) \<times> url_Values) \<times> world" where
  "QueryRequest env b query v w =
     (let v = v(''access_token'' \<mapsto> [token b]);
          url = Sprintf ''%s/%s'' [BaseURL, query];
          w0 = (if debug b then print (Text (Sprintf (''URL: %s'' @ newline) [url])) w else w)
      in case http_NewRequest env ''GET'' url NoBody of
           Inl err \<Rightarrow> (((None, Some (LibError err)), v), w0)
         | Inr request \<Rightarrow>
             (let request = request\<lparr>RawQuery := Some v\<rparr>
              in case client_Do env request w0 of
                   (Failed err, w1) \<Rightarrow> (((None, Some (LibError err)), v), w1)
                 | (RedirectFailed resp err, w1) \<Rightarrow> (((None, Some (LibError err)), v), w1)
                 | (Replied resp, w1) \<Rightarrow>
                     (let w2 = (if debug b
                                then print (ResponseDump resp) (print (RequestDump request) w1)
                                else w1)
                      in if StatusCode resp = statusRateLimitExceeded
                         then (((None, Some ErrorAPILimitExceeded), v), w2)
                         else if StatusCode resp = StatusUnauthorized
                         then (((None, Some ErrorAPIUnauthorized), v), w2)
                         else (((Some resp, None), v), w2))))"

text \<open>
  \<^verbatim>\<open>QueryBase\<close> decodes into \<^verbatim>\<open>inst\<close>, a value of a type the caller chose: \<open>dec\<close> is
  the decoder of that type. The result is the error returned and \<^verbatim>\<open>inst\<close> afterwards.
  \<^verbatim>\<open>defer resp.Body.Close()\<close> dereferences \<^verbatim>\<open>resp\<close>.
\<close>

definition QueryBase ::
  "env \<Rightarrow> (json \<Rightarrow> 'i \<Rightarrow> lib_error option \<times> 'i) \<Rightarrow> Base \<Rightarrow> string \<Rightarrow> url_Values \<Rightarrow> 'i \<Rightarrow> world \<Rightarrow>
   ((error option \<times> 'i) outcome \<times> url_Values) \<times> world" where
  "QueryBase env dec b query v inst w =
     (let (((resp, err), v), w1) = QueryRequest env b query v w;
          not_bad_request = (case resp of None \<Rightarrow> True | Some r \<Rightarrow> StatusCode r \<noteq> StatusBadRequest)
      in if err \<noteq> None \<and> not_bad_request then ((Returns (err, inst), v), w1)
         else
           (case resp of
              None \<Rightarrow> ((Panics, v), w1)
            | Some resp \<Rightarrow>
                (let (body, err) = ioutil_ReadAll (Body resp)
                 in case err of
                      Some e \<Rightarrow> ((Returns (Some (LibError e), inst), v), w1)
                    | None \<Rightarrow>
                        if StatusCode resp = StatusBadRequest then
                          (let (messageErr, apiMessage) =
                                 json_Unmarshal env (unmarshal_MapboxAPIMessage env) body \<lparr>Message = ''''\<rparr>
                           in if messageErr = None
                              then ((Returns (Some (fmt_Errorf ''api error: %s'' [Message apiMessage]), inst), v), w1)
                              else ((Returns (Some (fmt_Errorf ''Bad Request (400) - no message'' []), inst), v), w1))
                        else
                          (let (err, inst) = json_Unmarshal env dec body inst
                           in case err of
                                Some e \<Rightarrow> ((Returns (Some (LibError e), inst), v), w1)
                              | None \<Rightarrow> ((Returns (None, inst), v), w1)))))"

definition Query ::
  "env \<Rightarrow> (json \<Rightarrow> 'i \<Rightarrow> lib_error option \<times> 'i) \<Rightarrow> Base \<Rightarrow> string \<Rightarrow> string \<Rightarrow> string \<Rightarrow> string \<Rightarrow>
   url_Values \<Rightarrow> 'i \<Rightarrow> world \<Rightarrow> ((error option \<times> 'i) outcome \<times> url_Values) \<times> world" where
  "Query env dec b api version mode query v inst w =
     (let queryString = Sprintf ''%s/%s/%s/%s'' [api, version, mode, query]
      in QueryBase env dec b queryString v inst w)"

section \<open>Package tilesets\<close>

abbreviation apiName :: string where
  "apiName \<equiv> ''tilesets''"

abbreviation apiVersion :: string where
  "apiVersion \<equiv> ''v1''"

text \<open>
  \<^verbatim>\<open>Tileset\<close> holds a pointer to its \<^verbatim>\<open>Base\<close>; the tileset client only reads it, so
  the record holds the \<^verbatim>\<open>Base\<close> itself. The fields \<^verbatim>\<open>Message\<close> and \<^verbatim>\<open>ID\<close> occur in
  several structs; here they are \<open>PublishMessage\<close>, \<open>UploadID\<close> and \<open>StatusID\<close>.
\<close>

record Tileset =
  base :: Base
  username :: string
  tilesetID :: string

record UploadResponse =
  FileSize :: int
  Files :: int
  SourceSize :: int
  UploadID :: string

record PublishResponse =
  PublishMessage :: string
  JobID :: string

record StatusResponse =
  StatusID :: string
  LatestJob :: string
  Status :: string

text \<open>The decoders of the three structs, by the JSON names of their field tags.\<close>

definition store_UploadResponse ::
  "string \<Rightarrow> json \<Rightarrow> UploadResponse \<Rightarrow> lib_error option \<times> UploadResponse" where
  "store_UploadResponse n j r =
     (if n = ''file_size'' then (let (e, x) = store_int j (FileSize r) in (e, r\<lparr>FileSize := x\<rparr>))
      else if n = ''files'' then (let (e, x) = store_int j (Files r) in (e, r\<lparr>Files := x\<rparr>))
      else if n = ''source_size'' then (let (e, x) = store_int j (SourceSize r) in (e, r\<lparr>SourceSize := x\<rparr>))
      else (let (e, x) = store_string j (UploadID r) in (e, r\<lparr>UploadID := x\<rparr>)))"

definition unmarshal_UploadResponse ::
  "env \<Rightarrow> json \<Rightarrow> UploadResponse \<Rightarrow> lib_error option \<times> UploadResponse" where
  "unmarshal_UploadResponse env =
     unmarshal_struct (fold_name env) [''file_size'', ''files'', ''source_size'', ''id''] store_UploadResponse"

definition store_PublishResponse ::
  "string \<Rightarrow> json \<Rightarrow> PublishResponse \<Rightarrow> lib_error option \<times> PublishResponse" where
  "store_PublishResponse n j r =
     (if n = ''message'' then (let (e, x) = store_string j (PublishMessage r) in (e, r\<lparr>PublishMessage := x\<rparr>))
      else (let (e, x) = store_string j (JobID r) in (e, r\<lparr>JobID := x\<rparr>)))"

definition unmarshal_PublishResponse ::
  "env \<Rightarrow> json \<Rightarrow> PublishResponse \<Rightarrow> lib_error option \<times> PublishResponse" where
  "unmarshal_PublishResponse env =
     unmarshal_struct (fold_name env) [''message'', ''jobId''] store_PublishResponse"

definition store_StatusResponse ::
  "string \<Rightarrow> json \<Rightarrow> StatusResponse \<Rightarrow> lib_error option \<times> StatusResponse" where
  "store_StatusResponse n j r =
     (if n = ''id'' then (let (e, x) = store_string j (StatusID r) in (e, r\<lparr>StatusID := x\<rparr>))
      else if n = ''latest_job'' then (let (e, x) = store_string j (LatestJob r) in (e, r\<lparr>LatestJob := x\<rparr>))
      else (let (e, x) = store_string j (Status r) in (e, r\<lparr>Status := x\<rparr>)))"

definition unmarshal_StatusResponse ::
  "env \<Rightarrow> json \<Rightarrow> StatusResponse \<Rightarrow> lib_error option \<times> StatusResponse" where
  "unmarshal_StatusResponse env =
     unmarshal_struct (fold_name env) [''id'', ''latest_job'', ''status''] store_StatusResponse"

definition NewTileset :: "Base \<Rightarrow> Tileset" where
  "NewTileset b = \<lparr>base = b, username = '''', tilesetID = ''''\<rparr>"

definition SetTileset :: "Tileset \<Rightarrow> string \<Rightarrow> string \<Rightarrow> Tileset" where
  "SetTileset t u i = t\<lparr>username := u, tilesetID := i\<rparr>"

definition postURL :: "Tileset \<Rightarrow> string" where
  "postURL t =
     Sprintf ''%s/%s/%s'' [apiName, apiVersion, Sprintf ''%s.%s'' [username t, tilesetID t]]"

text \<open>
  \<^verbatim>\<open>UploadGeoJSON\<close> decodes into the struct that \<^verbatim>\<open>uploadResponse\<close> points to. When the
  decoding fails it calls \<^verbatim>\<open>log.Fatal(err)\<close>, which logs the error and ends the process
  with exit status 1: nothing is returned.
\<close>

definition UploadGeoJSON ::
  "env \<Rightarrow> Tileset \<Rightarrow> string \<Rightarrow> world \<Rightarrow> (UploadResponse option \<times> error option) outcome \<times> world" where
  "UploadGeoJSON env t pathToFile w =
     (let url = Sprintf ''%s/%s/sources/%s/%s'' [apiName, apiVersion, username t, tilesetID t];
          uploadResponse = \<lparr>FileSize = 0, Files = 0, SourceSize = 0, UploadID = ''''\<rparr>
      in case PostUploadFileRequest env (base t) url pathToFile ''file'' w of
           (Panics, w1) \<Rightarrow> (Panics, w1)
         | (Exits c, w1) \<Rightarrow> (Exits c, w1)
         | (Returns (res, Some err), w1) \<Rightarrow> (Returns (None, Some err), w1)
         | (Returns (res, None), w1) \<Rightarrow>
             (let (err, uploadResponse) =
                    json_Unmarshal env (unmarshal_UploadResponse env) (bytes_of res) uploadResponse
              in case err of
                   Some e \<Rightarrow> (Exits 1, print (Logged (LibError e)) w1)
                 | None \<Rightarrow> (Returns (Some uploadResponse, None), w1)))"

text \<open>
  \<^verbatim>\<open>CreateTileset\<close> and \<^verbatim>\<open>PublishTileset\<close> decode into the address of their pointer
  variable, and drop the error of the decoding.
\<close>

definition CreateTileset ::
  "env \<Rightarrow> Tileset \<Rightarrow> string \<Rightarrow> world \<Rightarrow> (MapboxAPIMessage option \<times> error option) outcome \<times> world" where
  "CreateTileset env t pathToFile w =
     (let maboxAPIMessage = Some \<lparr>Message = ''''\<rparr>
      in case os_Open env pathToFile of
           Inl err \<Rightarrow> (Returns (None, Some (LibError err)), w)
         | Inr recipeJSON \<Rightarrow>
             (let (data, _) = ioutil_ReadAll (Contents recipeJSON)
              in case PostRequest env (base t) (postURL t) (Some data) w of
                   (Panics, w1) \<Rightarrow> (Panics, w1)
                 | (Exits c, w1) \<Rightarrow> (Exits c, w1)
                 | (Returns (res, Some err), w1) \<Rightarrow> (Returns (None, Some err), w1)
                 | (Returns (res, None), w1) \<Rightarrow>
                     (let (_, maboxAPIMessage) =
                            json_Unmarshal_ptr env (unmarshal_MapboxAPIMessage env) \<lparr>Message = ''''\<rparr>
                              (bytes_of res) maboxAPIMessage
                      in (Returns (maboxAPIMessage, None), w1))))"

definition PublishTileset ::
  "env \<Rightarrow> Tileset \<Rightarrow> world \<Rightarrow> (PublishResponse option \<times> error option) outcome \<times> world" where
  "PublishTileset env t w =
     (let publishResponse = Some \<lparr>PublishMessage = '''', JobID = ''''\<rparr>
      in case PostRequest env (base t) (postURL t @ ''/publish'') None w of
           (Panics, w1) \<Rightarrow> (Panics, w1)
         | (Exits c, w1) \<Rightarrow> (Exits c, w1)
         | (Returns (res, Some err), w1) \<Rightarrow> (Returns (None, Some err), w1)
         | (Returns (res, None), w1) \<Rightarrow>
             (let w2 = Println (bytes_of res) w1;
                  (_, publishResponse) =
                    json_Unmarshal_ptr env (unmarshal_PublishResponse env) \<lparr>PublishMessage = '''', JobID = ''''\<rparr>
                      (bytes_of res) publishResponse
              in (Returns (publishResponse, None), w2)))"

text \<open>
  One pass through the body of the loop of \<^verbatim>\<open>CheckJobStatus\<close>: it returns from the
  function (\<open>LoopReturn\<close>, with the error returned) or reaches the end of the body
  (\<open>LoopAgain\<close>). The error of the decoding is dropped.
\<close>

datatype loop_step = LoopReturn "error option" world | LoopAgain world

definition CheckJobStatus_body :: "env \<Rightarrow> Tileset \<Rightarrow> world \<Rightarrow> loop_step" where
  "CheckJobStatus_body env t w =
     (let statusResponse = \<lparr>StatusID = '''', LatestJob = '''', Status = ''''\<rparr>
      in case SimpleGET env (base t) (postURL t @ ''/status'') w of
           ((res, Some err), w1) \<Rightarrow> LoopReturn (Some err) w1
         | ((res, None), w1) \<Rightarrow>
             (let (_, statusResponse) =
                    json_Unmarshal env (unmarshal_StatusResponse env) (bytes_of res) statusResponse
              in if Status statusResponse = ''failed'' then LoopReturn None (Println ''Job failed'' w1)
                 else if Status statusResponse = ''success'' then LoopReturn None (Println ''Job complete'' w1)
                 else LoopAgain (time_Sleep (5 * time_Second) (Println (Status statusResponse) w1))))"

text \<open>
  The loop \<^verbatim>\<open>for { ... }\<close> has no condition: it ends only by a \<^verbatim>\<open>return\<close> in its
  body. \<open>None\<close> is the loop that never returns.
\<close>

partial_function (option) CheckJobStatus_loop ::
  "env \<Rightarrow> Tileset \<Rightarrow> world \<Rightarrow> (error option \<times> world) option" where
  "CheckJobStatus_loop env t w =
     (case CheckJobStatus_body env t w of
        LoopReturn err w1 \<Rightarrow> Some (err, w1)
      | LoopAgain w1 \<Rightarrow> CheckJobStatus_loop env t w1)"

definition CheckJobStatus :: "env \<Rightarrow> Tileset \<Rightarrow> world \<Rightarrow> (error option \<times> world) option" where
  "CheckJobStatus env t w =
     CheckJobStatus_loop env t (Println ''Awaiting job completion. This may take some time...'' w)"

section \<open>Notions used to state the properties\<close>

text \<open>
  What one poll of \<^verbatim>\<open>CheckJobStatus\<close> made in the world \<open>w\<close> observes: the error
  of the status GET, or else the \<^verbatim>\<open>Status\<close> field decoded from the body into a fresh
  \<^verbatim>\<open>StatusResponse\<close>.
\<close>

definition polled :: "env \<Rightarrow> Tileset \<Rightarrow> world \<Rightarrow> error + string" where
  "polled env t w =
     (case fst (SimpleGET env (base t) (postURL t @ ''/status'') w) of
        (res, Some err) \<Rightarrow> Inl err
      | (res, None) \<Rightarrow>
          Inr (Status (snd (json_Unmarshal env (unmarshal_StatusResponse env) (bytes_of res)
                 \<lparr>StatusID = '''', LatestJob = '''', Status = ''''\<rparr>))))"

text \<open>The world in which one pass through the loop body ends.\<close>

fun step_world :: "loop_step \<Rightarrow> world" where
  "step_world (LoopReturn e w) = w"
| "step_world (LoopAgain w) = w"

text \<open>
  What the server reads from a request: its query parameters, as \<^verbatim>\<open>net/url\<close> splits
  them. \<^verbatim>\<open>strings.Cut\<close> cuts a text at the first occurrence of a separator (here always
  one character): the text before it and, when it occurs, the text after it.
\<close>

fun strings_Cut :: "char \<Rightarrow> string \<Rightarrow> string \<times> string option" where
  "strings_Cut sep [] = ([], None)"
| "strings_Cut sep (c # cs) =
     (if c = sep then ([], Some cs)
      else (case strings_Cut sep cs of (pre, post) \<Rightarrow> (c # pre, post)))"

text \<open>
  \<^verbatim>\<open>url.Parse\<close>, which \<^verbatim>\<open>http.NewRequest\<close> calls on the text of the URL, first cuts
  the fragment off at the first \<^verbatim>\<open>#\<close>; the query is what follows the first \<^verbatim>\<open>?\<close> of
  the rest (the scheme \<^verbatim>\<open>https\<close> has neither character). The fragment is not sent.
\<close>

definition url_RawQuery :: "string \<Rightarrow> string" where
  "url_RawQuery rawURL =
     (let (u, frag) = strings_Cut CHR ''#'' rawURL;
          (rest, query) = strings_Cut CHR ''?'' u
      in case query of None \<Rightarrow> [] | Some q \<Rightarrow> q)"

definition unhex :: "char \<Rightarrow> nat option" where
  "unhex c =
     (let n = (of_char c :: nat)
      in if 48 \<le> n \<and> n \<le> 57 then Some (n - 48)
         else if 97 \<le> n \<and> n \<le> 102 then Some (n - 87)
         else if 65 \<le> n \<and> n \<le> 70 then Some (n - 55)
         else None)"

text \<open>
  \<^verbatim>\<open>url.QueryUnescape\<close>: \<^verbatim>\<open>%XY\<close> is the byte with the hexadecimal digits \<^verbatim>\<open>XY\<close>,
  \<^verbatim>\<open>+\<close> is a space, and a \<^verbatim>\<open>%\<close> that two hexadecimal digits do not follow is an
  error (\<open>None\<close>).
\<close>

fun QueryUnescape :: "string \<Rightarrow> string option" where
  "QueryUnescape [] = Some []"
| "QueryUnescape (c # cs) =
     (if c = CHR ''%'' then
        (case cs of
           h1 # h2 # rest \<Rightarrow>
             (case (unhex h1, unhex h2) of
                (Some a, Some b) \<Rightarrow> map_option ((#) (char_of (16 * a + b))) (QueryUnescape rest)
              | _ \<Rightarrow> None)
         | _ \<Rightarrow> None)
      else if c = CHR ''+'' then map_option ((#) CHR '' '') (QueryUnescape cs)
      else map_option ((#) c) (QueryUnescape cs))"

text \<open>The pieces of a text between the occurrences of a separator.\<close>

fun split_on :: "char \<Rightarrow> string \<Rightarrow> string list" where
  "split_on sep [] = [[]]"
| "split_on sep (c # cs) =
     (if c = sep then [] # split_on sep cs
      else (case split_on sep cs of
              [] \<Rightarrow> [[c]]
            | p # ps \<Rightarrow> (c # p) # ps))"

text \<open>
  \<^verbatim>\<open>url.ParseQuery\<close> takes the pieces between the \<^verbatim>\<open>&\<close> one after the other. It skips
  an empty piece and a piece with a \<^verbatim>\<open>;\<close> in it, cuts the piece at its first \<^verbatim>\<open>=\<close>
  into key and value, unescapes both and skips the piece when that fails. The result
  lists the pairs of key and value in the order of the query. \<^verbatim>\<open>URL.Query\<close> drops the
  error of \<^verbatim>\<open>ParseQuery\<close> and keeps the pairs.
\<close>

definition ParseQuery :: "string \<Rightarrow> (string \<times> string) list" where
  "ParseQuery query =
     concat (map (\<lambda>piece.
        if CHR 0x3B \<in> set piece \<or> piece = [] then []
        else
          (let (key, vl) = strings_Cut CHR ''='' piece
           in case (QueryUnescape key, QueryUnescape (case vl of None \<Rightarrow> [] | Some x \<Rightarrow> x)) of
                (Some k, Some x) \<Rightarrow> [(k, x)]
              | _ \<Rightarrow> []))
       (split_on CHR ''&'' query))"

text \<open>
  The values of the query parameter \<open>key\<close> of a request, in their order. A request
  whose query was set from \<^verbatim>\<open>url.Values\<close> is sent with the text \<^verbatim>\<open>Encode\<close> makes of
  them, which escapes keys and values and so reads back as these values; otherwise the
  query is the one in the text of the URL.
\<close>

definition URL_Query :: "request \<Rightarrow> string \<Rightarrow> string list" where
  "URL_Query r key =
     (case RawQuery r of
        Some v \<Rightarrow> (case v key of None \<Rightarrow> [] | Some xs \<Rightarrow> xs)
      | None \<Rightarrow> map snd (filter (\<lambda>p. fst p = key) (ParseQuery (url_RawQuery (URL r)))))"

section \<open>A concrete world for the runs below\<close>

text \<open>
  The properties are stated for every environment. Their instances on concrete runs use
  this one: \<^verbatim>\<open>net/url\<close> rejects a URL with a line feed in it, the file system holds two
  files, keys are folded by upper-casing ASCII letters, and the JSON reader knows the
  texts that occur in the runs (it stands for \<^verbatim>\<open>encoding/json\<close> on these texts and
  rejects every other one, among them \<^verbatim>\<open><html>\<close>). The network is the parameter.
\<close>

definition ascii_upper :: "char \<Rightarrow> char" where
  "ascii_upper c =
     (let n = (of_char c :: nat)
      in if 97 \<le> n \<and> n \<le> 122
         then (case c of Char b0 b1 b2 b3 b4 b5 b6 b7 \<Rightarrow> Char b0 b1 b2 b3 b4 False b6 b7)
         else c)"

definition demo_parse :: "bytes \<Rightarrow> json option" where
  \<open>demo_parse s =
     (if s = ''{"status":"processing"}'' then Some (JObject [(''status'', JString ''processing'')])
      else if s = ''{"status":"success"}'' then Some (JObject [(''status'', JString ''success'')])
      else if s = ''{"message":"Not Found"}'' then Some (JObject [(''message'', JString ''Not Found'')])
      else if s = ''{"message":17}'' then Some (JObject [(''message'', JNumber (IntLit 17))])
      else if s = ''{"id":"src1","files":1}'' then
        Some (JObject [(''id'', JString ''src1''), (''files'', JNumber (IntLit 1))])
      else if s = ''null'' then Some JNull
      else None)\<close>

definition demo_files :: "string \<Rightarrow> lib_error + os_File" where
  "demo_files p =
     (if p = ''recipe.json'' then Inr \<lparr>Name = p, Contents = (''{}'', None)\<rparr>
      else if p = ''data/points.geojson'' then Inr \<lparr>Name = p, Contents = (''{}'', None)\<rparr>
      else Inl (PathError ''no such file or directory''))"

definition demo_env :: "(nat \<Rightarrow> request \<Rightarrow> http_result) \<Rightarrow> env" where
  "demo_env net =
     \<lparr>url_error = (\<lambda>u. if CHR 0x0A \<in> set u
                        then Some (URLError ''invalid control character in URL'') else None),
      round_trip = net,
      os_Open = demo_files,
      json_parse = demo_parse,
      fold_name = map ascii_upper\<rparr>"

text \<open>A network that answers every request with status \<open>code\<close> and the body \<open>body\<close>.\<close>

definition always_reply :: "int \<Rightarrow> bytes \<Rightarrow> nat \<Rightarrow> request \<Rightarrow> http_result" where
  "always_reply code body k req = Replied \<lparr>StatusCode = code, Body = (body, None)\<rparr>"

text \<open>A network whose first \<open>n\<close> answers have the body \<open>first\<close> and all later ones \<open>later\<close>.\<close>

definition reply_then :: "nat \<Rightarrow> bytes \<Rightarrow> bytes \<Rightarrow> nat \<Rightarrow> request \<Rightarrow> http_result" where
  "reply_then n first later k req =
     Replied \<lparr>StatusCode = 200, Body = (if k < n then first else later, None)\<rparr>"

text \<open>A network on which every round trip fails with the error \<open>e\<close>.\<close>

definition always_fail :: "lib_error \<Rightarrow> nat \<Rightarrow> request \<Rightarrow> http_result" where
  "always_fail e k req = Failed e"

text \<open>
  A network that answers every request with status \<open>code\<close> and a body whose read breaks
  off with the error \<open>e\<close> after the bytes \<open>body\<close>.
\<close>

definition reply_truncated :: "int \<Rightarrow> bytes \<Rightarrow> lib_error \<Rightarrow> nat \<Rightarrow> request \<Rightarrow> http_result" where
  "reply_truncated code body e k req = Replied \<lparr>StatusCode = code, Body = (body, Some e)\<rparr>"

definition demo_base :: Base where
  "demo_base = \<lparr>token = ''pk.abc'', debug = False\<rparr>"

definition demo_tileset :: Tileset where
  "demo_tileset = SetTileset (NewTileset demo_base) ''alice'' ''roads''"

definition world0 :: world where
  "world0 = \<lparr>sent = [], slept = 0, printed = []\<rparr>"

section \<open>Properties of NewBase and SetDebug\<close>

text \<open>
  Claim C8. Whatever boolean \<^verbatim>\<open>SetDebug\<close> is given, \<open>False\<close> included, the debug
  field is true afterwards and the token is untouched: the argument is ignored. So no
  call, and no non-empty sequence of calls, of \<^verbatim>\<open>SetDebug\<close> leaves debug output off,
  whatever the arguments and whatever the \<^verbatim>\<open>Base\<close> was before.
\<close>

theorem SetDebug_always_enables:
  "debug (SetDebug b dbg) = True
   \<and> debug (SetDebug b False) = True
   \<and> SetDebug b dbg = SetDebug b (\<not> dbg)
   \<and> token (SetDebug b dbg) = token b
   \<and> debug (foldl SetDebug b (d # ds)) = True"
proof -
  have step: "debug (foldl SetDebug b' xs) = True" if "debug b' = True" for b' xs
    using that by (induction xs arbitrary: b') (simp_all add: SetDebug_def)
  have "debug (foldl SetDebug (SetDebug b d) ds) = True"
    by (rule step) (simp add: SetDebug_def)
  then show ?thesis
    by (simp add: SetDebug_def)
qed

text \<open>
  Claim C9. \<^verbatim>\<open>NewBase\<close> returns an error exactly when the token is the empty string
  (and then no \<^verbatim>\<open>Base\<close>); for every other token it returns no error and a \<^verbatim>\<open>Base\<close>
  holding that token, with debug off.
\<close>

theorem NewBase_error_iff_empty:
  "(snd (NewBase tok) \<noteq> None \<longleftrightarrow> tok = '''')
   \<and> (tok = '''' \<longrightarrow> fst (NewBase tok) = None)
   \<and> (tok \<noteq> '''' \<longrightarrow> NewBase tok = (Some \<lparr>token = tok, debug = False\<rparr>, None))"
  by (simp add: NewBase_def)

theorem NewBase_error_iff_empty_witness:
  "''pk.abc'' \<noteq> ''''
   \<and> NewBase ''pk.abc'' = (Some \<lparr>token = ''pk.abc'', debug = False\<rparr>, None)
   \<and> snd (NewBase '''') \<noteq> None
   \<and> fst (NewBase '''') = None"
  using NewBase_error_iff_empty [of "''pk.abc''"] NewBase_error_iff_empty [of "''''"]
  by simp

section \<open>Auxiliary facts\<close>

lemma world_simps [simp]:
  "sent (print x w) = sent w" "slept (print x w) = slept w"
  "sent (Println s w) = sent w" "slept (Println s w) = slept w"
  "sent (time_Sleep d w) = sent w" "slept (time_Sleep d w) = slept w + d"
  by (simp_all add: print_def Println_def time_Sleep_def)

lemma SimpleGET_sent:
  "SimpleGET env b url w = ((res, err), w1) \<Longrightarrow>
     slept w1 = slept w \<and> printed w1 = printed w \<and>
     (sent w1 = sent w \<or>
      sent w1 = sent w @ [\<lparr>Method = ''GET'', URL = Sprintf ''%s/%s?access_token=%s'' [BaseURL, url, token b],
                             RawQuery = None, Header = [], Payload = NoBody\<rparr>])"
  by (auto simp: SimpleGET_def http_Get_def http_NewRequest_def client_Do_def ioutil_ReadAll_def Let_def
           split: option.splits http_result.splits prod.splits sum.splits)

lemma SimpleGET_slept [simp]: "slept (snd (SimpleGET env b url w)) = slept w"
  using SimpleGET_sent [of env b url w "fst (fst (SimpleGET env b url w))" "snd (fst (SimpleGET env b url w))" "snd (SimpleGET env b url w)"]
  by simp

lemma SimpleGET_ok_sent:
  "SimpleGET env b url w = ((res, None), w1) \<Longrightarrow> length (sent w1) = Suc (length (sent w)) \<and> slept w1 = slept w"
  by (auto simp: SimpleGET_def http_Get_def http_NewRequest_def client_Do_def ioutil_ReadAll_def Let_def
           split: option.splits http_result.splits prod.splits sum.splits)

lemma SimpleGET_count:
  "length (sent w) = length (sent w') \<Longrightarrow> fst (SimpleGET env b url w) = fst (SimpleGET env b url w')"
  by (auto simp: SimpleGET_def http_Get_def http_NewRequest_def client_Do_def ioutil_ReadAll_def Let_def
           split: option.splits http_result.splits prod.splits sum.splits)

lemma polled_count:
  "length (sent w) = length (sent w') \<Longrightarrow> polled env t w = polled env t w'"
  unfolding polled_def using SimpleGET_count [of w w' env "base t" "postURL t @ ''/status''"] by simp

lemma body_return:
  "CheckJobStatus_body env t w = LoopReturn r w1 \<Longrightarrow>
     (case polled env t w of Inl e \<Rightarrow> r = Some e | Inr s \<Rightarrow> r = None \<and> (s = ''failed'' \<or> s = ''success''))"
  by (auto simp: CheckJobStatus_body_def polled_def Let_def split: prod.splits option.splits if_splits)

lemma body_again:
  "CheckJobStatus_body env t w = LoopAgain w1 \<Longrightarrow>
     (\<exists>s. polled env t w = Inr s \<and> s \<noteq> ''failed'' \<and> s \<noteq> ''success'')
     \<and> length (sent w1) = Suc (length (sent w)) \<and> slept w1 = slept w + 5 * time_Second"
  by (auto simp: CheckJobStatus_body_def polled_def Let_def dest: SimpleGET_ok_sent split: prod.splits option.splits if_splits)

lemma body_of_polled:
  "CheckJobStatus_body env t w =
     (case polled env t w of
        Inl e \<Rightarrow> LoopReturn (Some e) (snd (SimpleGET env (base t) (postURL t @ ''/status'') w))
      | Inr s \<Rightarrow>
          if s = ''failed'' then LoopReturn None (Println ''Job failed'' (snd (SimpleGET env (base t) (postURL t @ ''/status'') w)))
          else if s = ''success'' then LoopReturn None (Println ''Job complete'' (snd (SimpleGET env (base t) (postURL t @ ''/status'') w)))
          else LoopAgain (time_Sleep (5 * time_Second) (Println s (snd (SimpleGET env (base t) (postURL t @ ''/status'') w)))))"
  by (auto simp: CheckJobStatus_body_def polled_def Let_def split: prod.splits option.splits if_splits)

lemma loop_returns_from_some_pass:
  "CheckJobStatus_loop env t w = Some y \<Longrightarrow>
     \<exists>w0. length (sent w) \<le> length (sent w0) \<and> slept w \<le> slept w0 \<and> CheckJobStatus_body env t w0 = LoopReturn (fst y) (snd y)"
proof (induction env t w y rule: CheckJobStatus_loop.raw_induct [rotated 1, consumes 1])
  case (1 f env t w y)
  show ?case
  proof (cases "CheckJobStatus_body env t w")
    case (LoopReturn r w1)
    with 1(2) show ?thesis by auto
  next
    case (LoopAgain w1)
    with 1(2) have "f env t w1 = Some y" by simp
    from 1(1) [OF this] obtain w0 where
      "length (sent w1) \<le> length (sent w0)" "slept w1 \<le> slept w0" "CheckJobStatus_body env t w0 = LoopReturn (fst y) (snd y)" by blast
    moreover from body_again [OF LoopAgain] have "length (sent w) \<le> length (sent w1)" "slept w \<le> slept w1" by simp_all
    ultimately show ?thesis by (meson le_trans)
  qed
qed

lemma loop_terminates_after:
  assumes "\<forall>w0. length (sent w) \<le> length (sent w0) \<and> length (sent w0) < length (sent w) + k \<longrightarrow>
             (\<exists>s. polled env t w0 = Inr s \<and> s \<noteq> ''failed'' \<and> s \<noteq> ''success'')"
      and "\<forall>w0. length (sent w0) = length (sent w) + k \<longrightarrow> polled env t w0 = obs"
      and "case obs of Inl e \<Rightarrow> True | Inr s \<Rightarrow> s = ''failed'' \<or> s = ''success''"
  shows "\<exists>w'. CheckJobStatus_loop env t w = Some ((case obs of Inl e \<Rightarrow> Some e | Inr s \<Rightarrow> None), w')
              \<and> slept w' = slept w + k * (5 * time_Second)"
  using assms
proof (induction k arbitrary: w)
  case 0
  then have obs: "polled env t w = obs" by simp
  show ?case
    using 0(3) by (subst CheckJobStatus_loop.simps) (auto simp: body_of_polled obs split: sum.splits)
next
  case (Suc k)
  from Suc.prems(1) obtain s where s: "polled env t w = Inr s" "s \<noteq> ''failed''" "s \<noteq> ''success''"
    by fastforce
  define w1 where "w1 = time_Sleep (5 * time_Second) (Println s (snd (SimpleGET env (base t) (postURL t @ ''/status'') w)))"
  have body: "CheckJobStatus_body env t w = LoopAgain w1"
    using s by (simp add: body_of_polled w1_def)
  from body_again [OF body] have len: "length (sent w1) = Suc (length (sent w))"
    and sl: "slept w1 = slept w + 5 * time_Second" by simp_all
  have "\<exists>w'. CheckJobStatus_loop env t w1 = Some ((case obs of Inl e \<Rightarrow> Some e | Inr s \<Rightarrow> None), w')
              \<and> slept w' = slept w1 + k * (5 * time_Second)"
  proof (rule Suc.IH)
    show "\<forall>w0. length (sent w1) \<le> length (sent w0) \<and> length (sent w0) < length (sent w1) + k \<longrightarrow>
             (\<exists>s. polled env t w0 = Inr s \<and> s \<noteq> ''failed'' \<and> s \<noteq> ''success'')"
      using Suc.prems(1) len by simp
    show "\<forall>w0. length (sent w0) = length (sent w1) + k \<longrightarrow> polled env t w0 = obs"
      using Suc.prems(2) len by simp
    show "case obs of Inl e \<Rightarrow> True | Inr s \<Rightarrow> s = ''failed'' \<or> s = ''success''"
      by (rule Suc.prems(3))
  qed
  then obtain w' where "CheckJobStatus_loop env t w1 = Some ((case obs of Inl e \<Rightarrow> Some e | Inr s \<Rightarrow> None), w')"
    "slept w' = slept w1 + k * (5 * time_Second)" by blast
  moreover have "CheckJobStatus_loop env t w = CheckJobStatus_loop env t w1"
    by (subst CheckJobStatus_loop.simps) (simp add: body)
  ultimately show ?case using sl by simp
qed

lemma loop_diverges:
  assumes "\<forall>w0. length (sent w) \<le> length (sent w0) \<longrightarrow>
             (\<exists>s. polled env t w0 = Inr s \<and> s \<noteq> ''failed'' \<and> s \<noteq> ''success'')"
  shows "CheckJobStatus_loop env t w = None"
proof (rule ccontr)
  assume "CheckJobStatus_loop env t w \<noteq> None"
  then obtain y where "CheckJobStatus_loop env t w = Some y" by blast
  from loop_returns_from_some_pass [OF this] obtain w0 where
    w0: "length (sent w) \<le> length (sent w0)" "CheckJobStatus_body env t w0 = LoopReturn (fst y) (snd y)" by blast
  from assms w0(1) obtain s where "polled env t w0 = Inr s" "s \<noteq> ''failed''" "s \<noteq> ''success''" by blast
  with body_return [OF w0(2)] show False by simp
qed

text \<open>
  Claim C1. \<^verbatim>\<open>CheckJobStatus\<close> returns only from a poll whose status GET failed (and
  then with that error) or whose decoded status is \<^verbatim>\<open>"failed"\<close> or \<^verbatim>\<open>"success"\<close> (and
  then with nil). On any other observed status the pass sleeps five seconds, sends one
  request and the loop goes on from there, unchanged: no counter, deadline or growing
  delay is involved. Hence, if every later poll observes a status that is neither, the
  call never returns; and if the polls observe such statuses \<open>k\<close> times and then an
  error or a final status, the call returns after having slept \<open>k\<close> times five seconds.
  What a poll observes depends on the world only through the number of requests sent so
  far (\<open>polled_count\<close>), so "the poll after \<open>n\<close> requests" is a poll made in any world
  \<open>w0\<close> with \<open>length (sent w0) = n\<close>.
\<close>

theorem CheckJobStatus_polls_until_terminal:
  "(CheckJobStatus env t w = Some (r, w') \<longrightarrow>
      (\<exists>w0. length (sent w) \<le> length (sent w0) \<and> CheckJobStatus_body env t w0 = LoopReturn r w' \<and>
            (case polled env t w0 of
               Inl e \<Rightarrow> r = Some e
             | Inr s \<Rightarrow> r = None \<and> (s = ''failed'' \<or> s = ''success''))))
   \<and> ((\<exists>s. polled env t w1 = Inr s \<and> s \<noteq> ''failed'' \<and> s \<noteq> ''success'') \<longrightarrow>
        (\<exists>w2. CheckJobStatus_body env t w1 = LoopAgain w2 \<and> slept w2 = slept w1 + 5 * time_Second \<and>
              length (sent w2) = Suc (length (sent w1)) \<and>
              CheckJobStatus_loop env t w1 = CheckJobStatus_loop env t w2))
   \<and> ((\<forall>w0. length (sent w) \<le> length (sent w0) \<longrightarrow>
              (\<exists>s. polled env t w0 = Inr s \<and> s \<noteq> ''failed'' \<and> s \<noteq> ''success''))
        \<longrightarrow> CheckJobStatus env t w = None)
   \<and> ((\<forall>w0. length (sent w) \<le> length (sent w0) \<and> length (sent w0) < length (sent w) + k \<longrightarrow>
              (\<exists>s. polled env t w0 = Inr s \<and> s \<noteq> ''failed'' \<and> s \<noteq> ''success''))
        \<and> (\<forall>w0. length (sent w0) = length (sent w) + k \<longrightarrow> polled env t w0 = obs)
        \<and> (case obs of Inl e \<Rightarrow> True | Inr s \<Rightarrow> s = ''failed'' \<or> s = ''success'')
        \<longrightarrow> (\<exists>w'. CheckJobStatus env t w = Some ((case obs of Inl e \<Rightarrow> Some e | Inr s \<Rightarrow> None), w')
                  \<and> slept w' = slept w + k * (5 * time_Second)))"
proof (intro conjI impI)
  assume "CheckJobStatus env t w = Some (r, w')"
  then have "CheckJobStatus_loop env t (Println ''Awaiting job completion. This may take some time...'' w) = Some (r, w')"
    by (simp add: CheckJobStatus_def)
  from loop_returns_from_some_pass [OF this] obtain w0 where
    w0: "length (sent w) \<le> length (sent w0)" "CheckJobStatus_body env t w0 = LoopReturn r w'" by auto
  with body_return [OF w0(2)] show "\<exists>w0. length (sent w) \<le> length (sent w0) \<and> CheckJobStatus_body env t w0 = LoopReturn r w' \<and>
            (case polled env t w0 of
               Inl e \<Rightarrow> r = Some e
             | Inr s \<Rightarrow> r = None \<and> (s = ''failed'' \<or> s = ''success''))" by blast
next
  assume "\<exists>s. polled env t w1 = Inr s \<and> s \<noteq> ''failed'' \<and> s \<noteq> ''success''"
  then obtain s where s: "polled env t w1 = Inr s" "s \<noteq> ''failed''" "s \<noteq> ''success''" by blast
  define w2 where "w2 = time_Sleep (5 * time_Second) (Println s (snd (SimpleGET env (base t) (postURL t @ ''/status'') w1)))"
  have body: "CheckJobStatus_body env t w1 = LoopAgain w2"
    using s by (simp add: body_of_polled w2_def)
  moreover have "CheckJobStatus_loop env t w1 = CheckJobStatus_loop env t w2"
    by (subst CheckJobStatus_loop.simps) (simp add: body)
  ultimately show "\<exists>w2. CheckJobStatus_body env t w1 = LoopAgain w2 \<and> slept w2 = slept w1 + 5 * time_Second \<and>
              length (sent w2) = Suc (length (sent w1)) \<and>
              CheckJobStatus_loop env t w1 = CheckJobStatus_loop env t w2"
    using body_again [OF body] by blast
next
  assume "\<forall>w0. length (sent w) \<le> length (sent w0) \<longrightarrow>
              (\<exists>s. polled env t w0 = Inr s \<and> s \<noteq> ''failed'' \<and> s \<noteq> ''success'')"
  then show "CheckJobStatus env t w = None"
    unfolding CheckJobStatus_def by (intro loop_diverges) simp
next
  assume a: "(\<forall>w0. length (sent w) \<le> length (sent w0) \<and> length (sent w0) < length (sent w) + k \<longrightarrow>
              (\<exists>s. polled env t w0 = Inr s \<and> s \<noteq> ''failed'' \<and> s \<noteq> ''success''))
        \<and> (\<forall>w0. length (sent w0) = length (sent w) + k \<longrightarrow> polled env t w0 = obs)
        \<and> (case obs of Inl e \<Rightarrow> True | Inr s \<Rightarrow> s = ''failed'' \<or> s = ''success'')"
  show "\<exists>w'. CheckJobStatus env t w = Some ((case obs of Inl e \<Rightarrow> Some e | Inr s \<Rightarrow> None), w')
                  \<and> slept w' = slept w + k * (5 * time_Second)"
    unfolding CheckJobStatus_def
    using loop_terminates_after [of "Println ''Awaiting job completion. This may take some time...'' w" k env t obs] a
    by simp
qed

lemma Sprintf3 [simp]: "Sprintf ''%s/%s?access_token=%s'' [a, b, c] = a @ ''/'' @ b @ ''?access_token='' @ c"
  by simp

lemma postURL_eq: "postURL t = ''tilesets/v1/'' @ username t @ ''.'' @ tilesetID t"
  by (simp add: postURL_def)

lemma polled_demo_reply_then:
  \<open>polled (demo_env (reply_then n ''{"status":"processing"}'' ''{"status":"success"}'')) demo_tileset w =
     Inr (if length (sent w) < n then ''processing'' else ''success'')\<close>
  by (simp add: polled_def SimpleGET_def http_Get_def http_NewRequest_def client_Do_def ioutil_ReadAll_def
        demo_env_def reply_then_def demo_tileset_def demo_base_def SetTileset_def NewTileset_def postURL_def
        json_Unmarshal_def demo_parse_def bytes_of_def unmarshal_StatusResponse_def
        unmarshal_struct_def find_field_def store_StatusResponse_def store_string_def first_error_def)

lemma polled_demo_always_reply:
  \<open>polled (demo_env (always_reply 200 ''{"status":"processing"}'')) demo_tileset w = Inr ''processing''\<close>
  by (simp add: polled_def SimpleGET_def http_Get_def http_NewRequest_def client_Do_def ioutil_ReadAll_def
        demo_env_def always_reply_def demo_tileset_def demo_base_def SetTileset_def NewTileset_def postURL_def
        json_Unmarshal_def demo_parse_def bytes_of_def unmarshal_StatusResponse_def
        unmarshal_struct_def find_field_def store_StatusResponse_def store_string_def first_error_def)

lemma polled_demo_always_fail:
  "polled (demo_env (always_fail e)) demo_tileset w = Inl (LibError e)"
  by (simp add: polled_def SimpleGET_def http_Get_def http_NewRequest_def client_Do_def
        demo_env_def always_fail_def demo_tileset_def demo_base_def SetTileset_def NewTileset_def postURL_def)

theorem CheckJobStatus_polls_until_terminal_witness:
  \<open>(\<exists>w'. CheckJobStatus (demo_env (reply_then 2 ''{"status":"processing"}'' ''{"status":"success"}'')) demo_tileset world0
           = Some (None, w') \<and> slept w' = 10000000000)
   \<and> (\<exists>w'. CheckJobStatus (demo_env (always_fail (URLError ''timeout''))) demo_tileset world0
           = Some (Some (LibError (URLError ''timeout'')), w') \<and> slept w' = 0)
   \<and> (\<exists>w2. CheckJobStatus_body (demo_env (always_reply 200 ''{"status":"processing"}'')) demo_tileset world0
           = LoopAgain w2 \<and> slept w2 = 5000000000 \<and> length (sent w2) = 1)
   \<and> CheckJobStatus (demo_env (always_reply 200 ''{"status":"processing"}'')) demo_tileset world0 = None\<close>
proof -
  note T = CheckJobStatus_polls_until_terminal
  have "\<exists>w'. CheckJobStatus (demo_env (reply_then 2 ''{\"status\":\"processing\"}'' ''{\"status\":\"success\"}'')) demo_tileset world0
           = Some (None, w') \<and> slept w' = 10000000000"
    using T [where env = "demo_env (reply_then 2 ''{\"status\":\"processing\"}'' ''{\"status\":\"success\"}'')"
               and t = demo_tileset and w = world0 and k = 2 and obs = "Inr ''success''",
             THEN conjunct2, THEN conjunct2, THEN conjunct2]
    by (simp add: polled_demo_reply_then world0_def)
  moreover have "\<exists>w'. CheckJobStatus (demo_env (always_fail (URLError ''timeout''))) demo_tileset world0
           = Some (Some (LibError (URLError ''timeout'')), w') \<and> slept w' = 0"
    using T [where env = "demo_env (always_fail (URLError ''timeout''))"
               and t = demo_tileset and w = world0 and k = 0 and obs = "Inl (LibError (URLError ''timeout''))",
             THEN conjunct2, THEN conjunct2, THEN conjunct2]
    by (simp add: polled_demo_always_fail world0_def)
  moreover have "\<exists>w2. CheckJobStatus_body (demo_env (always_reply 200 ''{\"status\":\"processing\"}'')) demo_tileset world0
           = LoopAgain w2 \<and> slept w2 = 5000000000 \<and> length (sent w2) = 1"
    using T [where env = "demo_env (always_reply 200 ''{\"status\":\"processing\"}'')" and t = demo_tileset
               and ?w1.0 = world0, THEN conjunct2, THEN conjunct1]
    by (auto simp add: polled_demo_always_reply world0_def)
  moreover have "CheckJobStatus (demo_env (always_reply 200 ''{\"status\":\"processing\"}'')) demo_tileset world0 = None"
    using T [where env = "demo_env (always_reply 200 ''{\"status\":\"processing\"}'')" and t = demo_tileset
               and w = world0, THEN conjunct2, THEN conjunct2, THEN conjunct1]
    by (simp add: polled_demo_always_reply)
  ultimately show ?thesis by blast
qed

section \<open>The requests that are sent\<close>

lemma Sprintf_upload [simp]: "Sprintf ''%s/%s/?access_token=%s'' [a, b, c] = a @ ''/'' @ b @ ''/?access_token='' @ c"
  by simp

lemma Sprintf_query [simp]: "Sprintf ''%s/%s'' [a, b] = a @ ''/'' @ b"
  by simp

lemma Sprintf_sources [simp]: "Sprintf ''%s/%s/sources/%s/%s'' [a, b, c, d] = a @ ''/'' @ b @ ''/sources/'' @ c @ ''/'' @ d"
  by simp

lemma Sprintf_four [simp]: "Sprintf ''%s/%s/%s/%s'' [a, b, c, d] = a @ ''/'' @ b @ ''/'' @ c @ ''/'' @ d"
  by simp

lemma PostRequest_sent:
  "sent (snd (PostRequest env b url data w)) = sent w \<or>
   (\<exists>r. sent (snd (PostRequest env b url data w)) = sent w @ [r] \<and> Method r = ''POST'' \<and>
        URL r = BaseURL @ ''/'' @ url @ ''?access_token='' @ token b \<and> RawQuery r = None)"
  by (auto simp: PostRequest_def http_NewRequest_def client_Do_def ioutil_ReadAll_def Let_def
           split: option.splits http_result.splits prod.splits sum.splits)

lemma PostRequest_frame [simp]:
  "slept (snd (PostRequest env b url data w)) = slept w"
  "printed (snd (PostRequest env b url data w)) = printed w"
  by (auto simp: PostRequest_def http_NewRequest_def client_Do_def ioutil_ReadAll_def Let_def
           split: option.splits http_result.splits prod.splits sum.splits)

lemma PostUploadFileRequest_sent:
  "sent (snd (PostUploadFileRequest env b url file ft w)) = sent w \<or>
   (\<exists>r. sent (snd (PostUploadFileRequest env b url file ft w)) = sent w @ [r] \<and> Method r = ''POST'' \<and>
        URL r = BaseURL @ ''/'' @ url @ ''/?access_token='' @ token b \<and> RawQuery r = None)"
  by (auto simp: PostUploadFileRequest_def http_NewRequest_def client_Do_def ioutil_ReadAll_def Let_def Println_def print_def
           split: option.splits http_result.splits prod.splits sum.splits)

lemma QueryRequest_sent:
  "sent (snd (QueryRequest env b query v w)) = sent w \<or>
   (\<exists>r. sent (snd (QueryRequest env b query v w)) = sent w @ [r] \<and> Method r = ''GET'' \<and>
        URL r = BaseURL @ ''/'' @ query \<and>
        RawQuery r = Some (v(''access_token'' \<mapsto> [token b])))"
  by (auto simp: QueryRequest_def http_NewRequest_def client_Do_def Let_def print_def
           split: option.splits http_result.splits prod.splits sum.splits)

lemma SimpleGET_sent':
  "sent (snd (SimpleGET env b url w)) = sent w \<or>
   (\<exists>r. sent (snd (SimpleGET env b url w)) = sent w @ [r] \<and> Method r = ''GET'' \<and>
        URL r = BaseURL @ ''/'' @ url @ ''?access_token='' @ token b \<and> RawQuery r = None)"
  by (auto simp: SimpleGET_def http_Get_def http_NewRequest_def client_Do_def ioutil_ReadAll_def Let_def
           split: option.splits http_result.splits prod.splits sum.splits)

lemma postURL_SetTileset: "postURL (SetTileset t u i) = ''tilesets/v1/'' @ u @ ''.'' @ i"
  by (simp add: postURL_def SetTileset_def)

lemma CreateTileset_world:
  "snd (CreateTileset env t p w) =
     (case os_Open env p of
        Inl e \<Rightarrow> w
      | Inr f \<Rightarrow> snd (PostRequest env (base t) (postURL t) (Some (fst (Contents f))) w))"
  by (auto simp: CreateTileset_def Let_def ioutil_ReadAll_def
           split: sum.splits prod.splits outcome.splits option.splits)

lemma CreateTileset_sent:
  "sent (snd (CreateTileset env t p w)) = sent w \<or>
   (\<exists>r. sent (snd (CreateTileset env t p w)) = sent w @ [r] \<and> Method r = ''POST'' \<and>
        URL r = BaseURL @ ''/'' @ postURL t @ ''?access_token='' @ token (base t) \<and> RawQuery r = None)"
proof (cases "os_Open env p")
  case (Inl e)
  then show ?thesis by (simp add: CreateTileset_world)
next
  case (Inr f)
  then show ?thesis
    using PostRequest_sent [of env "base t" "postURL t" "Some (fst (Contents f))" w]
    by (simp add: CreateTileset_world)
qed

lemma PublishTileset_sent:
  "sent (snd (PublishTileset env t w)) = sent w \<or>
   (\<exists>r. sent (snd (PublishTileset env t w)) = sent w @ [r] \<and> Method r = ''POST'' \<and>
        URL r = BaseURL @ ''/'' @ postURL t @ ''/publish'' @ ''?access_token='' @ token (base t) \<and> RawQuery r = None)"
proof -
  have "sent (snd (PublishTileset env t w)) = sent (snd (PostRequest env (base t) (postURL t @ ''/publish'') None w))"
    by (auto simp: PublishTileset_def Let_def split: sum.splits prod.splits outcome.splits option.splits)
  then show ?thesis
    using PostRequest_sent [of env "base t" "postURL t @ ''/publish''" None w] by simp
qed

lemma UploadGeoJSON_sent:
  "sent (snd (UploadGeoJSON env t p w)) = sent w \<or>
   (\<exists>r. sent (snd (UploadGeoJSON env t p w)) = sent w @ [r] \<and> Method r = ''POST'' \<and>
        URL r = BaseURL @ ''/'' @ ''tilesets/v1/sources/'' @ username t @ ''/'' @ tilesetID t
                  @ ''/?access_token='' @ token (base t) \<and> RawQuery r = None)"
proof -
  have "sent (snd (UploadGeoJSON env t p w)) =
        sent (snd (PostUploadFileRequest env (base t) (''tilesets/v1/sources/'' @ username t @ ''/'' @ tilesetID t) p ''file'' w))"
    by (auto simp: UploadGeoJSON_def Let_def split: sum.splits prod.splits outcome.splits option.splits)
  then show ?thesis
    using PostUploadFileRequest_sent [of env "base t" "''tilesets/v1/sources/'' @ username t @ ''/'' @ tilesetID t" p "''file''" w]
    by simp
qed

lemma body_sent:
  "sent (step_world (CheckJobStatus_body env t w)) = sent w \<or>
   (\<exists>r. sent (step_world (CheckJobStatus_body env t w)) = sent w @ [r] \<and> Method r = ''GET'' \<and>
        URL r = BaseURL @ ''/'' @ postURL t @ ''/status'' @ ''?access_token='' @ token (base t) \<and> RawQuery r = None)"
proof -
  have "sent (step_world (CheckJobStatus_body env t w)) = sent (snd (SimpleGET env (base t) (postURL t @ ''/status'') w))"
    by (auto simp: CheckJobStatus_body_def Let_def split: sum.splits prod.splits option.splits)
  then show ?thesis
    using SimpleGET_sent' [of env "base t" "postURL t @ ''/status''" w] by simp
qed

lemma loop_sent:
  assumes "CheckJobStatus_loop env t w = Some y"
  shows "\<exists>rs. sent (snd y) = sent w @ rs \<and>
           (\<forall>r\<in>set rs. Method r = ''GET'' \<and>
              URL r = BaseURL @ ''/'' @ postURL t @ ''/status'' @ ''?access_token='' @ token (base t))"
  using assms
proof (induction env t w y rule: CheckJobStatus_loop.raw_induct [rotated 1, consumes 1])
  case (1 f env t w y)
  show ?case
  proof (cases "CheckJobStatus_body env t w")
    case (LoopReturn e w1)
    with 1(2) have y: "y = (e, w1)" by simp
    from body_sent [of env t w] LoopReturn y show ?thesis by auto
  next
    case (LoopAgain w1)
    with 1(2) have "f env t w1 = Some y" by simp
    from 1(1) [OF this] obtain rs where rs: "sent (snd y) = sent w1 @ rs"
      "\<forall>r\<in>set rs. Method r = ''GET'' \<and> URL r = BaseURL @ ''/'' @ postURL t @ ''/status'' @ ''?access_token='' @ token (base t)"
      by blast
    from body_sent [of env t w] LoopAgain
    consider "sent w1 = sent w" | r where "sent w1 = sent w @ [r]" "Method r = ''GET''"
      "URL r = BaseURL @ ''/'' @ postURL t @ ''/status'' @ ''?access_token='' @ token (base t)"
      by auto
    then show ?thesis
    proof cases
      case 1
      with rs show ?thesis by auto
    next
      case 2
      with rs have "sent (snd y) = sent w @ (r # rs)" by simp
      moreover from 2 rs(2) have "\<forall>x\<in>set (r # rs). Method x = ''GET'' \<and> URL x = BaseURL @ ''/'' @ postURL t @ ''/status'' @ ''?access_token='' @ token (base t)"
        by simp
      ultimately show ?thesis by blast
    qed
  qed
qed

section \<open>Request URLs\<close>

lemma demo_SimpleGET_sends:
  "length (sent (snd (SimpleGET (demo_env (always_reply 200 ''null'')) demo_base ''tilesets/v1/alice.roads/status'' world0))) = 1"
  by (simp add: SimpleGET_def http_Get_def http_NewRequest_def client_Do_def ioutil_ReadAll_def
        demo_env_def always_reply_def demo_base_def world0_def)

lemma demo_PostRequest_sends:
  "length (sent (snd (PostRequest (demo_env (always_reply 200 ''null'')) demo_base ''tilesets/v1/alice.roads'' (Some ''{}'') world0))) = 1"
  by (simp add: PostRequest_def http_NewRequest_def client_Do_def ioutil_ReadAll_def
        demo_env_def always_reply_def demo_base_def world0_def)

lemma demo_PostUploadFileRequest_sends:
  "length (sent (snd (PostUploadFileRequest (demo_env (always_reply 200 ''null'')) demo_base ''tilesets/v1/sources/alice/roads''
      ''data/points.geojson'' ''file'' world0))) = 1"
  by (simp add: PostUploadFileRequest_def http_NewRequest_def client_Do_def ioutil_ReadAll_def response_of_def
        demo_env_def always_reply_def demo_base_def world0_def demo_files_def Println_def print_def)

lemma demo_QueryRequest_sends:
  "length (sent (snd (QueryRequest (demo_env (always_reply 200 ''null'')) demo_base ''geocoding/v5/mapbox.places/x.json'' Map.empty world0))) = 1"
  by (simp add: QueryRequest_def http_NewRequest_def client_Do_def Let_def
        demo_env_def always_reply_def demo_base_def world0_def)

lemma demo_CreateTileset_sends:
  "length (sent (snd (CreateTileset (demo_env (always_reply 200 ''null'')) demo_tileset ''recipe.json'' world0))) = 1"
  by (simp add: CreateTileset_world PostRequest_def http_NewRequest_def client_Do_def ioutil_ReadAll_def
        demo_env_def always_reply_def demo_tileset_def SetTileset_def NewTileset_def demo_base_def world0_def
        demo_files_def postURL_def)

lemma demo_PublishTileset_sends:
  "length (sent (snd (PublishTileset (demo_env (always_reply 200 ''null'')) demo_tileset world0))) = 1"
  by (simp add: PublishTileset_def PostRequest_def http_NewRequest_def client_Do_def ioutil_ReadAll_def
        json_Unmarshal_ptr_def demo_parse_def bytes_of_def Println_def print_def
        demo_env_def always_reply_def demo_tileset_def SetTileset_def NewTileset_def demo_base_def world0_def postURL_def)

lemma demo_UploadGeoJSON_sends:
  "length (sent (snd (UploadGeoJSON (demo_env (always_reply 200 ''null'')) demo_tileset ''data/points.geojson'' world0))) = 1"
  by (simp add: UploadGeoJSON_def PostUploadFileRequest_def http_NewRequest_def client_Do_def ioutil_ReadAll_def response_of_def
        json_Unmarshal_def demo_parse_def bytes_of_def Println_def print_def unmarshal_UploadResponse_def unmarshal_struct_def
        demo_env_def always_reply_def demo_tileset_def SetTileset_def NewTileset_def demo_base_def world0_def demo_files_def)

lemma demo_CheckJobStatus_returns:
  "\<exists>w'. CheckJobStatus (demo_env (reply_then 2 ''{\"status\":\"processing\"}'' ''{\"status\":\"success\"}'')) demo_tileset world0
           = Some (None, w')"
  using loop_terminates_after
          [where env = "demo_env (reply_then 2 ''{\"status\":\"processing\"}'' ''{\"status\":\"success\"}'')"
             and t = demo_tileset and w = "Println ''Awaiting job completion. This may take some time...'' world0"
             and k = 2 and obs = "Inr ''success''"]
  by (auto simp add: polled_demo_reply_then world0_def CheckJobStatus_def)

section \<open>Errors that are returned\<close>

lemma is_sentinel_simps [simp]:
  "is_sentinel ErrorAPILimitExceeded" "is_sentinel ErrorAPIUnauthorized"
  "\<not> is_sentinel (ErrorString s)" "\<not> is_sentinel (LibError x)" "\<not> is_sentinel (fmt_Errorf f args)"
  "\<not> is_sentinel (errors_New s)"
  by (simp_all add: is_sentinel_def fmt_Errorf_def errors_New_def)

lemma QueryRequest_replied:
  assumes "sent (snd (QueryRequest env b q v w)) = sent w @ [req]"
      and "round_trip env (length (sent w)) req = Replied resp"
  shows "fst (fst (QueryRequest env b q v w)) =
           (if StatusCode resp = statusRateLimitExceeded then (None, Some ErrorAPILimitExceeded)
            else if StatusCode resp = StatusUnauthorized then (None, Some ErrorAPIUnauthorized)
            else (Some resp, None))"
  using assms
  by (auto simp: QueryRequest_def http_NewRequest_def client_Do_def Let_def print_def
           split: option.splits http_result.splits prod.splits sum.splits if_splits)

lemma QueryRequest_sentinel:
  assumes "fst (fst (QueryRequest env b q v w)) = (r, Some e)" and "is_sentinel e"
  shows "r = None \<and>
         (\<exists>req resp. sent (snd (QueryRequest env b q v w)) = sent w @ [req] \<and>
            round_trip env (length (sent w)) req = Replied resp \<and>
            (e = ErrorAPILimitExceeded \<and> StatusCode resp = statusRateLimitExceeded \<or>
             e = ErrorAPIUnauthorized \<and> StatusCode resp = StatusUnauthorized))"
  using assms
  by (auto simp: QueryRequest_def http_NewRequest_def client_Do_def Let_def print_def
           split: option.splits http_result.splits prod.splits sum.splits if_splits)

lemma QueryRequest_shape:
  "(\<exists>e. fst (fst (QueryRequest env b q v w)) = (None, Some e)) \<or>
   (\<exists>r. fst (fst (QueryRequest env b q v w)) = (Some r, None))"
  by (auto simp: QueryRequest_def http_NewRequest_def client_Do_def Let_def print_def
           split: option.splits http_result.splits prod.splits sum.splits if_splits)

lemma SimpleGET_error:
  "snd (fst (SimpleGET env b url w)) = Some e \<Longrightarrow> \<exists>x. e = LibError x"
  by (auto simp: SimpleGET_def http_Get_def http_NewRequest_def client_Do_def ioutil_ReadAll_def Let_def
           split: option.splits http_result.splits prod.splits sum.splits)

lemma PostRequest_error:
  "fst (PostRequest env b url data w) = Returns (r, Some e) \<Longrightarrow> r = None \<and> (\<exists>x. e = LibError x)"
  by (auto simp: PostRequest_def http_NewRequest_def client_Do_def ioutil_ReadAll_def Let_def
           split: option.splits http_result.splits prod.splits sum.splits)

lemma PostRequest_error':
  "PostRequest env b url data w = (Returns (r, Some e), w1) \<Longrightarrow> r = None \<and> (\<exists>x. e = LibError x)"
  using PostRequest_error [of env b url data w r e] by simp

lemma PostRequest_no_exit:
  "fst (PostRequest env b url data w) \<noteq> Exits c"
  by (auto simp: PostRequest_def http_NewRequest_def client_Do_def ioutil_ReadAll_def Let_def
           split: option.splits http_result.splits prod.splits sum.splits)

lemma PostUploadFileRequest_error:
  "fst (PostUploadFileRequest env b url path ft w) = Returns (r, Some e) \<Longrightarrow> r = None \<and> \<not> is_sentinel e"
  by (auto simp: PostUploadFileRequest_def http_NewRequest_def client_Do_def ioutil_ReadAll_def Let_def
           split: option.splits http_result.splits prod.splits sum.splits if_splits)

lemma PostUploadFileRequest_error':
  "PostUploadFileRequest env b url path ft w = (Returns (r, Some e), w1) \<Longrightarrow> r = None \<and> \<not> is_sentinel e"
  using PostUploadFileRequest_error [of env b url path ft w r e] by simp

lemma PostUploadFileRequest_no_exit:
  "fst (PostUploadFileRequest env b url path ft w) \<noteq> Exits c"
  by (auto simp: PostUploadFileRequest_def http_NewRequest_def client_Do_def ioutil_ReadAll_def Let_def
           split: option.splits http_result.splits prod.splits sum.splits if_splits)

lemma QueryBase_sentinel:
  assumes "fst (fst (QueryBase env dec b q v inst w)) = Returns (Some e, i)" and "is_sentinel e"
  shows "fst (fst (QueryRequest env b q v w)) = (None, Some e)"
  using assms QueryRequest_shape [of env b q v w]
  by (auto simp: QueryBase_def Let_def ioutil_ReadAll_def
           split: option.splits prod.splits if_splits)

lemma QueryBase_never_panics:
  "fst (fst (QueryBase env dec b q v inst w)) \<noteq> Panics"
  using QueryRequest_shape [of env b q v w]
  by (auto simp: QueryBase_def Let_def ioutil_ReadAll_def
           split: option.splits prod.splits if_splits)

lemma UploadGeoJSON_error:
  "fst (UploadGeoJSON env t p w) = Returns (r, Some e) \<Longrightarrow> r = None \<and> \<not> is_sentinel e"
  by (auto simp: UploadGeoJSON_def Let_def dest: PostUploadFileRequest_error'
           split: option.splits prod.splits outcome.splits)

lemma CreateTileset_error:
  "fst (CreateTileset env t p w) = Returns (r, Some e) \<Longrightarrow> r = None \<and> (\<exists>x. e = LibError x)"
  by (auto simp: CreateTileset_def Let_def dest: PostRequest_error'
           split: option.splits prod.splits outcome.splits sum.splits)

lemma PublishTileset_error:
  "fst (PublishTileset env t w) = Returns (r, Some e) \<Longrightarrow> r = None \<and> (\<exists>x. e = LibError x)"
  by (auto simp: PublishTileset_def Let_def dest: PostRequest_error'
           split: option.splits prod.splits outcome.splits sum.splits)

lemma polled_error: "polled env t w = Inl e \<Longrightarrow> \<exists>x. e = LibError x"
  using SimpleGET_error [of env "base t" "postURL t @ ''/status''" w e]
  by (auto simp: polled_def split: prod.splits option.splits)

lemma CheckJobStatus_error:
  assumes "CheckJobStatus env t w = Some (Some e, w')"
  shows "\<exists>x. e = LibError x"
proof -
  from assms have "CheckJobStatus_loop env t (Println ''Awaiting job completion. This may take some time...'' w) = Some (Some e, w')"
    by (simp add: CheckJobStatus_def)
  from loop_returns_from_some_pass [OF this] obtain w0 where "CheckJobStatus_body env t w0 = LoopReturn (Some e) w'"
    by auto
  from body_return [OF this] have "polled env t w0 = Inl e" by (auto split: sum.splits)
  then show ?thesis by (rule polled_error)
qed

lemma demo_QueryRequest_sent:
  "sent (snd (QueryRequest (demo_env net) demo_base ''geocoding/v5/mapbox.places/x.json'' Map.empty world0)) =
     sent world0 @
     [\<lparr>Method = ''GET'', URL = ''https://api.mapbox.com/geocoding/v5/mapbox.places/x.json'',
       RawQuery = Some [''access_token'' \<mapsto> [''pk.abc'']], Header = [], Payload = NoBody\<rparr>]"
  by (simp add: QueryRequest_def http_NewRequest_def client_Do_def Let_def demo_env_def demo_base_def world0_def
           split: http_result.splits)

lemma demo_SimpleGET_fails:
  "snd (fst (SimpleGET (demo_env (always_fail (URLError ''timeout''))) demo_base ''tilesets/v1/alice.roads/status'' world0))
     = Some (LibError (URLError ''timeout''))"
  by (simp add: SimpleGET_def http_Get_def http_NewRequest_def client_Do_def demo_env_def always_fail_def
        demo_base_def world0_def)

section \<open>Error statuses and API messages\<close>

lemma PostUploadFileRequest_error_status:
  assumes "sent (snd (PostUploadFileRequest env b url path ft w)) = sent w @ [req]"
      and "response_of (round_trip env (length (sent w)) req) = Some resp"
      and "StatusCode resp \<noteq> StatusOK"
  shows "fst (PostUploadFileRequest env b url path ft w) =
           Returns (None, Some
             (case json_Unmarshal env (unmarshal_MapboxAPIMessage env) (fst (Body resp)) \<lparr>Message = ''''\<rparr> of
                (None, m) \<Rightarrow> ErrorString (''api error: '' @ Message m)
              | (Some x, m) \<Rightarrow> ErrorString ''Bad Request (400) - no message''))"
  using assms
  by (auto simp: PostUploadFileRequest_def http_NewRequest_def client_Do_def ioutil_ReadAll_def Let_def
                 fmt_Errorf_def Println_def print_def
           split: option.splits prod.splits sum.splits if_splits)

lemma QueryBase_world: "snd (QueryBase env dec b q v inst w) = snd (QueryRequest env b q v w)"
  by (auto simp: QueryBase_def Let_def split: option.splits prod.splits if_splits)

lemma QueryBase_bad_request:
  assumes "sent (snd (QueryBase env dec b q v inst w)) = sent w @ [req]"
      and "round_trip env (length (sent w)) req = Replied resp"
      and "StatusCode resp = StatusBadRequest"
  shows "fst (fst (QueryBase env dec b q v inst w)) =
           Returns
             (case snd (Body resp) of
                Some x \<Rightarrow> Some (LibError x)
              | None \<Rightarrow>
                  Some (case json_Unmarshal env (unmarshal_MapboxAPIMessage env) (fst (Body resp)) \<lparr>Message = ''''\<rparr> of
                          (None, m) \<Rightarrow> ErrorString (''api error: '' @ Message m)
                        | (Some x, m) \<Rightarrow> ErrorString ''Bad Request (400) - no message''),
              inst)"
proof -
  from assms(1) have s: "sent (snd (QueryRequest env b q v w)) = sent w @ [req]"
    by (simp add: QueryBase_world)
  have r: "fst (fst (QueryRequest env b q v w)) = (Some resp, None)"
    using QueryRequest_replied [OF s assms(2)] assms(3) by simp
  obtain v1 w1 where q: "QueryRequest env b q v w = (((Some resp, None), v1), w1)"
    using r by (metis prod.collapse)
  show ?thesis
    using assms(3)
    by (auto simp: QueryBase_def q Let_def ioutil_ReadAll_def fmt_Errorf_def split: option.splits prod.splits)
qed

lemma demo_unmarshal_message:
  "json_Unmarshal (demo_env net) (unmarshal_MapboxAPIMessage (demo_env net)) ''{\"message\":\"Not Found\"}'' \<lparr>Message = ''''\<rparr>
     = (None, \<lparr>Message = ''Not Found''\<rparr>)"
  "json_Unmarshal (demo_env net) (unmarshal_MapboxAPIMessage (demo_env net)) ''{\"message\":17}'' \<lparr>Message = ''''\<rparr>
     = (Some (UnmarshalTypeError ''number''), \<lparr>Message = ''''\<rparr>)"
  "json_Unmarshal (demo_env net) (unmarshal_MapboxAPIMessage (demo_env net)) ''<html>'' \<lparr>Message = ''''\<rparr>
     = (Some SyntaxError, \<lparr>Message = ''''\<rparr>)"
  by (simp_all add: json_Unmarshal_def demo_env_def demo_parse_def unmarshal_MapboxAPIMessage_def unmarshal_struct_def
        find_field_def ascii_upper_def store_MapboxAPIMessage_def store_string_def first_error_def json_kind_def Let_def)

lemma demo_upload_sent:
  "sent (snd (PostUploadFileRequest (demo_env net) demo_base ''tilesets/v1/sources/alice/roads'' ''data/points.geojson'' ''file'' world0)) =
     sent world0 @
     [\<lparr>Method = ''POST'', URL = ''https://api.mapbox.com/tilesets/v1/sources/alice/roads/?access_token=pk.abc'',
       RawQuery = None, Header = [(''Content-Type'', ''multipart/form-data'')],
       Payload = Multipart ''file'' ''points.geojson'' ''{}''\<rparr>]"
  by (simp add: PostUploadFileRequest_def http_NewRequest_def client_Do_def ioutil_ReadAll_def Let_def
        demo_env_def demo_base_def world0_def demo_files_def Header_Add_def filepath_Base_def Println_def print_def
      split: option.splits prod.splits)

lemma demo_QueryBase_sent:
  "sent (snd (QueryBase (demo_env net) dec demo_base ''geocoding/v5/mapbox.places/x.json'' Map.empty inst world0)) =
     sent world0 @
     [\<lparr>Method = ''GET'', URL = ''https://api.mapbox.com/geocoding/v5/mapbox.places/x.json'',
       RawQuery = Some [''access_token'' \<mapsto> [''pk.abc'']], Header = [], Payload = NoBody\<rparr>]"
  by (simp add: QueryBase_world demo_QueryRequest_sent)

text \<open>
  Claim C4 as stated does not hold for \<^verbatim>\<open>QueryBase\<close>: it tests the error of
  \<^verbatim>\<open>ioutil.ReadAll\<close> before it looks at the status. On a response with status 400
  whose body breaks off, it returns the error of the read, which is neither of the two
  errors the claim names.
\<close>

theorem QueryBase_400_read_error_counterexample:
  "sent (snd (QueryBase (demo_env (reply_truncated 400 ''{\"mess'' (ReadError ''unexpected EOF''))) store_string demo_base
            ''geocoding/v5/mapbox.places/x.json'' Map.empty ''unset'' world0))
     = sent world0 @
       [\<lparr>Method = ''GET'', URL = ''https://api.mapbox.com/geocoding/v5/mapbox.places/x.json'',
         RawQuery = Some [''access_token'' \<mapsto> [''pk.abc'']], Header = [], Payload = NoBody\<rparr>]
   \<and> round_trip (demo_env (reply_truncated 400 ''{\"mess'' (ReadError ''unexpected EOF''))) (length (sent world0))
        \<lparr>Method = ''GET'', URL = ''https://api.mapbox.com/geocoding/v5/mapbox.places/x.json'',
         RawQuery = Some [''access_token'' \<mapsto> [''pk.abc'']], Header = [], Payload = NoBody\<rparr>
     = Replied \<lparr>StatusCode = 400, Body = (''{\"mess'', Some (ReadError ''unexpected EOF''))\<rparr>
   \<and> fst (fst (QueryBase (demo_env (reply_truncated 400 ''{\"mess'' (ReadError ''unexpected EOF''))) store_string demo_base
            ''geocoding/v5/mapbox.places/x.json'' Map.empty ''unset'' world0))
     = Returns (Some (LibError (ReadError ''unexpected EOF'')), ''unset'')
   \<and> fst (fst (QueryBase (demo_env (reply_truncated 400 ''{\"mess'' (ReadError ''unexpected EOF''))) store_string demo_base
            ''geocoding/v5/mapbox.places/x.json'' Map.empty ''unset'' world0))
     \<noteq> Returns (Some
          (case json_Unmarshal (demo_env (reply_truncated 400 ''{\"mess'' (ReadError ''unexpected EOF'')))
                  (unmarshal_MapboxAPIMessage (demo_env (reply_truncated 400 ''{\"mess'' (ReadError ''unexpected EOF''))))
                  ''{\"mess'' \<lparr>Message = ''''\<rparr> of
             (None, m) \<Rightarrow> ErrorString (''api error: '' @ Message m)
           | (Some x, m) \<Rightarrow> ErrorString ''Bad Request (400) - no message''), ''unset'')"
proof -
  let ?E = "demo_env (reply_truncated 400 ''{\"mess'' (ReadError ''unexpected EOF''))"
  let ?req = "\<lparr>Method = ''GET'', URL = ''https://api.mapbox.com/geocoding/v5/mapbox.places/x.json'',
         RawQuery = Some [''access_token'' \<mapsto> [''pk.abc'']], Header = [], Payload = NoBody\<rparr>"
  have s: "sent (snd (QueryBase ?E store_string demo_base ''geocoding/v5/mapbox.places/x.json'' Map.empty ''unset'' world0))
             = sent world0 @ [?req]"
    by (rule demo_QueryBase_sent)
  have r: "round_trip ?E (length (sent world0)) ?req
             = Replied \<lparr>StatusCode = 400, Body = (''{\"mess'', Some (ReadError ''unexpected EOF''))\<rparr>"
    by (simp add: demo_env_def reply_truncated_def)
  have q: "fst (fst (QueryBase ?E store_string demo_base ''geocoding/v5/mapbox.places/x.json'' Map.empty ''unset'' world0))
             = Returns (Some (LibError (ReadError ''unexpected EOF'')), ''unset'')"
    using QueryBase_bad_request [OF s r] by simp
  have u: "json_Unmarshal ?E (unmarshal_MapboxAPIMessage ?E) ''{\"mess'' \<lparr>Message = ''''\<rparr>
             = (Some SyntaxError, \<lparr>Message = ''''\<rparr>)"
    by (simp add: json_Unmarshal_def demo_env_def demo_parse_def)
  show ?thesis
    using s r q by (simp add: u)
qed

text \<open>
  Claim C4, as amended. A response with a status other than 200 makes
  \<^verbatim>\<open>PostUploadFileRequest\<close> decode the bytes read from the body as a
  \<^verbatim>\<open>MapboxAPIMessage\<close> and return \<^verbatim>\<open>api error: \<close> followed by the message when the
  decoding returns no error, and \<^verbatim>\<open>Bad Request (400) - no message\<close> when it returns one.
  \<^verbatim>\<open>QueryBase\<close> does the same for a response with status 400 whose body was read
  without error; when reading the body failed it returns the error of the read and
  decodes nothing.
\<close>

theorem api_message_extracted_from_error_status:
  "(sent (snd (PostUploadFileRequest env b url path ft w)) = sent w @ [req] \<and>
    response_of (round_trip env (length (sent w)) req) = Some resp \<and>
    StatusCode resp \<noteq> 200 \<longrightarrow>
      fst (PostUploadFileRequest env b url path ft w) =
        Returns (None, Some
          (case json_Unmarshal env (unmarshal_MapboxAPIMessage env) (fst (Body resp)) \<lparr>Message = ''''\<rparr> of
             (None, m) \<Rightarrow> ErrorString (''api error: '' @ Message m)
           | (Some x, m) \<Rightarrow> ErrorString ''Bad Request (400) - no message'')))
   \<and> (sent (snd (QueryBase env dec b q v inst w)) = sent w @ [req'] \<and>
      round_trip env (length (sent w)) req' = Replied resp' \<and>
      StatusCode resp' = 400 \<longrightarrow>
        (snd (Body resp') = None \<longrightarrow>
           fst (fst (QueryBase env dec b q v inst w)) =
             Returns (Some
               (case json_Unmarshal env (unmarshal_MapboxAPIMessage env) (fst (Body resp')) \<lparr>Message = ''''\<rparr> of
                  (None, m) \<Rightarrow> ErrorString (''api error: '' @ Message m)
                | (Some x, m) \<Rightarrow> ErrorString ''Bad Request (400) - no message''), inst))
      \<and> (\<forall>x. snd (Body resp') = Some x \<longrightarrow>
           fst (fst (QueryBase env dec b q v inst w)) = Returns (Some (LibError x), inst)))"
proof (intro conjI impI allI)
  assume "sent (snd (PostUploadFileRequest env b url path ft w)) = sent w @ [req] \<and>
    response_of (round_trip env (length (sent w)) req) = Some resp \<and> StatusCode resp \<noteq> 200"
  then show "fst (PostUploadFileRequest env b url path ft w) =
        Returns (None, Some
          (case json_Unmarshal env (unmarshal_MapboxAPIMessage env) (fst (Body resp)) \<lparr>Message = ''''\<rparr> of
             (None, m) \<Rightarrow> ErrorString (''api error: '' @ Message m)
           | (Some x, m) \<Rightarrow> ErrorString ''Bad Request (400) - no message''))"
    using PostUploadFileRequest_error_status [of env b url path ft w req resp] by simp
next
  assume a: "sent (snd (QueryBase env dec b q v inst w)) = sent w @ [req'] \<and>
      round_trip env (length (sent w)) req' = Replied resp' \<and> StatusCode resp' = 400"
  { assume "snd (Body resp') = None"
    with a show "fst (fst (QueryBase env dec b q v inst w)) =
             Returns (Some
               (case json_Unmarshal env (unmarshal_MapboxAPIMessage env) (fst (Body resp')) \<lparr>Message = ''''\<rparr> of
                  (None, m) \<Rightarrow> ErrorString (''api error: '' @ Message m)
                | (Some x, m) \<Rightarrow> ErrorString ''Bad Request (400) - no message''), inst)"
      using QueryBase_bad_request [of env dec b q v inst w req' resp'] by simp }
  { fix x assume "snd (Body resp') = Some x"
    with a show "fst (fst (QueryBase env dec b q v inst w)) = Returns (Some (LibError x), inst)"
      using QueryBase_bad_request [of env dec b q v inst w req' resp'] by simp }
qed

theorem api_message_extracted_from_error_status_witness:
  "fst (PostUploadFileRequest (demo_env (always_reply 404 ''{\"message\":\"Not Found\"}'')) demo_base
          ''tilesets/v1/sources/alice/roads'' ''data/points.geojson'' ''file'' world0)
     = Returns (None, Some (ErrorString ''api error: Not Found''))
   \<and> fst (PostUploadFileRequest (demo_env (always_reply 500 ''<html>'')) demo_base
          ''tilesets/v1/sources/alice/roads'' ''data/points.geojson'' ''file'' world0)
     = Returns (None, Some (ErrorString ''Bad Request (400) - no message''))
   \<and> fst (fst (QueryBase (demo_env (always_reply 400 ''{\"message\":\"Not Found\"}'')) store_string demo_base
          ''geocoding/v5/mapbox.places/x.json'' Map.empty ''unset'' world0))
     = Returns (Some (ErrorString ''api error: Not Found''), ''unset'')
   \<and> fst (fst (QueryBase (demo_env (always_reply 400 ''{\"message\":17}'')) store_string demo_base
          ''geocoding/v5/mapbox.places/x.json'' Map.empty ''unset'' world0))
     = Returns (Some (ErrorString ''Bad Request (400) - no message''), ''unset'')
   \<and> fst (fst (QueryBase (demo_env (reply_truncated 400 ''{\"mess'' (ReadError ''unexpected EOF''))) store_string demo_base
          ''geocoding/v5/mapbox.places/x.json'' Map.empty ''unset'' world0))
     = Returns (Some (LibError (ReadError ''unexpected EOF'')), ''unset'')"
proof -
  have "fst (PostUploadFileRequest (demo_env (always_reply 404 ''{\"message\":\"Not Found\"}'')) demo_base
          ''tilesets/v1/sources/alice/roads'' ''data/points.geojson'' ''file'' world0)
     = Returns (None, Some (ErrorString ''api error: Not Found''))"
    using api_message_extracted_from_error_status
            [where env = "demo_env (always_reply 404 ''{\"message\":\"Not Found\"}'')" and b = demo_base
               and url = "''tilesets/v1/sources/alice/roads''" and path = "''data/points.geojson''" and ft = "''file''"
               and w = world0
               and req = "\<lparr>Method = ''POST'', URL = ''https://api.mapbox.com/tilesets/v1/sources/alice/roads/?access_token=pk.abc'',
                            RawQuery = None, Header = [(''Content-Type'', ''multipart/form-data'')],
                            Payload = Multipart ''file'' ''points.geojson'' ''{}''\<rparr>"
               and resp = "\<lparr>StatusCode = 404, Body = (''{\"message\":\"Not Found\"}'', None)\<rparr>",
             THEN conjunct1]
          demo_upload_sent [of "always_reply 404 ''{\"message\":\"Not Found\"}''"]
    by (simp add: demo_unmarshal_message) (simp add: demo_env_def always_reply_def response_of_def)
  moreover have "fst (PostUploadFileRequest (demo_env (always_reply 500 ''<html>'')) demo_base
          ''tilesets/v1/sources/alice/roads'' ''data/points.geojson'' ''file'' world0)
     = Returns (None, Some (ErrorString ''Bad Request (400) - no message''))"
    using api_message_extracted_from_error_status
            [where env = "demo_env (always_reply 500 ''<html>'')" and b = demo_base
               and url = "''tilesets/v1/sources/alice/roads''" and path = "''data/points.geojson''" and ft = "''file''"
               and w = world0
               and req = "\<lparr>Method = ''POST'', URL = ''https://api.mapbox.com/tilesets/v1/sources/alice/roads/?access_token=pk.abc'',
                            RawQuery = None, Header = [(''Content-Type'', ''multipart/form-data'')],
                            Payload = Multipart ''file'' ''points.geojson'' ''{}''\<rparr>"
               and resp = "\<lparr>StatusCode = 500, Body = (''<html>'', None)\<rparr>",
             THEN conjunct1]
          demo_upload_sent [of "always_reply 500 ''<html>''"]
    by (simp add: demo_unmarshal_message) (simp add: demo_env_def always_reply_def response_of_def)
  moreover have "fst (fst (QueryBase (demo_env (always_reply 400 ''{\"message\":\"Not Found\"}'')) store_string demo_base
          ''geocoding/v5/mapbox.places/x.json'' Map.empty ''unset'' world0))
     = Returns (Some (ErrorString ''api error: Not Found''), ''unset'')"
    using api_message_extracted_from_error_status
            [where env = "demo_env (always_reply 400 ''{\"message\":\"Not Found\"}'')" and b = demo_base
               and q = "''geocoding/v5/mapbox.places/x.json''" and v = Map.empty and inst = "''unset''" and dec = store_string
               and w = world0
               and req' = "\<lparr>Method = ''GET'', URL = ''https://api.mapbox.com/geocoding/v5/mapbox.places/x.json'',
                            RawQuery = Some [''access_token'' \<mapsto> [''pk.abc'']], Header = [], Payload = NoBody\<rparr>"
               and resp' = "\<lparr>StatusCode = 400, Body = (''{\"message\":\"Not Found\"}'', None)\<rparr>",
             THEN conjunct2]
          demo_QueryBase_sent [of "always_reply 400 ''{\"message\":\"Not Found\"}''" store_string "''unset''"]
    by (simp add: demo_unmarshal_message) (simp add: demo_env_def always_reply_def)
  moreover have "fst (fst (QueryBase (demo_env (always_reply 400 ''{\"message\":17}'')) store_string demo_base
          ''geocoding/v5/mapbox.places/x.json'' Map.empty ''unset'' world0))
     = Returns (Some (ErrorString ''Bad Request (400) - no message''), ''unset'')"
    using api_message_extracted_from_error_status
            [where env = "demo_env (always_reply 400 ''{\"message\":17}'')" and b = demo_base
               and q = "''geocoding/v5/mapbox.places/x.json''" and v = Map.empty and inst = "''unset''" and dec = store_string
               and w = world0
               and req' = "\<lparr>Method = ''GET'', URL = ''https://api.mapbox.com/geocoding/v5/mapbox.places/x.json'',
                            RawQuery = Some [''access_token'' \<mapsto> [''pk.abc'']], Header = [], Payload = NoBody\<rparr>"
               and resp' = "\<lparr>StatusCode = 400, Body = (''{\"message\":17}'', None)\<rparr>",
             THEN conjunct2]
          demo_QueryBase_sent [of "always_reply 400 ''{\"message\":17}''" store_string "''unset''"]
    by (simp add: demo_unmarshal_message) (simp add: demo_env_def always_reply_def)
  moreover have "fst (fst (QueryBase (demo_env (reply_truncated 400 ''{\"mess'' (ReadError ''unexpected EOF''))) store_string demo_base
          ''geocoding/v5/mapbox.places/x.json'' Map.empty ''unset'' world0))
     = Returns (Some (LibError (ReadError ''unexpected EOF'')), ''unset'')"
    using api_message_extracted_from_error_status
            [where env = "demo_env (reply_truncated 400 ''{\"mess'' (ReadError ''unexpected EOF''))" and b = demo_base
               and q = "''geocoding/v5/mapbox.places/x.json''" and v = Map.empty and inst = "''unset''" and dec = store_string
               and w = world0
               and req' = "\<lparr>Method = ''GET'', URL = ''https://api.mapbox.com/geocoding/v5/mapbox.places/x.json'',
                            RawQuery = Some [''access_token'' \<mapsto> [''pk.abc'']], Header = [], Payload = NoBody\<rparr>"
               and resp' = "\<lparr>StatusCode = 400, Body = (''{\"mess'', Some (ReadError ''unexpected EOF''))\<rparr>",
             THEN conjunct2]
          demo_QueryBase_sent [of "reply_truncated 400 ''{\"mess'' (ReadError ''unexpected EOF'')" store_string "''unset''"]
    by (simp add: demo_env_def reply_truncated_def)
  ultimately show ?thesis by blast
qed

section \<open>Which failures are returned to the caller\<close>

lemma SimpleGET_propagates:
  "err_of (fst (http_Get env (BaseURL @ ''/'' @ url @ ''?access_token='' @ token b) w)) = Some x \<Longrightarrow>
     fst (SimpleGET env b url w) = (None, Some (LibError x))"
  by (auto simp: SimpleGET_def err_of_def Let_def split: http_result.splits prod.splits)

lemma PostRequest_propagates:
  "sent (snd (PostRequest env b url data w)) = sent w @ [req] \<Longrightarrow>
   err_of (round_trip env (length (sent w)) req) = Some x \<Longrightarrow>
     fst (PostRequest env b url data w) = Returns (None, Some (LibError x))"
  by (auto simp: PostRequest_def http_NewRequest_def client_Do_def err_of_def Let_def
           split: http_result.splits prod.splits option.splits sum.splits if_splits)

lemma QueryRequest_propagates:
  "sent (snd (QueryRequest env b q v w)) = sent w @ [req] \<Longrightarrow>
   err_of (round_trip env (length (sent w)) req) = Some x \<Longrightarrow>
     fst (fst (QueryRequest env b q v w)) = (None, Some (LibError x))"
  by (auto simp: QueryRequest_def http_NewRequest_def client_Do_def err_of_def Let_def print_def
           split: http_result.splits prod.splits option.splits sum.splits if_splits)

lemma QueryRequest_url_error:
  "url_error env (BaseURL @ ''/'' @ q) = Some x \<Longrightarrow>
     fst (fst (QueryRequest env b q v w)) = (None, Some (LibError x))"
  by (auto simp: QueryRequest_def http_NewRequest_def Let_def)

lemma QueryBase_propagates:
  "fst (fst (QueryRequest env b q v w)) = (r, Some e) \<Longrightarrow>
     fst (fst (QueryBase env dec b q v inst w)) = Returns (Some e, inst)"
  using QueryRequest_shape [of env b q v w]
  by (auto simp: QueryBase_def Let_def split: prod.splits option.splits)

lemma QueryBase_decoding:
  assumes "fst (fst (QueryRequest env b q v w)) = (Some resp, None)"
      and "StatusCode resp \<noteq> StatusBadRequest"
  shows "fst (fst (QueryBase env dec b q v inst w)) =
           (case snd (Body resp) of
              Some x \<Rightarrow> Returns (Some (LibError x), inst)
            | None \<Rightarrow>
                (case json_Unmarshal env dec (fst (Body resp)) inst of
                   (Some x, i) \<Rightarrow> Returns (Some (LibError x), i)
                 | (None, i) \<Rightarrow> Returns (None, i)))"
proof -
  obtain v1 w1 where q: "QueryRequest env b q v w = (((Some resp, None), v1), w1)"
    using assms(1) by (metis prod.collapse)
  show ?thesis
    using assms(2)
    by (auto simp: QueryBase_def q Let_def ioutil_ReadAll_def split: option.splits prod.splits)
qed

lemma PostUploadFileRequest_open_error:
  "os_Open env path = Inl x \<Longrightarrow>
     PostUploadFileRequest env b url path ft w = (Returns (None, Some (LibError x)), w)"
  by (simp add: PostUploadFileRequest_def)

lemma UploadGeoJSON_cases:
  "fst (UploadGeoJSON env t path w) =
     (case fst (PostUploadFileRequest env (base t) (''tilesets/v1/sources/'' @ username t @ ''/'' @ tilesetID t) path ''file'' w) of
        Panics \<Rightarrow> Panics
      | Exits c \<Rightarrow> Exits c
      | Returns (res, Some err) \<Rightarrow> Returns (None, Some err)
      | Returns (res, None) \<Rightarrow>
          (case json_Unmarshal env (unmarshal_UploadResponse env) (bytes_of res)
                  \<lparr>FileSize = 0, Files = 0, SourceSize = 0, UploadID = ''''\<rparr> of
             (Some x, u) \<Rightarrow> Exits 1
           | (None, u) \<Rightarrow> Returns (Some u, None)))"
  by (auto simp: UploadGeoJSON_def Let_def split: prod.splits outcome.splits option.splits)

lemma CreateTileset_propagates:
  "os_Open env path = Inl x \<Longrightarrow> fst (CreateTileset env t path w) = Returns (None, Some (LibError x))"
  "os_Open env path = Inr f \<Longrightarrow>
   fst (PostRequest env (base t) (postURL t) (Some (fst (Contents f))) w) = Returns (res, Some e) \<Longrightarrow>
     fst (CreateTileset env t path w) = Returns (None, Some e)"
  by (auto simp: CreateTileset_def Let_def ioutil_ReadAll_def split: prod.splits outcome.splits option.splits)

lemma PublishTileset_propagates:
  "fst (PostRequest env (base t) (postURL t @ ''/publish'') None w) = Returns (res, Some e) \<Longrightarrow>
     fst (PublishTileset env t w) = Returns (None, Some e)"
  by (auto simp: PublishTileset_def Let_def split: prod.splits outcome.splits option.splits)

lemma body_propagates:
  "snd (fst (SimpleGET env (base t) (postURL t @ ''/status'') w)) = Some e \<Longrightarrow>
     CheckJobStatus_body env t w = LoopReturn (Some e) (snd (SimpleGET env (base t) (postURL t @ ''/status'') w))"
  by (auto simp: CheckJobStatus_body_def Let_def split: prod.splits option.splits)

text \<open>
  Two failures are not returned, because a nil pointer is dereferenced first:
  \<^verbatim>\<open>PostRequest\<close> panics when its URL does not parse, and \<^verbatim>\<open>PostUploadFileRequest\<close>
  panics when the round trip fails without a response. \<^verbatim>\<open>QueryBase\<close> never panics.
\<close>

lemma PostRequest_panics:
  "url_error env (BaseURL @ ''/'' @ url @ ''?access_token='' @ token b) = Some x \<Longrightarrow>
     PostRequest env b url data w = (Panics, w)"
  by (simp add: PostRequest_def http_NewRequest_def)

lemma PostUploadFileRequest_panics:
  "sent (snd (PostUploadFileRequest env b url path ft w)) = sent w @ [req] \<Longrightarrow>
   round_trip env (length (sent w)) req = Failed x \<Longrightarrow>
     fst (PostUploadFileRequest env b url path ft w) = Panics"
  by (auto simp: PostUploadFileRequest_def http_NewRequest_def client_Do_def response_of_def Let_def
           split: sum.splits prod.splits option.splits if_splits)

lemma demo_tileset_fields [simp]:
  "base demo_tileset = demo_base" "username demo_tileset = ''alice''" "tilesetID demo_tileset = ''roads''"
  by (simp_all add: demo_tileset_def SetTileset_def NewTileset_def)

lemma demo_upload_result:
  "PostUploadFileRequest (demo_env (always_reply code body)) demo_base ''tilesets/v1/sources/alice/roads''
       ''data/points.geojson'' ''file'' world0
     = (if code \<noteq> 200 then
          (Returns (None, Some
             (case json_Unmarshal (demo_env (always_reply code body)) (unmarshal_MapboxAPIMessage (demo_env (always_reply code body)))
                     body \<lparr>Message = ''''\<rparr> of
                (None, m) \<Rightarrow> ErrorString (''api error: '' @ Message m)
              | (Some x, m) \<Rightarrow> ErrorString ''Bad Request (400) - no message'')),
           \<lparr>sent = [\<lparr>Method = ''POST'', URL = ''https://api.mapbox.com/tilesets/v1/sources/alice/roads/?access_token=pk.abc'',
                      RawQuery = None, Header = [(''Content-Type'', ''multipart/form-data'')],
                      Payload = Multipart ''file'' ''points.geojson'' ''{}''\<rparr>],
             slept = 0, printed = []\<rparr>)
        else
          (Returns (Some body, None),
           \<lparr>sent = [\<lparr>Method = ''POST'', URL = ''https://api.mapbox.com/tilesets/v1/sources/alice/roads/?access_token=pk.abc'',
                      RawQuery = None, Header = [(''Content-Type'', ''multipart/form-data'')],
                      Payload = Multipart ''file'' ''points.geojson'' ''{}''\<rparr>],
             slept = 0, printed = [Text (body @ newline)]\<rparr>))"
  by (auto simp: PostUploadFileRequest_def http_NewRequest_def client_Do_def ioutil_ReadAll_def Let_def
        demo_env_def always_reply_def response_of_def demo_base_def world0_def demo_files_def Header_Add_def
        filepath_Base_def Println_def print_def fmt_Errorf_def
      split: option.splits prod.splits)

lemma demo_unmarshal_upload:
  "json_Unmarshal (demo_env net) (unmarshal_UploadResponse (demo_env net)) ''<html>''
       \<lparr>FileSize = 0, Files = 0, SourceSize = 0, UploadID = ''''\<rparr>
     = (Some SyntaxError, \<lparr>FileSize = 0, Files = 0, SourceSize = 0, UploadID = ''''\<rparr>)"
  "json_Unmarshal (demo_env net) (unmarshal_UploadResponse (demo_env net)) ''{\"id\":\"src1\",\"files\":1}''
       \<lparr>FileSize = 0, Files = 0, SourceSize = 0, UploadID = ''''\<rparr>
     = (None, \<lparr>FileSize = 0, Files = 1, SourceSize = 0, UploadID = ''src1''\<rparr>)"
  by (simp_all add: json_Unmarshal_def demo_env_def demo_parse_def unmarshal_UploadResponse_def unmarshal_struct_def
        find_field_def store_UploadResponse_def store_string_def store_int_def first_error_def Let_def)

text \<open>
  Claim C2 as stated does not hold: when the upload request succeeds and the body of the
  response is not JSON, \<^verbatim>\<open>UploadGeoJSON\<close> returns nothing to its caller. It calls
  \<^verbatim>\<open>log.Fatal\<close>, and the process exits with status 1.
\<close>

theorem UploadGeoJSON_decoding_failure_counterexample:
  "fst (PostUploadFileRequest (demo_env (always_reply 200 ''<html>'')) (base demo_tileset)
          (''tilesets/v1/sources/'' @ username demo_tileset @ ''/'' @ tilesetID demo_tileset)
          ''data/points.geojson'' ''file'' world0)
     = Returns (Some ''<html>'', None)
   \<and> fst (json_Unmarshal (demo_env (always_reply 200 ''<html>'')) (unmarshal_UploadResponse (demo_env (always_reply 200 ''<html>'')))
            ''<html>'' \<lparr>FileSize = 0, Files = 0, SourceSize = 0, UploadID = ''''\<rparr>)
     = Some SyntaxError
   \<and> fst (UploadGeoJSON (demo_env (always_reply 200 ''<html>'')) demo_tileset ''data/points.geojson'' world0) = Exits 1
   \<and> fst (UploadGeoJSON (demo_env (always_reply 200 ''<html>'')) demo_tileset ''data/points.geojson'' world0)
     \<noteq> Returns (None, Some (LibError SyntaxError))"
  by (simp add: UploadGeoJSON_cases demo_upload_result demo_unmarshal_upload bytes_of_def)

text \<open>
  Claim C2, as amended. A failed round trip is returned as the library's error by
  \<^verbatim>\<open>SimpleGET\<close>, by \<^verbatim>\<open>PostRequest\<close> and by \<^verbatim>\<open>QueryRequest\<close>, which also returns the
  error of a URL that does not parse. \<^verbatim>\<open>QueryBase\<close> returns the error of
  \<^verbatim>\<open>QueryRequest\<close>, the error of reading the body and the error of decoding it. A file
  that does not open is returned by \<^verbatim>\<open>PostUploadFileRequest\<close> and \<^verbatim>\<open>CreateTileset\<close>.
  \<^verbatim>\<open>UploadGeoJSON\<close>, \<^verbatim>\<open>CreateTileset\<close>, \<^verbatim>\<open>PublishTileset\<close> and the loop of
  \<^verbatim>\<open>CheckJobStatus\<close> return the error that their request returned. But when the upload
  request succeeds and decoding its response fails, \<^verbatim>\<open>UploadGeoJSON\<close> does not return:
  the process exits with status 1.
\<close>

theorem failures_returned_except_fatal_upload_decoding:
  "(err_of (fst (http_Get env (BaseURL @ ''/'' @ url @ ''?access_token='' @ token b) w)) = Some x \<longrightarrow>
      fst (SimpleGET env b url w) = (None, Some (LibError x)))
   \<and> (sent (snd (PostRequest env b url data w)) = sent w @ [req] \<and>
      err_of (round_trip env (length (sent w)) req) = Some x \<longrightarrow>
        fst (PostRequest env b url data w) = Returns (None, Some (LibError x)))
   \<and> (sent (snd (QueryRequest env b q v w)) = sent w @ [req] \<and>
      err_of (round_trip env (length (sent w)) req) = Some x \<longrightarrow>
        fst (fst (QueryRequest env b q v w)) = (None, Some (LibError x)))
   \<and> (url_error env (BaseURL @ ''/'' @ q) = Some x \<longrightarrow>
        fst (fst (QueryRequest env b q v w)) = (None, Some (LibError x)))
   \<and> (fst (fst (QueryRequest env b q v w)) = (r, Some e) \<longrightarrow>
        fst (fst (QueryBase env dec b q v inst w)) = Returns (Some e, inst))
   \<and> (fst (fst (QueryRequest env b q v w)) = (Some resp, None) \<and> StatusCode resp \<noteq> 400 \<longrightarrow>
        (snd (Body resp) = Some x \<longrightarrow>
           fst (fst (QueryBase env dec b q v inst w)) = Returns (Some (LibError x), inst))
      \<and> (snd (Body resp) = None \<and> json_Unmarshal env dec (fst (Body resp)) inst = (Some x, i) \<longrightarrow>
           fst (fst (QueryBase env dec b q v inst w)) = Returns (Some (LibError x), i)))
   \<and> (os_Open env path = Inl x \<longrightarrow>
        fst (PostUploadFileRequest env b url path ft w) = Returns (None, Some (LibError x))
      \<and> fst (CreateTileset env t path w) = Returns (None, Some (LibError x)))
   \<and> (fst (PostUploadFileRequest env (base t) (''tilesets/v1/sources/'' @ username t @ ''/'' @ tilesetID t)
               path ''file'' w) = Returns (res, Some e) \<longrightarrow>
        fst (UploadGeoJSON env t path w) = Returns (None, Some e))
   \<and> (fst (PostUploadFileRequest env (base t) (''tilesets/v1/sources/'' @ username t @ ''/'' @ tilesetID t)
               path ''file'' w) = Returns (res, None) \<and>
      fst (json_Unmarshal env (unmarshal_UploadResponse env) (bytes_of res)
             \<lparr>FileSize = 0, Files = 0, SourceSize = 0, UploadID = ''''\<rparr>) = Some x \<longrightarrow>
        fst (UploadGeoJSON env t path w) = Exits 1)
   \<and> (os_Open env path = Inr f \<and>
      fst (PostRequest env (base t) (postURL t) (Some (fst (Contents f))) w) = Returns (res, Some e) \<longrightarrow>
        fst (CreateTileset env t path w) = Returns (None, Some e))
   \<and> (fst (PostRequest env (base t) (postURL t @ ''/publish'') None w) = Returns (res, Some e) \<longrightarrow>
        fst (PublishTileset env t w) = Returns (None, Some e))
   \<and> (snd (fst (SimpleGET env (base t) (postURL t @ ''/status'') w)) = Some e \<longrightarrow>
        (\<exists>w1. CheckJobStatus_body env t w = LoopReturn (Some e) w1))"
proof (intro conjI impI)
  assume "err_of (fst (http_Get env (BaseURL @ ''/'' @ url @ ''?access_token='' @ token b) w)) = Some x"
  then show "fst (SimpleGET env b url w) = (None, Some (LibError x))"
    by (rule SimpleGET_propagates)
next
  assume "sent (snd (PostRequest env b url data w)) = sent w @ [req] \<and>
      err_of (round_trip env (length (sent w)) req) = Some x"
  then show "fst (PostRequest env b url data w) = Returns (None, Some (LibError x))"
    using PostRequest_propagates [of env b url data w req x] by simp
next
  assume "sent (snd (QueryRequest env b q v w)) = sent w @ [req] \<and>
      err_of (round_trip env (length (sent w)) req) = Some x"
  then show "fst (fst (QueryRequest env b q v w)) = (None, Some (LibError x))"
    using QueryRequest_propagates [of env b q v w req x] by simp
next
  assume "url_error env (BaseURL @ ''/'' @ q) = Some x"
  then show "fst (fst (QueryRequest env b q v w)) = (None, Some (LibError x))"
    by (rule QueryRequest_url_error)
next
  assume "fst (fst (QueryRequest env b q v w)) = (r, Some e)"
  then show "fst (fst (QueryBase env dec b q v inst w)) = Returns (Some e, inst)"
    by (rule QueryBase_propagates)
next
  assume a: "fst (fst (QueryRequest env b q v w)) = (Some resp, None) \<and> StatusCode resp \<noteq> 400"
  { assume "snd (Body resp) = Some x"
    with a show "fst (fst (QueryBase env dec b q v inst w)) = Returns (Some (LibError x), inst)"
      using QueryBase_decoding [of env b q v w resp dec inst] by simp }
  { assume "snd (Body resp) = None \<and> json_Unmarshal env dec (fst (Body resp)) inst = (Some x, i)"
    with a show "fst (fst (QueryBase env dec b q v inst w)) = Returns (Some (LibError x), i)"
      using QueryBase_decoding [of env b q v w resp dec inst] by simp }
next
  assume a: "os_Open env path = Inl x"
  then show "fst (PostUploadFileRequest env b url path ft w) = Returns (None, Some (LibError x))"
    by (simp add: PostUploadFileRequest_open_error)
  from a show "fst (CreateTileset env t path w) = Returns (None, Some (LibError x))"
    by (rule CreateTileset_propagates)
next
  assume "fst (PostUploadFileRequest env (base t) (''tilesets/v1/sources/'' @ username t @ ''/'' @ tilesetID t)
               path ''file'' w) = Returns (res, Some e)"
  then show "fst (UploadGeoJSON env t path w) = Returns (None, Some e)"
    by (simp add: UploadGeoJSON_cases)
next
  assume "fst (PostUploadFileRequest env (base t) (''tilesets/v1/sources/'' @ username t @ ''/'' @ tilesetID t)
               path ''file'' w) = Returns (res, None) \<and>
      fst (json_Unmarshal env (unmarshal_UploadResponse env) (bytes_of res)
             \<lparr>FileSize = 0, Files = 0, SourceSize = 0, UploadID = ''''\<rparr>) = Some x"
  then show "fst (UploadGeoJSON env t path w) = Exits 1"
    by (auto simp: UploadGeoJSON_cases split: prod.splits)
next
  assume "os_Open env path = Inr f \<and>
      fst (PostRequest env (base t) (postURL t) (Some (fst (Contents f))) w) = Returns (res, Some e)"
  then show "fst (CreateTileset env t path w) = Returns (None, Some e)"
    using CreateTileset_propagates(2) [of env path f t w res e] by simp
next
  assume "fst (PostRequest env (base t) (postURL t @ ''/publish'') None w) = Returns (res, Some e)"
  then show "fst (PublishTileset env t w) = Returns (None, Some e)"
    by (rule PublishTileset_propagates)
next
  assume "snd (fst (SimpleGET env (base t) (postURL t @ ''/status'') w)) = Some e"
  then show "\<exists>w1. CheckJobStatus_body env t w = LoopReturn (Some e) w1"
    using body_propagates by blast
qed

lemma demo_http_Get_fails:
  "err_of (fst (http_Get (demo_env (always_fail x)) (BaseURL @ ''/'' @ ''tilesets/v1/alice.roads/status'' @ ''?access_token='' @ token demo_base) world0))
     = Some x"
  by (simp add: http_Get_def http_NewRequest_def client_Do_def demo_env_def always_fail_def demo_base_def err_of_def)

lemma demo_url_error:
  "url_error (demo_env net) (BaseURL @ ''/'' @ (''geocoding'' @ newline)) = Some (URLError ''invalid control character in URL'')"
  by (simp add: demo_env_def newline_def)

lemma demo_QueryRequest_replied:
  "fst (fst (QueryRequest (demo_env (always_reply 200 ''<html>'')) demo_base ''geocoding/v5/mapbox.places/x.json'' Map.empty world0))
     = (Some \<lparr>StatusCode = 200, Body = (''<html>'', None)\<rparr>, None)"
  by (simp add: QueryRequest_def http_NewRequest_def client_Do_def Let_def demo_env_def always_reply_def
        demo_base_def world0_def)

theorem failures_returned_except_fatal_upload_decoding_witness:
  "fst (SimpleGET (demo_env (always_fail (URLError ''timeout''))) demo_base ''tilesets/v1/alice.roads/status'' world0)
     = (None, Some (LibError (URLError ''timeout'')))
   \<and> fst (fst (QueryRequest (demo_env (always_reply 200 ''null'')) demo_base (''geocoding'' @ newline) Map.empty world0))
     = (None, Some (LibError (URLError ''invalid control character in URL'')))
   \<and> fst (fst (QueryBase (demo_env (always_reply 200 ''<html>'')) store_string demo_base
            ''geocoding/v5/mapbox.places/x.json'' Map.empty ''unset'' world0))
     = Returns (Some (LibError SyntaxError), ''unset'')
   \<and> fst (CreateTileset (demo_env (always_reply 200 ''null'')) demo_tileset ''missing.json'' world0)
     = Returns (None, Some (LibError (PathError ''no such file or directory'')))
   \<and> fst (UploadGeoJSON (demo_env (always_reply 404 ''{\"message\":\"Not Found\"}'')) demo_tileset ''data/points.geojson'' world0)
     = Returns (None, Some (ErrorString ''api error: Not Found''))
   \<and> fst (UploadGeoJSON (demo_env (always_reply 200 ''<html>'')) demo_tileset ''data/points.geojson'' world0)
     = Exits 1"
proof -
  have "fst (SimpleGET (demo_env (always_fail (URLError ''timeout''))) demo_base ''tilesets/v1/alice.roads/status'' world0)
     = (None, Some (LibError (URLError ''timeout'')))"
    using failures_returned_except_fatal_upload_decoding
            [where env = "demo_env (always_fail (URLError ''timeout''))" and b = demo_base
               and url = "''tilesets/v1/alice.roads/status''" and w = world0 and x = "URLError ''timeout''",
             THEN conjunct1]
          demo_http_Get_fails [of "URLError ''timeout''"]
    by simp
  moreover have "fst (fst (QueryRequest (demo_env (always_reply 200 ''null'')) demo_base (''geocoding'' @ newline) Map.empty world0))
     = (None, Some (LibError (URLError ''invalid control character in URL'')))"
    using failures_returned_except_fatal_upload_decoding
            [where env = "demo_env (always_reply 200 ''null'')" and b = demo_base
               and q = "''geocoding'' @ newline" and v = Map.empty and w = world0
               and x = "URLError ''invalid control character in URL''",
             THEN conjunct2, THEN conjunct2, THEN conjunct2, THEN conjunct1]
          demo_url_error [of "always_reply 200 ''null''"]
    by simp
  moreover have "fst (fst (QueryBase (demo_env (always_reply 200 ''<html>'')) store_string demo_base
            ''geocoding/v5/mapbox.places/x.json'' Map.empty ''unset'' world0))
     = Returns (Some (LibError SyntaxError), ''unset'')"
    using failures_returned_except_fatal_upload_decoding
            [where env = "demo_env (always_reply 200 ''<html>'')" and b = demo_base
               and q = "''geocoding/v5/mapbox.places/x.json''" and v = Map.empty and w = world0
               and dec = store_string and inst = "''unset''" and i = "''unset''"
               and resp = "\<lparr>StatusCode = 200, Body = (''<html>'', None)\<rparr>" and x = SyntaxError,
             THEN conjunct2, THEN conjunct2, THEN conjunct2, THEN conjunct2, THEN conjunct2, THEN conjunct1]
          demo_QueryRequest_replied
    by (simp add: json_Unmarshal_def demo_env_def demo_parse_def)
  moreover have "fst (CreateTileset (demo_env (always_reply 200 ''null'')) demo_tileset ''missing.json'' world0)
     = Returns (None, Some (LibError (PathError ''no such file or directory'')))"
    using failures_returned_except_fatal_upload_decoding
            [where env = "demo_env (always_reply 200 ''null'')" and t = demo_tileset
               and path = "''missing.json''" and w = world0 and x = "PathError ''no such file or directory''",
             THEN conjunct2, THEN conjunct2, THEN conjunct2, THEN conjunct2, THEN conjunct2, THEN conjunct2,
             THEN conjunct1]
    by (simp add: demo_env_def demo_files_def)
  moreover have "fst (UploadGeoJSON (demo_env (always_reply 404 ''{\"message\":\"Not Found\"}'')) demo_tileset ''data/points.geojson'' world0)
     = Returns (None, Some (ErrorString ''api error: Not Found''))"
    using failures_returned_except_fatal_upload_decoding
            [where env = "demo_env (always_reply 404 ''{\"message\":\"Not Found\"}'')" and t = demo_tileset
               and path = "''data/points.geojson''" and w = world0 and res = None
               and e = "ErrorString ''api error: Not Found''",
             THEN conjunct2, THEN conjunct2, THEN conjunct2, THEN conjunct2, THEN conjunct2, THEN conjunct2,
             THEN conjunct2, THEN conjunct1]
    by (simp add: demo_upload_result demo_unmarshal_message)
  moreover have "fst (UploadGeoJSON (demo_env (always_reply 200 ''<html>'')) demo_tileset ''data/points.geojson'' world0)
     = Exits 1"
    using failures_returned_except_fatal_upload_decoding
            [where env = "demo_env (always_reply 200 ''<html>'')" and t = demo_tileset
               and path = "''data/points.geojson''" and w = world0 and res = "Some ''<html>''" and x = SyntaxError,
             THEN conjunct2, THEN conjunct2, THEN conjunct2, THEN conjunct2, THEN conjunct2, THEN conjunct2,
             THEN conjunct2, THEN conjunct2, THEN conjunct1]
    by (simp add: demo_upload_result demo_unmarshal_upload bytes_of_def)
  ultimately show ?thesis by blast
qed

section \<open>Decoding errors that are dropped\<close>

lemma CreateTileset_after_post:
  assumes "os_Open env path = Inr f"
      and "fst (PostRequest env (base t) (postURL t) (Some (fst (Contents f))) w) = Returns (res, None)"
  shows "fst (CreateTileset env t path w) =
           Returns (snd (json_Unmarshal_ptr env (unmarshal_MapboxAPIMessage env) \<lparr>Message = ''''\<rparr>
                           (bytes_of res) (Some \<lparr>Message = ''''\<rparr>)), None)"
  using assms
  by (auto simp: CreateTileset_def Let_def ioutil_ReadAll_def split: prod.splits outcome.splits option.splits)

lemma PublishTileset_after_post:
  assumes "fst (PostRequest env (base t) (postURL t @ ''/publish'') None w) = Returns (res, None)"
  shows "fst (PublishTileset env t w) =
           Returns (snd (json_Unmarshal_ptr env (unmarshal_PublishResponse env) \<lparr>PublishMessage = '''', JobID = ''''\<rparr>
                           (bytes_of res) (Some \<lparr>PublishMessage = '''', JobID = ''''\<rparr>)), None)"
  using assms
  by (auto simp: PublishTileset_def Let_def split: prod.splits outcome.splits option.splits)

lemma json_Unmarshal_ptr_nil_iff:
  "snd (json_Unmarshal_ptr env dec zero data (Some v)) = None \<longleftrightarrow> json_parse env data = Some JNull"
  by (auto simp: json_Unmarshal_ptr_def Let_def split: option.splits json.splits prod.splits)

lemma json_Unmarshal_ptr_malformed:
  "json_parse env data = None \<Longrightarrow> json_Unmarshal_ptr env dec zero data p = (Some SyntaxError, p)"
  by (simp add: json_Unmarshal_ptr_def)

text \<open>
  What holds of claim C7: when the POST returns no error, \<^verbatim>\<open>CreateTileset\<close> and
  \<^verbatim>\<open>PublishTileset\<close> return no error either, whatever the decoding does; for a body
  that is not well-formed JSON they return the struct they allocated, all fields zero;
  and a pass of \<^verbatim>\<open>CheckJobStatus\<close> over such a body observes the empty status, sleeps
  and goes on. The response is nil exactly when the body is the JSON literal
  \<^verbatim>\<open>null\<close>.
\<close>

lemma decoding_errors_are_dropped:
  "(os_Open env path = Inr f \<and>
    fst (PostRequest env (base t) (postURL t) (Some (fst (Contents f))) w) = Returns (res, None) \<longrightarrow>
      (\<exists>m. fst (CreateTileset env t path w) = Returns (m, None) \<and>
           (m = None \<longleftrightarrow> json_parse env (bytes_of res) = Some JNull) \<and>
           (json_parse env (bytes_of res) = None \<longrightarrow> m = Some \<lparr>Message = ''''\<rparr>)))
   \<and> (fst (PostRequest env (base t) (postURL t @ ''/publish'') None w) = Returns (res, None) \<longrightarrow>
      (\<exists>m. fst (PublishTileset env t w) = Returns (m, None) \<and>
           (m = None \<longleftrightarrow> json_parse env (bytes_of res) = Some JNull) \<and>
           (json_parse env (bytes_of res) = None \<longrightarrow> m = Some \<lparr>PublishMessage = '''', JobID = ''''\<rparr>)))
   \<and> (fst (SimpleGET env (base t) (postURL t @ ''/status'') w) = (res, None) \<and>
      json_parse env (bytes_of res) = None \<longrightarrow>
        polled env t w = Inr '''' \<and> (\<exists>w1. CheckJobStatus_body env t w = LoopAgain w1))"
proof (intro conjI impI)
  assume a: "os_Open env path = Inr f \<and>
    fst (PostRequest env (base t) (postURL t) (Some (fst (Contents f))) w) = Returns (res, None)"
  show "\<exists>m. fst (CreateTileset env t path w) = Returns (m, None) \<and>
           (m = None \<longleftrightarrow> json_parse env (bytes_of res) = Some JNull) \<and>
           (json_parse env (bytes_of res) = None \<longrightarrow> m = Some \<lparr>Message = ''''\<rparr>)"
    using a CreateTileset_after_post [of env path f t w res]
    by (simp add: json_Unmarshal_ptr_nil_iff json_Unmarshal_ptr_malformed)
next
  assume a: "fst (PostRequest env (base t) (postURL t @ ''/publish'') None w) = Returns (res, None)"
  show "\<exists>m. fst (PublishTileset env t w) = Returns (m, None) \<and>
           (m = None \<longleftrightarrow> json_parse env (bytes_of res) = Some JNull) \<and>
           (json_parse env (bytes_of res) = None \<longrightarrow> m = Some \<lparr>PublishMessage = '''', JobID = ''''\<rparr>)"
    using a PublishTileset_after_post [of env t w res]
    by (simp add: json_Unmarshal_ptr_nil_iff json_Unmarshal_ptr_malformed)
next
  assume a: "fst (SimpleGET env (base t) (postURL t @ ''/status'') w) = (res, None) \<and>
      json_parse env (bytes_of res) = None"
  then show p: "polled env t w = Inr ''''"
    by (simp add: polled_def json_Unmarshal_def)
  show "\<exists>w1. CheckJobStatus_body env t w = LoopAgain w1"
    by (simp add: body_of_polled p)
qed

lemma demo_post_null:
  "CHR 0x0A \<notin> set url \<Longrightarrow>
     fst (PostRequest (demo_env (always_reply 200 ''null'')) demo_base url data world0) = Returns (Some ''null'', None)"
  by (simp add: PostRequest_def http_NewRequest_def client_Do_def ioutil_ReadAll_def Let_def
        demo_env_def always_reply_def demo_base_def world0_def)

text \<open>
  Claim C7 at the body \<^verbatim>\<open>null\<close>. The POST succeeds, the decoding returns no error,
  and it sets the pointer it was given the address of to nil: \<^verbatim>\<open>CreateTileset\<close> and
  \<^verbatim>\<open>PublishTileset\<close> return a nil response with a nil error.
\<close>

theorem null_body_gives_nil_response:
  "os_Open (demo_env (always_reply 200 ''null'')) ''recipe.json'' = Inr \<lparr>Name = ''recipe.json'', Contents = (''{}'', None)\<rparr>
   \<and> fst (PostRequest (demo_env (always_reply 200 ''null'')) (base demo_tileset) (postURL demo_tileset) (Some ''{}'') world0)
       = Returns (Some ''null'', None)
   \<and> fst (CreateTileset (demo_env (always_reply 200 ''null'')) demo_tileset ''recipe.json'' world0) = Returns (None, None)
   \<and> fst (PostRequest (demo_env (always_reply 200 ''null'')) (base demo_tileset) (postURL demo_tileset @ ''/publish'') None world0)
       = Returns (Some ''null'', None)
   \<and> fst (PublishTileset (demo_env (always_reply 200 ''null'')) demo_tileset world0) = Returns (None, None)"
proof -
  let ?E = "demo_env (always_reply 200 ''null'')"
  have o: "os_Open ?E ''recipe.json'' = Inr \<lparr>Name = ''recipe.json'', Contents = (''{}'', None)\<rparr>"
    by (simp add: demo_env_def demo_files_def)
  have n: "json_parse ?E ''null'' = Some JNull"
    by (simp add: demo_env_def demo_parse_def)
  have c: "fst (CreateTileset ?E demo_tileset ''recipe.json'' world0) = Returns (None, None)"
    using CreateTileset_after_post [of ?E "''recipe.json''" "\<lparr>Name = ''recipe.json'', Contents = (''{}'', None)\<rparr>"
            demo_tileset world0 "Some ''null''"] o
    by (simp add: demo_post_null postURL_def json_Unmarshal_ptr_def n bytes_of_def)
  have p: "fst (PublishTileset ?E demo_tileset world0) = Returns (None, None)"
    using PublishTileset_after_post [of ?E demo_tileset world0 "Some ''null''"]
    by (simp add: demo_post_null postURL_def json_Unmarshal_ptr_def n bytes_of_def)
  show ?thesis
    using o c p by (simp add: demo_post_null postURL_def)
qed


section \<open>Tileset endpoints\<close>

lemma SimpleGET_sends:
  "sent (snd (SimpleGET env b url w)) =
     sent w @ (if url_error env (BaseURL @ ''/'' @ url @ ''?access_token='' @ token b) = None
               then [\<lparr>Method = ''GET'', URL = BaseURL @ ''/'' @ url @ ''?access_token='' @ token b,
                       RawQuery = None, Header = [], Payload = NoBody\<rparr>]
               else [])"
  by (auto simp: SimpleGET_def http_Get_def http_NewRequest_def client_Do_def ioutil_ReadAll_def Let_def
           split: http_result.splits prod.splits)

lemma PostRequest_sends:
  "sent (snd (PostRequest env b url data w)) =
     sent w @ (if url_error env (BaseURL @ ''/'' @ url @ ''?access_token='' @ token b) = None
               then [\<lparr>Method = ''POST'', URL = BaseURL @ ''/'' @ url @ ''?access_token='' @ token b,
                       RawQuery = None,
                       Header = (if data \<noteq> None then [(''Content-Type'', ''application/json'')] else []),
                       Payload = Raw (bytes_of data)\<rparr>]
               else [])"
  by (auto simp: PostRequest_def http_NewRequest_def client_Do_def ioutil_ReadAll_def Let_def Header_Set_def
           split: http_result.splits prod.splits)

lemma PostUploadFileRequest_sends:
  "sent (snd (PostUploadFileRequest env b url path ft w)) =
     sent w @ (case os_Open env path of
                 Inl x \<Rightarrow> []
               | Inr f \<Rightarrow>
                   if url_error env (BaseURL @ ''/'' @ url @ ''/?access_token='' @ token b) = None
                   then [\<lparr>Method = ''POST'', URL = BaseURL @ ''/'' @ url @ ''/?access_token='' @ token b,
                           RawQuery = None, Header = [(''Content-Type'', ''multipart/form-data'')],
                           Payload = Multipart ft (filepath_Base (Name f)) (fst (Contents f))\<rparr>]
                   else [])"
  by (auto simp: PostUploadFileRequest_def http_NewRequest_def client_Do_def ioutil_ReadAll_def Let_def
                 Header_Add_def Println_def print_def
           split: http_result.splits prod.splits option.splits sum.splits)

lemma QueryRequest_sends:
  "sent (snd (QueryRequest env b q v w)) =
     sent w @ (if url_error env (BaseURL @ ''/'' @ q) = None
               then [\<lparr>Method = ''GET'', URL = BaseURL @ ''/'' @ q,
                       RawQuery = Some (v(''access_token'' \<mapsto> [token b])), Header = [], Payload = NoBody\<rparr>]
               else [])"
  by (auto simp: QueryRequest_def http_NewRequest_def client_Do_def Let_def print_def
           split: http_result.splits prod.splits)

lemma CreateTileset_sends:
  "sent (snd (CreateTileset env t p w)) =
     sent w @ (case os_Open env p of
                 Inl x \<Rightarrow> []
               | Inr f \<Rightarrow>
                   if url_error env (BaseURL @ ''/'' @ postURL t @ ''?access_token='' @ token (base t)) = None
                   then [\<lparr>Method = ''POST'', URL = BaseURL @ ''/'' @ postURL t @ ''?access_token='' @ token (base t),
                           RawQuery = None, Header = [(''Content-Type'', ''application/json'')],
                           Payload = Raw (fst (Contents f))\<rparr>]
                   else [])"
proof (cases "os_Open env p")
  case (Inl x)
  then show ?thesis by (simp add: CreateTileset_def)
next
  case (Inr f)
  then show ?thesis
    using PostRequest_sends [of env "base t" "postURL t" "Some (fst (Contents f))" w]
    by (simp add: CreateTileset_world bytes_of_def)
qed

lemma PublishTileset_sends:
  "sent (snd (PublishTileset env t w)) =
     sent w @ (if url_error env (BaseURL @ ''/'' @ postURL t @ ''/publish'' @ ''?access_token='' @ token (base t)) = None
               then [\<lparr>Method = ''POST'',
                       URL = BaseURL @ ''/'' @ postURL t @ ''/publish'' @ ''?access_token='' @ token (base t),
                       RawQuery = None, Header = [], Payload = Raw []\<rparr>]
               else [])"
proof -
  have "sent (snd (PublishTileset env t w)) = sent (snd (PostRequest env (base t) (postURL t @ ''/publish'') None w))"
    by (auto simp: PublishTileset_def Let_def Println_def print_def
             split: sum.splits prod.splits outcome.splits option.splits)
  then show ?thesis
    using PostRequest_sends [of env "base t" "postURL t @ ''/publish''" None w]
    by (simp add: bytes_of_def)
qed

lemma UploadGeoJSON_sends:
  "sent (snd (UploadGeoJSON env t p w)) =
     sent w @ (case os_Open env p of
                 Inl x \<Rightarrow> []
               | Inr f \<Rightarrow>
                   if url_error env (BaseURL @ ''/'' @ ''tilesets/v1/sources/'' @ username t @ ''/'' @ tilesetID t
                                       @ ''/?access_token='' @ token (base t)) = None
                   then [\<lparr>Method = ''POST'',
                           URL = BaseURL @ ''/'' @ ''tilesets/v1/sources/'' @ username t @ ''/'' @ tilesetID t
                                   @ ''/?access_token='' @ token (base t),
                           RawQuery = None, Header = [(''Content-Type'', ''multipart/form-data'')],
                           Payload = Multipart ''file'' (filepath_Base (Name f)) (fst (Contents f))\<rparr>]
                   else [])"
proof -
  have "sent (snd (UploadGeoJSON env t p w)) =
        sent (snd (PostUploadFileRequest env (base t) (''tilesets/v1/sources/'' @ username t @ ''/'' @ tilesetID t) p ''file'' w))"
    by (auto simp: UploadGeoJSON_def Let_def print_def split: sum.splits prod.splits outcome.splits option.splits)
  also have "\<dots> = sent w @ (case os_Open env p of
                 Inl x \<Rightarrow> []
               | Inr f \<Rightarrow>
                   if url_error env (BaseURL @ ''/'' @ (''tilesets/v1/sources/'' @ username t @ ''/'' @ tilesetID t)
                                       @ ''/?access_token='' @ token (base t)) = None
                   then [\<lparr>Method = ''POST'',
                           URL = BaseURL @ ''/'' @ (''tilesets/v1/sources/'' @ username t @ ''/'' @ tilesetID t)
                                   @ ''/?access_token='' @ token (base t),
                           RawQuery = None, Header = [(''Content-Type'', ''multipart/form-data'')],
                           Payload = Multipart ''file'' (filepath_Base (Name f)) (fst (Contents f))\<rparr>]
                   else [])"
    by (rule PostUploadFileRequest_sends)
  finally show ?thesis by (simp only: append_assoc)
qed

lemma body_sends:
  "sent (step_world (CheckJobStatus_body env t w)) =
     sent w @ (if url_error env (BaseURL @ ''/'' @ postURL t @ ''/status'' @ ''?access_token='' @ token (base t)) = None
               then [\<lparr>Method = ''GET'',
                       URL = BaseURL @ ''/'' @ postURL t @ ''/status'' @ ''?access_token='' @ token (base t),
                       RawQuery = None, Header = [], Payload = NoBody\<rparr>]
               else [])"
proof -
  have "sent (step_world (CheckJobStatus_body env t w)) = sent (snd (SimpleGET env (base t) (postURL t @ ''/status'') w))"
    by (auto simp: CheckJobStatus_body_def Let_def Println_def print_def time_Sleep_def
             split: sum.splits prod.splits option.splits)
  then show ?thesis
    using SimpleGET_sends [of env "base t" "postURL t @ ''/status''" w] by simp
qed

lemma body_url_error:
  assumes "url_error env (BaseURL @ ''/'' @ postURL t @ ''/status'' @ ''?access_token='' @ token (base t)) = Some x"
  shows "CheckJobStatus_body env t w = LoopReturn (Some (LibError x)) w"
  using assms
  by (simp add: CheckJobStatus_body_def SimpleGET_def http_Get_def http_NewRequest_def)

lemma body_slept:
  "slept (step_world (CheckJobStatus_body env t w)) =
     (case CheckJobStatus_body env t w of LoopReturn e w1 \<Rightarrow> slept w | LoopAgain w1 \<Rightarrow> slept w + 5 * time_Second)"
proof -
  obtain a e x2 where g: "SimpleGET env (base t) (postURL t @ ''/status'') w = ((a, e), x2)"
    by (metis surj_pair)
  with SimpleGET_slept [of env "base t" "postURL t @ ''/status''" w] have "slept x2 = slept w"
    by simp
  with g show ?thesis
    by (auto simp: CheckJobStatus_body_def Let_def split: sum.splits prod.splits option.splits)
qed

lemma loop_requests:
  assumes "CheckJobStatus_loop env t w = Some y"
  shows "\<exists>k. slept (snd y) = slept w + k * (5 * time_Second) \<and>
             sent (snd y) =
               sent w @ (if url_error env (BaseURL @ ''/'' @ postURL t @ ''/status'' @ ''?access_token='' @ token (base t)) = None
                         then replicate (Suc k)
                                \<lparr>Method = ''GET'',
                                  URL = BaseURL @ ''/'' @ postURL t @ ''/status'' @ ''?access_token='' @ token (base t),
                                  RawQuery = None, Header = [], Payload = NoBody\<rparr>
                         else [])"
  using assms
proof (induction env t w y rule: CheckJobStatus_loop.raw_induct [rotated 1, consumes 1])
  case (1 f env t w y)
  let ?U = "BaseURL @ ''/'' @ postURL t @ ''/status'' @ ''?access_token='' @ token (base t)"
  let ?r = "\<lparr>Method = ''GET'', URL = ?U, RawQuery = None, Header = [], Payload = NoBody\<rparr>"
  show ?case
  proof (cases "CheckJobStatus_body env t w")
    case (LoopReturn e w1)
    with 1(2) have y: "y = (e, w1)" by simp
    from body_sends [of env t w] body_slept [of env t w] LoopReturn y
    have "slept (snd y) = slept w + 0 * (5 * time_Second) \<and>
          sent (snd y) = sent w @ (if url_error env ?U = None then replicate (Suc 0) ?r else [])"
      by simp
    then show ?thesis by blast
  next
    case (LoopAgain w1)
    with 1(2) have "f env t w1 = Some y" by simp
    from 1(1) [OF this] obtain k where
      k: "slept (snd y) = slept w1 + k * (5 * time_Second)"
         "sent (snd y) = sent w1 @ (if url_error env ?U = None then replicate (Suc k) ?r else [])"
      by blast
    from body_sends [of env t w] body_slept [of env t w] LoopAgain
    have "slept w1 = slept w + 5 * time_Second"
         "sent w1 = sent w @ (if url_error env ?U = None then [?r] else [])"
      by simp_all
    with k have "slept (snd y) = slept w + Suc k * (5 * time_Second) \<and>
                 sent (snd y) = sent w @ (if url_error env ?U = None then replicate (Suc (Suc k)) ?r else [])"
      by simp
    then show ?thesis by blast
  qed
qed

lemma CheckJobStatus_requests:
  assumes "CheckJobStatus env t w = Some (e, w')"
  shows "sent w' =
           sent w @ (if url_error env (BaseURL @ ''/'' @ postURL t @ ''/status'' @ ''?access_token='' @ token (base t)) = None
                     then replicate (Suc ((slept w' - slept w) div (5 * time_Second)))
                            \<lparr>Method = ''GET'',
                              URL = BaseURL @ ''/'' @ postURL t @ ''/status'' @ ''?access_token='' @ token (base t),
                              RawQuery = None, Header = [], Payload = NoBody\<rparr>
                     else [])"
proof -
  let ?w = "Println ''Awaiting job completion. This may take some time...'' w"
  from assms have "CheckJobStatus_loop env t ?w = Some (e, w')" by (simp add: CheckJobStatus_def)
  from loop_requests [OF this] obtain k where
    k: "slept w' = slept ?w + k * (5 * time_Second)"
       "sent w' = sent ?w @ (if url_error env (BaseURL @ ''/'' @ postURL t @ ''/status'' @ ''?access_token='' @ token (base t)) = None
                         then replicate (Suc k)
                                \<lparr>Method = ''GET'',
                                  URL = BaseURL @ ''/'' @ postURL t @ ''/status'' @ ''?access_token='' @ token (base t),
                                  RawQuery = None, Header = [], Payload = NoBody\<rparr>
                         else [])"
    by auto
  have "slept ?w = slept w" "sent ?w = sent w" by (simp_all add: Println_def print_def)
  with k show ?thesis by simp
qed

lemma demo_CheckJobStatus_run:
  "\<exists>w'. CheckJobStatus (demo_env (reply_then 2 ''{\"status\":\"processing\"}'' ''{\"status\":\"success\"}'')) demo_tileset world0
           = Some (None, w') \<and> slept w' = 10000000000"
  using loop_terminates_after
          [where env = "demo_env (reply_then 2 ''{\"status\":\"processing\"}'' ''{\"status\":\"success\"}'')"
             and t = demo_tileset and w = "Println ''Awaiting job completion. This may take some time...'' world0"
             and k = 2 and obs = "Inr ''success''"]
  by (auto simp add: polled_demo_reply_then world0_def CheckJobStatus_def Println_def print_def)

text \<open>
  Claim C6. For every user name \<open>u\<close> and tileset id \<open>i\<close> set by \<^verbatim>\<open>SetTileset\<close>,
  \<^verbatim>\<open>postURL\<close> is exactly \<^verbatim>\<open>tilesets/v1/u.i\<close>, and the requests of the four operations
  are exactly these. \<^verbatim>\<open>CreateTileset\<close> sends one request when the recipe file opens and
  the URL parses, and none otherwise: a POST of the contents of the file to that path.
  \<^verbatim>\<open>PublishTileset\<close> sends one request when the URL parses, and none otherwise: a POST
  with an empty body to that path followed by \<^verbatim>\<open>/publish\<close>. Each pass of the loop of
  \<^verbatim>\<open>CheckJobStatus\<close> sends one request when the URL parses, and none otherwise: a GET to
  that path followed by \<^verbatim>\<open>/status\<close>; so a call that returns has sent this request once
  more than it has slept for five seconds, and nothing else. \<^verbatim>\<open>UploadGeoJSON\<close> sends one
  request when the file opens and the URL parses, and none otherwise: a POST of the file,
  as the form file \<^verbatim>\<open>file\<close>, to \<^verbatim>\<open>tilesets/v1/sources/u/i\<close>. Every URL is rooted at
  \<^verbatim>\<open>BaseURL\<close> and ends with the token.
\<close>

theorem tileset_endpoint_urls:
  "postURL (SetTileset t u i) = ''tilesets/v1/'' @ u @ ''.'' @ i
   \<and> sent (snd (CreateTileset env (SetTileset t u i) p w)) =
       sent w @
       (case os_Open env p of
          Inl x \<Rightarrow> []
        | Inr f \<Rightarrow>
            if url_error env (BaseURL @ ''/'' @ ''tilesets/v1/'' @ u @ ''.'' @ i @ ''?access_token='' @ token (base t)) = None
            then [\<lparr>Method = ''POST'',
                    URL = BaseURL @ ''/'' @ ''tilesets/v1/'' @ u @ ''.'' @ i @ ''?access_token='' @ token (base t),
                    RawQuery = None, Header = [(''Content-Type'', ''application/json'')],
                    Payload = Raw (fst (Contents f))\<rparr>]
            else [])
   \<and> sent (snd (PublishTileset env (SetTileset t u i) w)) =
       sent w @
       (if url_error env (BaseURL @ ''/'' @ ''tilesets/v1/'' @ u @ ''.'' @ i @ ''/publish'' @ ''?access_token='' @ token (base t)) = None
        then [\<lparr>Method = ''POST'',
                URL = BaseURL @ ''/'' @ ''tilesets/v1/'' @ u @ ''.'' @ i @ ''/publish'' @ ''?access_token='' @ token (base t),
                RawQuery = None, Header = [], Payload = Raw []\<rparr>]
        else [])
   \<and> sent (step_world (CheckJobStatus_body env (SetTileset t u i) w)) =
       sent w @
       (if url_error env (BaseURL @ ''/'' @ ''tilesets/v1/'' @ u @ ''.'' @ i @ ''/status'' @ ''?access_token='' @ token (base t)) = None
        then [\<lparr>Method = ''GET'',
                URL = BaseURL @ ''/'' @ ''tilesets/v1/'' @ u @ ''.'' @ i @ ''/status'' @ ''?access_token='' @ token (base t),
                RawQuery = None, Header = [], Payload = NoBody\<rparr>]
        else [])
   \<and> (CheckJobStatus env (SetTileset t u i) w = Some (e, w') \<longrightarrow>
        sent w' =
          sent w @
          (if url_error env (BaseURL @ ''/'' @ ''tilesets/v1/'' @ u @ ''.'' @ i @ ''/status'' @ ''?access_token='' @ token (base t)) = None
           then replicate (Suc ((slept w' - slept w) div (5 * time_Second)))
                  \<lparr>Method = ''GET'',
                    URL = BaseURL @ ''/'' @ ''tilesets/v1/'' @ u @ ''.'' @ i @ ''/status'' @ ''?access_token='' @ token (base t),
                    RawQuery = None, Header = [], Payload = NoBody\<rparr>
           else []))
   \<and> sent (snd (UploadGeoJSON env (SetTileset t u i) p w)) =
       sent w @
       (case os_Open env p of
          Inl x \<Rightarrow> []
        | Inr f \<Rightarrow>
            if url_error env (BaseURL @ ''/'' @ ''tilesets/v1/sources/'' @ u @ ''/'' @ i @ ''/?access_token='' @ token (base t)) = None
            then [\<lparr>Method = ''POST'',
                    URL = BaseURL @ ''/'' @ ''tilesets/v1/sources/'' @ u @ ''/'' @ i @ ''/?access_token='' @ token (base t),
                    RawQuery = None, Header = [(''Content-Type'', ''multipart/form-data'')],
                    Payload = Multipart ''file'' (filepath_Base (Name f)) (fst (Contents f))\<rparr>]
            else [])"
proof -
  let ?t = "SetTileset t u i"
  have p: "postURL ?t = ''tilesets/v1/'' @ u @ ''.'' @ i" by (rule postURL_SetTileset)
  have f: "base ?t = base t" "username ?t = u" "tilesetID ?t = i" by (simp_all add: SetTileset_def)
  show ?thesis
  proof (intro conjI impI)
    show "postURL ?t = ''tilesets/v1/'' @ u @ ''.'' @ i" by (rule p)
  next
    show "sent (snd (CreateTileset env ?t p w)) =
       sent w @
       (case os_Open env p of
          Inl x \<Rightarrow> []
        | Inr f \<Rightarrow>
            if url_error env (BaseURL @ ''/'' @ ''tilesets/v1/'' @ u @ ''.'' @ i @ ''?access_token='' @ token (base t)) = None
            then [\<lparr>Method = ''POST'',
                    URL = BaseURL @ ''/'' @ ''tilesets/v1/'' @ u @ ''.'' @ i @ ''?access_token='' @ token (base t),
                    RawQuery = None, Header = [(''Content-Type'', ''application/json'')],
                    Payload = Raw (fst (Contents f))\<rparr>]
            else [])"
      using CreateTileset_sends [of env ?t p w] by (simp add: p f split: sum.splits)
  next
    show "sent (snd (PublishTileset env ?t w)) =
       sent w @
       (if url_error env (BaseURL @ ''/'' @ ''tilesets/v1/'' @ u @ ''.'' @ i @ ''/publish'' @ ''?access_token='' @ token (base t)) = None
        then [\<lparr>Method = ''POST'',
                URL = BaseURL @ ''/'' @ ''tilesets/v1/'' @ u @ ''.'' @ i @ ''/publish'' @ ''?access_token='' @ token (base t),
                RawQuery = None, Header = [], Payload = Raw []\<rparr>]
        else [])"
      using PublishTileset_sends [of env ?t w] by (simp add: p f)
  next
    show "sent (step_world (CheckJobStatus_body env ?t w)) =
       sent w @
       (if url_error env (BaseURL @ ''/'' @ ''tilesets/v1/'' @ u @ ''.'' @ i @ ''/status'' @ ''?access_token='' @ token (base t)) = None
        then [\<lparr>Method = ''GET'',
                URL = BaseURL @ ''/'' @ ''tilesets/v1/'' @ u @ ''.'' @ i @ ''/status'' @ ''?access_token='' @ token (base t),
                RawQuery = None, Header = [], Payload = NoBody\<rparr>]
        else [])"
      using body_sends [of env ?t w] by (simp add: p f)
  next
    assume "CheckJobStatus env ?t w = Some (e, w')"
    from CheckJobStatus_requests [OF this]
    show "sent w' =
          sent w @
          (if url_error env (BaseURL @ ''/'' @ ''tilesets/v1/'' @ u @ ''.'' @ i @ ''/status'' @ ''?access_token='' @ token (base t)) = None
           then replicate (Suc ((slept w' - slept w) div (5 * time_Second)))
                  \<lparr>Method = ''GET'',
                    URL = BaseURL @ ''/'' @ ''tilesets/v1/'' @ u @ ''.'' @ i @ ''/status'' @ ''?access_token='' @ token (base t),
                    RawQuery = None, Header = [], Payload = NoBody\<rparr>
           else [])"
      by (simp add: p f)
  next
    show "sent (snd (UploadGeoJSON env ?t p w)) =
       sent w @
       (case os_Open env p of
          Inl x \<Rightarrow> []
        | Inr f \<Rightarrow>
            if url_error env (BaseURL @ ''/'' @ ''tilesets/v1/sources/'' @ u @ ''/'' @ i @ ''/?access_token='' @ token (base t)) = None
            then [\<lparr>Method = ''POST'',
                    URL = BaseURL @ ''/'' @ ''tilesets/v1/sources/'' @ u @ ''/'' @ i @ ''/?access_token='' @ token (base t),
                    RawQuery = None, Header = [(''Content-Type'', ''multipart/form-data'')],
                    Payload = Multipart ''file'' (filepath_Base (Name f)) (fst (Contents f))\<rparr>]
            else [])"
      using UploadGeoJSON_sends [of env ?t p w] by (simp add: p f split: sum.splits)
  qed
qed

theorem tileset_endpoint_urls_witness:
  "postURL demo_tileset = ''tilesets/v1/alice.roads''
   \<and> sent (snd (CreateTileset (demo_env (always_reply 200 ''null'')) demo_tileset ''recipe.json'' world0))
       = [\<lparr>Method = ''POST'', URL = ''https://api.mapbox.com/tilesets/v1/alice.roads?access_token=pk.abc'',
            RawQuery = None, Header = [(''Content-Type'', ''application/json'')], Payload = Raw ''{}''\<rparr>]
   \<and> sent (snd (PublishTileset (demo_env (always_reply 200 ''null'')) demo_tileset world0))
       = [\<lparr>Method = ''POST'', URL = ''https://api.mapbox.com/tilesets/v1/alice.roads/publish?access_token=pk.abc'',
            RawQuery = None, Header = [], Payload = Raw []\<rparr>]
   \<and> sent (snd (UploadGeoJSON (demo_env (always_reply 200 ''null'')) demo_tileset ''data/points.geojson'' world0))
       = [\<lparr>Method = ''POST'', URL = ''https://api.mapbox.com/tilesets/v1/sources/alice/roads/?access_token=pk.abc'',
            RawQuery = None, Header = [(''Content-Type'', ''multipart/form-data'')],
            Payload = Multipart ''file'' ''points.geojson'' ''{}''\<rparr>]
   \<and> sent (step_world (CheckJobStatus_body (demo_env (always_reply 200 ''null'')) demo_tileset world0))
       = [\<lparr>Method = ''GET'', URL = ''https://api.mapbox.com/tilesets/v1/alice.roads/status?access_token=pk.abc'',
            RawQuery = None, Header = [], Payload = NoBody\<rparr>]
   \<and> (\<exists>w'. CheckJobStatus (demo_env (reply_then 2 ''{\"status\":\"processing\"}'' ''{\"status\":\"success\"}'')) demo_tileset world0
           = Some (None, w')
         \<and> sent w' = replicate 3
             \<lparr>Method = ''GET'', URL = ''https://api.mapbox.com/tilesets/v1/alice.roads/status?access_token=pk.abc'',
               RawQuery = None, Header = [], Payload = NoBody\<rparr>)"
proof -
  note T = tileset_endpoint_urls [where t = "NewTileset demo_base" and u = "''alice''" and i = "''roads''" and w = world0,
             folded demo_tileset_def]
  have b: "token (base (NewTileset demo_base)) = ''pk.abc''" by (simp add: NewTileset_def demo_base_def)
  have u: "\<And>net s. CHR 0x0A \<notin> set s \<Longrightarrow> url_error (demo_env net) s = None"
    by (simp add: demo_env_def)
  have o: "\<And>net p. os_Open (demo_env net) p = demo_files p" by (simp add: demo_env_def)
  have "postURL demo_tileset = ''tilesets/v1/alice.roads''"
    using T [THEN conjunct1] by simp
  moreover have "sent (snd (CreateTileset (demo_env (always_reply 200 ''null'')) demo_tileset ''recipe.json'' world0))
       = [\<lparr>Method = ''POST'', URL = ''https://api.mapbox.com/tilesets/v1/alice.roads?access_token=pk.abc'',
            RawQuery = None, Header = [(''Content-Type'', ''application/json'')], Payload = Raw ''{}''\<rparr>]"
    using T [where env = "demo_env (always_reply 200 ''null'')" and p = "''recipe.json''", THEN conjunct2, THEN conjunct1]
    by (simp add: world0_def b u o demo_files_def)
  moreover have "sent (snd (PublishTileset (demo_env (always_reply 200 ''null'')) demo_tileset world0))
       = [\<lparr>Method = ''POST'', URL = ''https://api.mapbox.com/tilesets/v1/alice.roads/publish?access_token=pk.abc'',
            RawQuery = None, Header = [], Payload = Raw []\<rparr>]"
    using T [where env = "demo_env (always_reply 200 ''null'')", THEN conjunct2, THEN conjunct2, THEN conjunct1]
    by (simp add: world0_def b u)
  moreover have "sent (snd (UploadGeoJSON (demo_env (always_reply 200 ''null'')) demo_tileset ''data/points.geojson'' world0))
       = [\<lparr>Method = ''POST'', URL = ''https://api.mapbox.com/tilesets/v1/sources/alice/roads/?access_token=pk.abc'',
            RawQuery = None, Header = [(''Content-Type'', ''multipart/form-data'')],
            Payload = Multipart ''file'' ''points.geojson'' ''{}''\<rparr>]"
    using T [where env = "demo_env (always_reply 200 ''null'')" and p = "''data/points.geojson''",
             THEN conjunct2, THEN conjunct2, THEN conjunct2, THEN conjunct2, THEN conjunct2]
    by (simp add: world0_def b u o demo_files_def filepath_Base_def)
  moreover have "sent (step_world (CheckJobStatus_body (demo_env (always_reply 200 ''null'')) demo_tileset world0))
       = [\<lparr>Method = ''GET'', URL = ''https://api.mapbox.com/tilesets/v1/alice.roads/status?access_token=pk.abc'',
            RawQuery = None, Header = [], Payload = NoBody\<rparr>]"
    using T [where env = "demo_env (always_reply 200 ''null'')", THEN conjunct2, THEN conjunct2, THEN conjunct2, THEN conjunct1]
    by (simp add: world0_def b u)
  moreover have "\<exists>w'. CheckJobStatus (demo_env (reply_then 2 ''{\"status\":\"processing\"}'' ''{\"status\":\"success\"}'')) demo_tileset world0
           = Some (None, w')
         \<and> sent w' = replicate 3
             \<lparr>Method = ''GET'', URL = ''https://api.mapbox.com/tilesets/v1/alice.roads/status?access_token=pk.abc'',
               RawQuery = None, Header = [], Payload = NoBody\<rparr>"
  proof -
    from demo_CheckJobStatus_run obtain w' where
      w': "CheckJobStatus (demo_env (reply_then 2 ''{\"status\":\"processing\"}'' ''{\"status\":\"success\"}'')) demo_tileset world0
           = Some (None, w')" "slept w' = 10000000000" by blast
    from T [where env = "demo_env (reply_then 2 ''{\"status\":\"processing\"}'' ''{\"status\":\"success\"}'')" and e = None and w' = w',
            THEN conjunct2, THEN conjunct2, THEN conjunct2, THEN conjunct2, THEN conjunct1] w'
    have "sent w' = replicate 3
             \<lparr>Method = ''GET'', URL = ''https://api.mapbox.com/tilesets/v1/alice.roads/status?access_token=pk.abc'',
               RawQuery = None, Header = [], Payload = NoBody\<rparr>"
      by (simp add: world0_def b u numeral_3_eq_3)
    with w' show ?thesis by blast
  qed
  ultimately show ?thesis by blast
qed


section \<open>Error paths\<close>

text \<open>
  One fact for each path on which a function of the client meets an error. The
  hypotheses speak of the environment (does the file open, does the URL parse, what
  does the network answer to the request) or, for a function that calls another one of
  the client, of what that one returned.
\<close>

lemma QueryRequest_status_mapping:
  "url_error env (BaseURL @ ''/'' @ q) = None \<and>
    round_trip env (length (sent w)) \<lparr>Method = ''GET'', URL = BaseURL @ ''/'' @ q, RawQuery = Some (v(''access_token'' \<mapsto> [token b])), Header = [], Payload = NoBody\<rparr> = Replied resp \<longrightarrow>
      fst (fst (QueryRequest env b q v w)) =
        (if StatusCode resp = 429 then (None, Some ErrorAPILimitExceeded)
         else if StatusCode resp = 401 then (None, Some ErrorAPIUnauthorized)
         else (Some resp, None))"
  using QueryRequest_sends [of env b q v w]
        QueryRequest_replied [of env b q v w "\<lparr>Method = ''GET'', URL = BaseURL @ ''/'' @ q, RawQuery = Some (v(''access_token'' \<mapsto> [token b])), Header = [], Payload = NoBody\<rparr>" resp]
  by simp

lemma QueryRequest_sentinel_only:
  "fst (fst (QueryRequest env b q v w)) = (r, Some e) \<and> is_sentinel e \<longrightarrow>
      r = None \<and> url_error env (BaseURL @ ''/'' @ q) = None \<and>
      (\<exists>resp. round_trip env (length (sent w)) \<lparr>Method = ''GET'', URL = BaseURL @ ''/'' @ q, RawQuery = Some (v(''access_token'' \<mapsto> [token b])), Header = [], Payload = NoBody\<rparr> = Replied resp \<and>
         (e = ErrorAPILimitExceeded \<and> StatusCode resp = 429 \<or>
          e = ErrorAPIUnauthorized \<and> StatusCode resp = 401))"
proof
  assume a: "fst (fst (QueryRequest env b q v w)) = (r, Some e) \<and> is_sentinel e"
  from QueryRequest_sentinel [of env b q v w r e] a obtain req resp where
    r: "r = None" "sent (snd (QueryRequest env b q v w)) = sent w @ [req]"
       "round_trip env (length (sent w)) req = Replied resp"
       "e = ErrorAPILimitExceeded \<and> StatusCode resp = 429 \<or> e = ErrorAPIUnauthorized \<and> StatusCode resp = 401"
    by auto
  from r(2) QueryRequest_sends [of env b q v w]
  have u: "url_error env (BaseURL @ ''/'' @ q) = None" "req = \<lparr>Method = ''GET'', URL = BaseURL @ ''/'' @ q, RawQuery = Some (v(''access_token'' \<mapsto> [token b])), Header = [], Payload = NoBody\<rparr>"
    by (auto split: if_splits)
  from r u show "r = None \<and> url_error env (BaseURL @ ''/'' @ q) = None \<and>
      (\<exists>resp. round_trip env (length (sent w)) \<lparr>Method = ''GET'', URL = BaseURL @ ''/'' @ q, RawQuery = Some (v(''access_token'' \<mapsto> [token b])), Header = [], Payload = NoBody\<rparr> = Replied resp \<and>
         (e = ErrorAPILimitExceeded \<and> StatusCode resp = 429 \<or>
          e = ErrorAPIUnauthorized \<and> StatusCode resp = 401))"
    by auto
qed

lemma QueryBase_sentinel_only:
  "fst (fst (QueryBase env dec b q v inst w)) = Returns (Some e, i) \<and> is_sentinel e \<longrightarrow>
      fst (fst (QueryRequest env b q v w)) = (None, Some e)"
  using QueryBase_sentinel [of env dec b q v inst w e i] by simp

lemma Query_sentinel_only:
  "fst (fst (Query env dec b api version mode q v inst w)) = Returns (Some e, i) \<and> is_sentinel e \<longrightarrow>
      fst (fst (QueryRequest env b (api @ ''/'' @ version @ ''/'' @ mode @ ''/'' @ q) v w)) = (None, Some e)"
  using QueryBase_sentinel [of env dec b "api @ ''/'' @ version @ ''/'' @ mode @ ''/'' @ q" v inst w e i]
  by (simp add: Query_def)

lemma QueryRequest_returns_url_error:
  "url_error env (BaseURL @ ''/'' @ q) = Some x \<longrightarrow>
      fst (fst (QueryRequest env b q v w)) = (None, Some (LibError x))"
  by (simp add: QueryRequest_url_error)

lemma QueryRequest_returns_round_trip_error:
  "url_error env (BaseURL @ ''/'' @ q) = None \<and>
    err_of (round_trip env (length (sent w)) \<lparr>Method = ''GET'', URL = BaseURL @ ''/'' @ q, RawQuery = Some (v(''access_token'' \<mapsto> [token b])), Header = [], Payload = NoBody\<rparr>) = Some x \<longrightarrow>
      fst (fst (QueryRequest env b q v w)) = (None, Some (LibError x))"
  using QueryRequest_sends [of env b q v w]
        QueryRequest_propagates [of env b q v w "\<lparr>Method = ''GET'', URL = BaseURL @ ''/'' @ q, RawQuery = Some (v(''access_token'' \<mapsto> [token b])), Header = [], Payload = NoBody\<rparr>" x]
  by simp

lemma QueryBase_returns_request_error:
  "fst (fst (QueryRequest env b q v w)) = (r, Some e) \<longrightarrow>
      fst (fst (QueryBase env dec b q v inst w)) = Returns (Some e, inst)"
  by (simp add: QueryBase_propagates)

lemma QueryBase_returns_read_error:
  "fst (fst (QueryRequest env b q v w)) = (Some resp, None) \<and> snd (Body resp) = Some x \<longrightarrow>
      fst (fst (QueryBase env dec b q v inst w)) = Returns (Some (LibError x), inst)"
proof
  assume a: "fst (fst (QueryRequest env b q v w)) = (Some resp, None) \<and> snd (Body resp) = Some x"
  then obtain v1 w1 where q: "QueryRequest env b q v w = (((Some resp, None), v1), w1)"
    by (metis prod.collapse)
  from a show "fst (fst (QueryBase env dec b q v inst w)) = Returns (Some (LibError x), inst)"
    by (auto simp: QueryBase_def q Let_def ioutil_ReadAll_def split: option.splits prod.splits)
qed

lemma QueryBase_returns_api_error:
  "fst (fst (QueryRequest env b q v w)) = (Some resp, None) \<and> snd (Body resp) = None \<and> StatusCode resp = 400 \<longrightarrow>
      (\<exists>s. fst (fst (QueryBase env dec b q v inst w)) = Returns (Some (ErrorString s), inst))"
proof
  assume a: "fst (fst (QueryRequest env b q v w)) = (Some resp, None) \<and> snd (Body resp) = None \<and> StatusCode resp = 400"
  then obtain v1 w1 where q: "QueryRequest env b q v w = (((Some resp, None), v1), w1)"
    by (metis prod.collapse)
  from a show "\<exists>s. fst (fst (QueryBase env dec b q v inst w)) = Returns (Some (ErrorString s), inst)"
    by (auto simp: QueryBase_def q Let_def ioutil_ReadAll_def fmt_Errorf_def split: option.splits prod.splits)
qed

lemma QueryBase_returns_decoding_error:
  "fst (fst (QueryRequest env b q v w)) = (Some resp, None) \<and> snd (Body resp) = None \<and> StatusCode resp \<noteq> 400 \<and>
    fst (json_Unmarshal env dec (fst (Body resp)) inst) = Some x \<longrightarrow>
      fst (fst (QueryBase env dec b q v inst w)) =
        Returns (Some (LibError x), snd (json_Unmarshal env dec (fst (Body resp)) inst))"
proof
  assume a: "fst (fst (QueryRequest env b q v w)) = (Some resp, None) \<and> snd (Body resp) = None \<and> StatusCode resp \<noteq> 400 \<and>
    fst (json_Unmarshal env dec (fst (Body resp)) inst) = Some x"
  then show "fst (fst (QueryBase env dec b q v inst w)) =
        Returns (Some (LibError x), snd (json_Unmarshal env dec (fst (Body resp)) inst))"
    using QueryBase_decoding [of env b q v w resp dec inst]
    by (auto split: prod.splits)
qed

lemma NewBase_returns_generic_error:
  "NewBase '''' = (None, Some (ErrorString ''Mapbox API token not found''))"
  by (simp add: NewBase_def)

lemma SimpleGET_returns_url_error:
  "url_error env (BaseURL @ ''/'' @ url @ ''?access_token='' @ token b) = Some x \<longrightarrow>
      fst (SimpleGET env b url w) = (None, Some (LibError x))"
  by (simp add: SimpleGET_def http_Get_def http_NewRequest_def)

lemma SimpleGET_returns_round_trip_error:
  "url_error env (BaseURL @ ''/'' @ url @ ''?access_token='' @ token b) = None \<and>
    err_of (round_trip env (length (sent w)) \<lparr>Method = ''GET'', URL = BaseURL @ ''/'' @ url @ ''?access_token='' @ token b, RawQuery = None, Header = [], Payload = NoBody\<rparr>) = Some x \<longrightarrow>
      fst (SimpleGET env b url w) = (None, Some (LibError x))"
  by (auto simp: SimpleGET_def http_Get_def http_NewRequest_def client_Do_def err_of_def
           split: http_result.splits)

lemma PostRequest_returns_round_trip_error:
  "url_error env (BaseURL @ ''/'' @ url @ ''?access_token='' @ token b) = None \<and>
    err_of (round_trip env (length (sent w)) \<lparr>Method = ''POST'', URL = BaseURL @ ''/'' @ url @ ''?access_token='' @ token b, RawQuery = None, Header = (if data \<noteq> None then [(''Content-Type'', ''application/json'')] else []), Payload = Raw (bytes_of data)\<rparr>) = Some x \<longrightarrow>
      fst (PostRequest env b url data w) = Returns (None, Some (LibError x))"
  using PostRequest_sends [of env b url data w]
        PostRequest_propagates [of env b url data w "\<lparr>Method = ''POST'', URL = BaseURL @ ''/'' @ url @ ''?access_token='' @ token b, RawQuery = None, Header = (if data \<noteq> None then [(''Content-Type'', ''application/json'')] else []), Payload = Raw (bytes_of data)\<rparr>" x]
  by simp

lemma PostUploadFileRequest_returns_open_error:
  "os_Open env path = Inl x \<longrightarrow>
      fst (PostUploadFileRequest env b url path ft w) = Returns (None, Some (LibError x))"
  by (simp add: PostUploadFileRequest_open_error)

lemma PostUploadFileRequest_returns_url_error:
  "os_Open env path = Inr f \<and> url_error env (BaseURL @ ''/'' @ url @ ''/?access_token='' @ token b) = Some x \<longrightarrow>
      fst (PostUploadFileRequest env b url path ft w) = Returns (None, Some (LibError x))"
  by (simp add: PostUploadFileRequest_def http_NewRequest_def)

lemma PostUploadFileRequest_returns_api_error:
  "os_Open env path = Inr f \<and> url_error env (BaseURL @ ''/'' @ url @ ''/?access_token='' @ token b) = None \<and>
    response_of (round_trip env (length (sent w)) \<lparr>Method = ''POST'', URL = BaseURL @ ''/'' @ url @ ''/?access_token='' @ token b, RawQuery = None, Header = [(''Content-Type'', ''multipart/form-data'')], Payload = Multipart ft (filepath_Base (Name f)) (fst (Contents f))\<rparr>) = Some resp \<and>
    StatusCode resp \<noteq> 200 \<longrightarrow>
      (\<exists>s. fst (PostUploadFileRequest env b url path ft w) = Returns (None, Some (ErrorString s)))"
proof
  assume a: "os_Open env path = Inr f \<and> url_error env (BaseURL @ ''/'' @ url @ ''/?access_token='' @ token b) = None \<and>
    response_of (round_trip env (length (sent w)) \<lparr>Method = ''POST'', URL = BaseURL @ ''/'' @ url @ ''/?access_token='' @ token b, RawQuery = None, Header = [(''Content-Type'', ''multipart/form-data'')], Payload = Multipart ft (filepath_Base (Name f)) (fst (Contents f))\<rparr>) = Some resp \<and>
    StatusCode resp \<noteq> 200"
  with PostUploadFileRequest_sends [of env b url path ft w]
  have "sent (snd (PostUploadFileRequest env b url path ft w)) = sent w @ [\<lparr>Method = ''POST'', URL = BaseURL @ ''/'' @ url @ ''/?access_token='' @ token b, RawQuery = None, Header = [(''Content-Type'', ''multipart/form-data'')], Payload = Multipart ft (filepath_Base (Name f)) (fst (Contents f))\<rparr>]"
    by simp
  from PostUploadFileRequest_error_status [OF this, of resp] a
  show "\<exists>s. fst (PostUploadFileRequest env b url path ft w) = Returns (None, Some (ErrorString s))"
    by (auto split: prod.splits option.splits)
qed

lemma PostUploadFileRequest_returns_read_error:
  "os_Open env path = Inr f \<and> url_error env (BaseURL @ ''/'' @ url @ ''/?access_token='' @ token b) = None \<and>
    response_of (round_trip env (length (sent w)) \<lparr>Method = ''POST'', URL = BaseURL @ ''/'' @ url @ ''/?access_token='' @ token b, RawQuery = None, Header = [(''Content-Type'', ''multipart/form-data'')], Payload = Multipart ft (filepath_Base (Name f)) (fst (Contents f))\<rparr>) = Some resp \<and>
    StatusCode resp = 200 \<and> snd (Body resp) = Some x \<longrightarrow>
      fst (PostUploadFileRequest env b url path ft w) = Returns (None, Some (LibError x))"
  by (auto simp: PostUploadFileRequest_def http_NewRequest_def client_Do_def ioutil_ReadAll_def Let_def
                 Header_Add_def
           split: prod.splits option.splits)

lemma UploadGeoJSON_returns_request_error:
  "fst (PostUploadFileRequest env (base t) (''tilesets/v1/sources/'' @ username t @ ''/'' @ tilesetID t) path ''file'' w) = Returns (res, Some e) \<longrightarrow>
      fst (UploadGeoJSON env t path w) = Returns (None, Some e)"
  by (simp add: UploadGeoJSON_cases)

lemma UploadGeoJSON_exits_on_decoding_error:
  "fst (PostUploadFileRequest env (base t) (''tilesets/v1/sources/'' @ username t @ ''/'' @ tilesetID t) path ''file'' w) = Returns (res, None) \<and>
    fst (json_Unmarshal env (unmarshal_UploadResponse env) (bytes_of res) \<lparr>FileSize = 0, Files = 0, SourceSize = 0, UploadID = ''''\<rparr>) = Some x \<longrightarrow>
      fst (UploadGeoJSON env t path w) = Exits 1"
  by (auto simp: UploadGeoJSON_cases split: prod.splits)

lemma CreateTileset_returns_open_error:
  "os_Open env path = Inl x \<longrightarrow>
      fst (CreateTileset env t path w) = Returns (None, Some (LibError x))"
  by (simp add: CreateTileset_propagates)

lemma CreateTileset_returns_request_error:
  "os_Open env path = Inr f \<and>
    fst (PostRequest env (base t) (postURL t) (Some (fst (Contents f))) w) = Returns (res, Some e) \<longrightarrow>
      fst (CreateTileset env t path w) = Returns (None, Some e)"
  using CreateTileset_propagates(2) [of env path f t w res e] by simp

lemma PublishTileset_returns_request_error:
  "fst (PostRequest env (base t) (postURL t @ ''/publish'') None w) = Returns (res, Some e) \<longrightarrow>
      fst (PublishTileset env t w) = Returns (None, Some e)"
  by (simp add: PublishTileset_propagates)

lemma CheckJobStatus_body_returns_request_error:
  "snd (fst (SimpleGET env (base t) (postURL t @ ''/status'') w)) = Some e \<longrightarrow>
      CheckJobStatus_body env t w =
        LoopReturn (Some e) (snd (SimpleGET env (base t) (postURL t @ ''/status'') w))"
  by (simp add: body_propagates)

lemma CheckJobStatus_returns_request_error:
  "snd (fst (SimpleGET env (base t) (postURL t @ ''/status'') (Println ''Awaiting job completion. This may take some time...'' w))) = Some e \<longrightarrow>
      (\<exists>w'. CheckJobStatus env t w = Some (Some e, w'))"
proof
  assume "snd (fst (SimpleGET env (base t) (postURL t @ ''/status'') (Println ''Awaiting job completion. This may take some time...'' w))) = Some e"
  from body_propagates [OF this]
  show "\<exists>w'. CheckJobStatus env t w = Some (Some e, w')"
    unfolding CheckJobStatus_def by (subst CheckJobStatus_loop.simps) simp
qed

lemma NewBase_no_sentinel:
  "snd (NewBase tok) = Some e \<longrightarrow> \<not> is_sentinel e"
  by (auto simp: NewBase_def split: if_splits)

lemma SimpleGET_no_sentinel:
  "snd (fst (SimpleGET env b url w)) = Some e \<longrightarrow> \<not> is_sentinel e"
  using SimpleGET_error by fastforce

lemma PostRequest_no_sentinel:
  "fst (PostRequest env b url data w) = Returns (rb, Some e) \<longrightarrow> \<not> is_sentinel e"
  using PostRequest_error by fastforce

lemma PostUploadFileRequest_no_sentinel:
  "fst (PostUploadFileRequest env b url path ft w) = Returns (rb, Some e) \<longrightarrow> \<not> is_sentinel e"
  using PostUploadFileRequest_error by blast

lemma UploadGeoJSON_no_sentinel:
  "fst (UploadGeoJSON env t path w) = Returns (ru, Some e) \<longrightarrow> \<not> is_sentinel e"
  using UploadGeoJSON_error by blast

lemma CreateTileset_no_sentinel:
  "fst (CreateTileset env t path w) = Returns (rm, Some e) \<longrightarrow> \<not> is_sentinel e"
  using CreateTileset_error by fastforce

lemma PublishTileset_no_sentinel:
  "fst (PublishTileset env t w) = Returns (rp, Some e) \<longrightarrow> \<not> is_sentinel e"
  using PublishTileset_error by fastforce

lemma CheckJobStatus_no_sentinel:
  "CheckJobStatus env t w = Some (Some e, w') \<longrightarrow> \<not> is_sentinel e"
  using CheckJobStatus_error by fastforce

text \<open>
  The path of \<^verbatim>\<open>UploadGeoJSON\<close> on which decoding the response of a successful upload
  fails is an error path that returns no error at all: here the server answers 200 with
  the body \<^verbatim>\<open>Not Found\<close>, which is not JSON, and the process exits with status 1.
\<close>

theorem UploadGeoJSON_error_path_without_error_counterexample:
  "fst (PostUploadFileRequest (demo_env (always_reply 200 ''Not Found'')) (base demo_tileset)
          (''tilesets/v1/sources/'' @ username demo_tileset @ ''/'' @ tilesetID demo_tileset)
          ''data/points.geojson'' ''file'' world0)
     = Returns (Some ''Not Found'', None)
   \<and> fst (json_Unmarshal (demo_env (always_reply 200 ''Not Found''))
            (unmarshal_UploadResponse (demo_env (always_reply 200 ''Not Found'')))
            ''Not Found'' \<lparr>FileSize = 0, Files = 0, SourceSize = 0, UploadID = ''''\<rparr>)
     = Some SyntaxError
   \<and> fst (UploadGeoJSON (demo_env (always_reply 200 ''Not Found'')) demo_tileset ''data/points.geojson'' world0) = Exits 1
   \<and> (\<forall>r e. fst (UploadGeoJSON (demo_env (always_reply 200 ''Not Found'')) demo_tileset ''data/points.geojson'' world0)
              \<noteq> Returns (r, Some e))"
proof -
  have d: "json_Unmarshal (demo_env (always_reply 200 ''Not Found''))
            (unmarshal_UploadResponse (demo_env (always_reply 200 ''Not Found'')))
            ''Not Found'' \<lparr>FileSize = 0, Files = 0, SourceSize = 0, UploadID = ''''\<rparr>
          = (Some SyntaxError, \<lparr>FileSize = 0, Files = 0, SourceSize = 0, UploadID = ''''\<rparr>)"
    by (simp add: json_Unmarshal_def demo_env_def demo_parse_def)
  show ?thesis
    by (simp add: UploadGeoJSON_cases demo_upload_result d bytes_of_def)
qed

text \<open>
  Claim C3, as amended. When the URL of \<^verbatim>\<open>QueryRequest\<close> parses and the network
  replies, status 429 yields \<^verbatim>\<open>ErrorAPILimitExceeded\<close> and status 401 yields
  \<^verbatim>\<open>ErrorAPIUnauthorized\<close>, each with a nil response, and any other status yields the
  response and no error; a sentinel comes out of \<^verbatim>\<open>QueryRequest\<close> only for such a
  reply, and out of \<^verbatim>\<open>QueryBase\<close> and \<^verbatim>\<open>Query\<close> only when \<^verbatim>\<open>QueryRequest\<close>
  returned it. On each of these error paths the function returns, and returns an error
  that is not a sentinel: a URL that does not parse and a failed round trip in
  \<^verbatim>\<open>QueryRequest\<close> and \<^verbatim>\<open>SimpleGET\<close>; the error of the request, a failed read of the
  body, a status 400 and a failed decoding in \<^verbatim>\<open>QueryBase\<close>; the empty token in
  \<^verbatim>\<open>NewBase\<close>; a failed round trip in \<^verbatim>\<open>PostRequest\<close>; a file that does not open, a
  URL that does not parse, a status other than 200 and a failed read of the body in
  \<^verbatim>\<open>PostUploadFileRequest\<close>; a file that does not open in \<^verbatim>\<open>CreateTileset\<close>; and
  the error that their request returned in \<^verbatim>\<open>UploadGeoJSON\<close>, \<^verbatim>\<open>CreateTileset\<close>,
  \<^verbatim>\<open>PublishTileset\<close> and \<^verbatim>\<open>CheckJobStatus\<close>. One error path returns nothing: when
  the upload succeeds and decoding its response fails, \<^verbatim>\<open>UploadGeoJSON\<close> ends the
  process with exit status 1. No error that any of these functions returns on any path
  is a sentinel, the two replies of \<^verbatim>\<open>QueryRequest\<close> apart.
\<close>

theorem sentinels_for_429_and_401_generic_error_or_exit_elsewhere:
  "(url_error env (BaseURL @ ''/'' @ q) = None \<and>
    round_trip env (length (sent w)) \<lparr>Method = ''GET'', URL = BaseURL @ ''/'' @ q, RawQuery = Some (v(''access_token'' \<mapsto> [token b])), Header = [], Payload = NoBody\<rparr> = Replied resp \<longrightarrow>
      fst (fst (QueryRequest env b q v w)) =
        (if StatusCode resp = 429 then (None, Some ErrorAPILimitExceeded)
         else if StatusCode resp = 401 then (None, Some ErrorAPIUnauthorized)
         else (Some resp, None)))
   \<and> (fst (fst (QueryRequest env b q v w)) = (r, Some e) \<and> is_sentinel e \<longrightarrow>
      r = None \<and> url_error env (BaseURL @ ''/'' @ q) = None \<and>
      (\<exists>resp. round_trip env (length (sent w)) \<lparr>Method = ''GET'', URL = BaseURL @ ''/'' @ q, RawQuery = Some (v(''access_token'' \<mapsto> [token b])), Header = [], Payload = NoBody\<rparr> = Replied resp \<and>
         (e = ErrorAPILimitExceeded \<and> StatusCode resp = 429 \<or>
          e = ErrorAPIUnauthorized \<and> StatusCode resp = 401)))
   \<and> (fst (fst (QueryBase env dec b q v inst w)) = Returns (Some e, i) \<and> is_sentinel e \<longrightarrow>
      fst (fst (QueryRequest env b q v w)) = (None, Some e))
   \<and> (fst (fst (Query env dec b api version mode q v inst w)) = Returns (Some e, i) \<and> is_sentinel e \<longrightarrow>
      fst (fst (QueryRequest env b (api @ ''/'' @ version @ ''/'' @ mode @ ''/'' @ q) v w)) = (None, Some e))
   \<and> (url_error env (BaseURL @ ''/'' @ q) = Some x \<longrightarrow>
      fst (fst (QueryRequest env b q v w)) = (None, Some (LibError x)))
   \<and> (url_error env (BaseURL @ ''/'' @ q) = None \<and>
    err_of (round_trip env (length (sent w)) \<lparr>Method = ''GET'', URL = BaseURL @ ''/'' @ q, RawQuery = Some (v(''access_token'' \<mapsto> [token b])), Header = [], Payload = NoBody\<rparr>) = Some x \<longrightarrow>
      fst (fst (QueryRequest env b q v w)) = (None, Some (LibError x)))
   \<and> (fst (fst (QueryRequest env b q v w)) = (r, Some e) \<longrightarrow>
      fst (fst (QueryBase env dec b q v inst w)) = Returns (Some e, inst))
   \<and> (fst (fst (QueryRequest env b q v w)) = (Some resp, None) \<and> snd (Body resp) = Some x \<longrightarrow>
      fst (fst (QueryBase env dec b q v inst w)) = Returns (Some (LibError x), inst))
   \<and> (fst (fst (QueryRequest env b q v w)) = (Some resp, None) \<and> snd (Body resp) = None \<and> StatusCode resp = 400 \<longrightarrow>
      (\<exists>s. fst (fst (QueryBase env dec b q v inst w)) = Returns (Some (ErrorString s), inst)))
   \<and> (fst (fst (QueryRequest env b q v w)) = (Some resp, None) \<and> snd (Body resp) = None \<and> StatusCode resp \<noteq> 400 \<and>
    fst (json_Unmarshal env dec (fst (Body resp)) inst) = Some x \<longrightarrow>
      fst (fst (QueryBase env dec b q v inst w)) =
        Returns (Some (LibError x), snd (json_Unmarshal env dec (fst (Body resp)) inst)))
   \<and> (NewBase '''' = (None, Some (ErrorString ''Mapbox API token not found'')))
   \<and> (url_error env (BaseURL @ ''/'' @ url @ ''?access_token='' @ token b) = Some x \<longrightarrow>
      fst (SimpleGET env b url w) = (None, Some (LibError x)))
   \<and> (url_error env (BaseURL @ ''/'' @ url @ ''?access_token='' @ token b) = None \<and>
    err_of (round_trip env (length (sent w)) \<lparr>Method = ''GET'', URL = BaseURL @ ''/'' @ url @ ''?access_token='' @ token b, RawQuery = None, Header = [], Payload = NoBody\<rparr>) = Some x \<longrightarrow>
      fst (SimpleGET env b url w) = (None, Some (LibError x)))
   \<and> (url_error env (BaseURL @ ''/'' @ url @ ''?access_token='' @ token b) = None \<and>
    err_of (round_trip env (length (sent w)) \<lparr>Method = ''POST'', URL = BaseURL @ ''/'' @ url @ ''?access_token='' @ token b, RawQuery = None, Header = (if data \<noteq> None then [(''Content-Type'', ''application/json'')] else []), Payload = Raw (bytes_of data)\<rparr>) = Some x \<longrightarrow>
      fst (PostRequest env b url data w) = Returns (None, Some (LibError x)))
   \<and> (os_Open env path = Inl x \<longrightarrow>
      fst (PostUploadFileRequest env b url path ft w) = Returns (None, Some (LibError x)))
   \<and> (os_Open env path = Inr f \<and> url_error env (BaseURL @ ''/'' @ url @ ''/?access_token='' @ token b) = Some x \<longrightarrow>
      fst (PostUploadFileRequest env b url path ft w) = Returns (None, Some (LibError x)))
   \<and> (os_Open env path = Inr f \<and> url_error env (BaseURL @ ''/'' @ url @ ''/?access_token='' @ token b) = None \<and>
    response_of (round_trip env (length (sent w)) \<lparr>Method = ''POST'', URL = BaseURL @ ''/'' @ url @ ''/?access_token='' @ token b, RawQuery = None, Header = [(''Content-Type'', ''multipart/form-data'')], Payload = Multipart ft (filepath_Base (Name f)) (fst (Contents f))\<rparr>) = Some resp \<and>
    StatusCode resp \<noteq> 200 \<longrightarrow>
      (\<exists>s. fst (PostUploadFileRequest env b url path ft w) = Returns (None, Some (ErrorString s))))
   \<and> (os_Open env path = Inr f \<and> url_error env (BaseURL @ ''/'' @ url @ ''/?access_token='' @ token b) = None \<and>
    response_of (round_trip env (length (sent w)) \<lparr>Method = ''POST'', URL = BaseURL @ ''/'' @ url @ ''/?access_token='' @ token b, RawQuery = None, Header = [(''Content-Type'', ''multipart/form-data'')], Payload = Multipart ft (filepath_Base (Name f)) (fst (Contents f))\<rparr>) = Some resp \<and>
    StatusCode resp = 200 \<and> snd (Body resp) = Some x \<longrightarrow>
      fst (PostUploadFileRequest env b url path ft w) = Returns (None, Some (LibError x)))
   \<and> (fst (PostUploadFileRequest env (base t) (''tilesets/v1/sources/'' @ username t @ ''/'' @ tilesetID t) path ''file'' w) = Returns (res, Some e) \<longrightarrow>
      fst (UploadGeoJSON env t path w) = Returns (None, Some e))
   \<and> (fst (PostUploadFileRequest env (base t) (''tilesets/v1/sources/'' @ username t @ ''/'' @ tilesetID t) path ''file'' w) = Returns (res, None) \<and>
    fst (json_Unmarshal env (unmarshal_UploadResponse env) (bytes_of res) \<lparr>FileSize = 0, Files = 0, SourceSize = 0, UploadID = ''''\<rparr>) = Some x \<longrightarrow>
      fst (UploadGeoJSON env t path w) = Exits 1)
   \<and> (os_Open env path = Inl x \<longrightarrow>
      fst (CreateTileset env t path w) = Returns (None, Some (LibError x)))
   \<and> (os_Open env path = Inr f \<and>
    fst (PostRequest env (base t) (postURL t) (Some (fst (Contents f))) w) = Returns (res, Some e) \<longrightarrow>
      fst (CreateTileset env t path w) = Returns (None, Some e))
   \<and> (fst (PostRequest env (base t) (postURL t @ ''/publish'') None w) = Returns (res, Some e) \<longrightarrow>
      fst (PublishTileset env t w) = Returns (None, Some e))
   \<and> (snd (fst (SimpleGET env (base t) (postURL t @ ''/status'') w)) = Some e \<longrightarrow>
      CheckJobStatus_body env t w =
        LoopReturn (Some e) (snd (SimpleGET env (base t) (postURL t @ ''/status'') w)))
   \<and> (snd (fst (SimpleGET env (base t) (postURL t @ ''/status'') (Println ''Awaiting job completion. This may take some time...'' w))) = Some e \<longrightarrow>
      (\<exists>w'. CheckJobStatus env t w = Some (Some e, w')))
   \<and> (snd (NewBase tok) = Some e \<longrightarrow> \<not> is_sentinel e)
   \<and> (snd (fst (SimpleGET env b url w)) = Some e \<longrightarrow> \<not> is_sentinel e)
   \<and> (fst (PostRequest env b url data w) = Returns (rb, Some e) \<longrightarrow> \<not> is_sentinel e)
   \<and> (fst (PostUploadFileRequest env b url path ft w) = Returns (rb, Some e) \<longrightarrow> \<not> is_sentinel e)
   \<and> (fst (UploadGeoJSON env t path w) = Returns (ru, Some e) \<longrightarrow> \<not> is_sentinel e)
   \<and> (fst (CreateTileset env t path w) = Returns (rm, Some e) \<longrightarrow> \<not> is_sentinel e)
   \<and> (fst (PublishTileset env t w) = Returns (rp, Some e) \<longrightarrow> \<not> is_sentinel e)
   \<and> (CheckJobStatus env t w = Some (Some e, w') \<longrightarrow> \<not> is_sentinel e)"
  by (intro conjI)
     (rule QueryRequest_status_mapping,
      rule QueryRequest_sentinel_only,
      rule QueryBase_sentinel_only,
      rule Query_sentinel_only,
      rule QueryRequest_returns_url_error,
      rule QueryRequest_returns_round_trip_error,
      rule QueryBase_returns_request_error,
      rule QueryBase_returns_read_error,
      rule QueryBase_returns_api_error,
      rule QueryBase_returns_decoding_error,
      rule NewBase_returns_generic_error,
      rule SimpleGET_returns_url_error,
      rule SimpleGET_returns_round_trip_error,
      rule PostRequest_returns_round_trip_error,
      rule PostUploadFileRequest_returns_open_error,
      rule PostUploadFileRequest_returns_url_error,
      rule PostUploadFileRequest_returns_api_error,
      rule PostUploadFileRequest_returns_read_error,
      rule UploadGeoJSON_returns_request_error,
      rule UploadGeoJSON_exits_on_decoding_error,
      rule CreateTileset_returns_open_error,
      rule CreateTileset_returns_request_error,
      rule PublishTileset_returns_request_error,
      rule CheckJobStatus_body_returns_request_error,
      rule CheckJobStatus_returns_request_error,
      rule NewBase_no_sentinel,
      rule SimpleGET_no_sentinel,
      rule PostRequest_no_sentinel,
      rule PostUploadFileRequest_no_sentinel,
      rule UploadGeoJSON_no_sentinel,
      rule CreateTileset_no_sentinel,
      rule PublishTileset_no_sentinel,
      rule CheckJobStatus_no_sentinel)

theorem sentinels_for_429_and_401_generic_error_or_exit_elsewhere_witness:
  "fst (fst (QueryRequest (demo_env (always_reply 429 ''null'')) demo_base ''geocoding/v5/mapbox.places/x.json'' Map.empty world0))
       = (None, Some ErrorAPILimitExceeded)
   \<and> fst (fst (QueryRequest (demo_env (always_reply 401 ''null'')) demo_base ''geocoding/v5/mapbox.places/x.json'' Map.empty world0))
       = (None, Some ErrorAPIUnauthorized)
   \<and> fst (fst (QueryRequest (demo_env (always_reply 404 ''null'')) demo_base ''geocoding/v5/mapbox.places/x.json'' Map.empty world0))
       = (Some \<lparr>StatusCode = 404, Body = (''null'', None)\<rparr>, None)
   \<and> fst (SimpleGET (demo_env (always_fail (URLError ''timeout''))) demo_base ''tilesets/v1/alice.roads/status'' world0)
       = (None, Some (LibError (URLError ''timeout'')))
   \<and> fst (SimpleGET (demo_env (always_reply 200 ''null'')) demo_base (''tilesets'' @ newline) world0)
       = (None, Some (LibError (URLError ''invalid control character in URL'')))
   \<and> fst (PostRequest (demo_env (always_fail (URLError ''timeout''))) demo_base ''tilesets/v1/alice.roads/publish'' None world0)
       = Returns (None, Some (LibError (URLError ''timeout'')))
   \<and> fst (PostUploadFileRequest (demo_env (always_reply 200 ''null'')) demo_base ''tilesets/v1/sources/alice/roads''
              ''missing.geojson'' ''file'' world0)
       = Returns (None, Some (LibError (PathError ''no such file or directory'')))
   \<and> (\<exists>s. fst (PostUploadFileRequest (demo_env (always_reply 404 ''{\"message\":\"Not Found\"}'')) demo_base
                   ''tilesets/v1/sources/alice/roads'' ''data/points.geojson'' ''file'' world0)
            = Returns (None, Some (ErrorString s)))
   \<and> fst (UploadGeoJSON (demo_env (always_reply 200 ''<html>'')) demo_tileset ''data/points.geojson'' world0) = Exits 1
   \<and> fst (UploadGeoJSON (demo_env (always_reply 404 ''<html>'')) demo_tileset ''data/points.geojson'' world0)
       = Returns (None, Some (ErrorString ''Bad Request (400) - no message''))
   \<and> fst (CreateTileset (demo_env (always_fail (URLError ''timeout''))) demo_tileset ''missing.json'' world0)
       = Returns (None, Some (LibError (PathError ''no such file or directory'')))
   \<and> (\<exists>w'. CheckJobStatus (demo_env (always_fail (URLError ''timeout''))) demo_tileset world0 = Some (Some (LibError (URLError ''timeout'')), w'))
   \<and> \<not> is_sentinel (LibError (URLError ''timeout''))"
proof -
  have "fst (fst (QueryRequest (demo_env (always_reply 429 ''null'')) demo_base ''geocoding/v5/mapbox.places/x.json'' Map.empty world0))
       = (None, Some ErrorAPILimitExceeded)"
    using sentinels_for_429_and_401_generic_error_or_exit_elsewhere
            [where env = "demo_env (always_reply 429 ''null'')" and b = demo_base and w = world0
               and q = "''geocoding/v5/mapbox.places/x.json''" and v = Map.empty
               and resp = "\<lparr>StatusCode = 429, Body = (''null'', None)\<rparr>", THEN conjunct1]
    by (simp add: demo_env_def always_reply_def demo_base_def world0_def)
  moreover have "fst (fst (QueryRequest (demo_env (always_reply 401 ''null'')) demo_base ''geocoding/v5/mapbox.places/x.json'' Map.empty world0))
       = (None, Some ErrorAPIUnauthorized)"
    using sentinels_for_429_and_401_generic_error_or_exit_elsewhere
            [where env = "demo_env (always_reply 401 ''null'')" and b = demo_base and w = world0
               and q = "''geocoding/v5/mapbox.places/x.json''" and v = Map.empty
               and resp = "\<lparr>StatusCode = 401, Body = (''null'', None)\<rparr>", THEN conjunct1]
    by (simp add: demo_env_def always_reply_def demo_base_def world0_def)
  moreover have "fst (fst (QueryRequest (demo_env (always_reply 404 ''null'')) demo_base ''geocoding/v5/mapbox.places/x.json'' Map.empty world0))
       = (Some \<lparr>StatusCode = 404, Body = (''null'', None)\<rparr>, None)"
    using sentinels_for_429_and_401_generic_error_or_exit_elsewhere
            [where env = "demo_env (always_reply 404 ''null'')" and b = demo_base and w = world0
               and q = "''geocoding/v5/mapbox.places/x.json''" and v = Map.empty
               and resp = "\<lparr>StatusCode = 404, Body = (''null'', None)\<rparr>", THEN conjunct1]
    by (simp add: demo_env_def always_reply_def demo_base_def world0_def)
  moreover have "fst (SimpleGET (demo_env (always_fail (URLError ''timeout''))) demo_base ''tilesets/v1/alice.roads/status'' world0)
       = (None, Some (LibError (URLError ''timeout'')))"
    using sentinels_for_429_and_401_generic_error_or_exit_elsewhere
            [where env = "demo_env (always_fail (URLError ''timeout''))" and b = demo_base and w = world0
               and url = "''tilesets/v1/alice.roads/status''" and x = "URLError ''timeout''", THEN conjunct2, THEN conjunct2, THEN conjunct2, THEN conjunct2, THEN conjunct2, THEN conjunct2, THEN conjunct2, THEN conjunct2, THEN conjunct2, THEN conjunct2, THEN conjunct2, THEN conjunct2, THEN conjunct1]
    by (simp add: demo_env_def always_fail_def demo_base_def world0_def err_of_def)
  moreover have "fst (SimpleGET (demo_env (always_reply 200 ''null'')) demo_base (''tilesets'' @ newline) world0)
       = (None, Some (LibError (URLError ''invalid control character in URL'')))"
    using sentinels_for_429_and_401_generic_error_or_exit_elsewhere
            [where env = "demo_env (always_reply 200 ''null'')" and b = demo_base and w = world0
               and url = "''tilesets'' @ newline" and x = "URLError ''invalid control character in URL''", THEN conjunct2, THEN conjunct2, THEN conjunct2, THEN conjunct2, THEN conjunct2, THEN conjunct2, THEN conjunct2, THEN conjunct2, THEN conjunct2, THEN conjunct2, THEN conjunct2, THEN conjunct1]
    by (simp add: demo_env_def newline_def)
  moreover have "fst (PostRequest (demo_env (always_fail (URLError ''timeout''))) demo_base ''tilesets/v1/alice.roads/publish'' None world0)
       = Returns (None, Some (LibError (URLError ''timeout'')))"
    using sentinels_for_429_and_401_generic_error_or_exit_elsewhere
            [where env = "demo_env (always_fail (URLError ''timeout''))" and b = demo_base and w = world0
               and url = "''tilesets/v1/alice.roads/publish''" and data = None and x = "URLError ''timeout''", THEN conjunct2, THEN conjunct2, THEN conjunct2, THEN conjunct2, THEN conjunct2, THEN conjunct2, THEN conjunct2, THEN conjunct2, THEN conjunct2, THEN conjunct2, THEN conjunct2, THEN conjunct2, THEN conjunct2, THEN conjunct1]
    by (simp add: demo_env_def always_fail_def demo_base_def world0_def err_of_def)
  moreover have "fst (PostUploadFileRequest (demo_env (always_reply 200 ''null'')) demo_base ''tilesets/v1/sources/alice/roads''
              ''missing.geojson'' ''file'' world0)
       = Returns (None, Some (LibError (PathError ''no such file or directory'')))"
    using sentinels_for_429_and_401_generic_error_or_exit_elsewhere
            [where env = "demo_env (always_reply 200 ''null'')" and b = demo_base and w = world0
               and url = "''tilesets/v1/sources/alice/roads''" and path = "''missing.geojson''" and ft = "''file''"
               and x = "PathError ''no such file or directory''", THEN conjunct2, THEN conjunct2, THEN conjunct2, THEN conjunct2, THEN conjunct2, THEN conjunct2, THEN conjunct2, THEN conjunct2, THEN conjunct2, THEN conjunct2, THEN conjunct2, THEN conjunct2, THEN conjunct2, THEN conjunct2, THEN conjunct1]
    by (simp add: demo_env_def demo_files_def)
  moreover have "(\<exists>s. fst (PostUploadFileRequest (demo_env (always_reply 404 ''{\"message\":\"Not Found\"}'')) demo_base
                   ''tilesets/v1/sources/alice/roads'' ''data/points.geojson'' ''file'' world0)
            = Returns (None, Some (ErrorString s)))"
    using sentinels_for_429_and_401_generic_error_or_exit_elsewhere
            [where env = "demo_env (always_reply 404 ''{\"message\":\"Not Found\"}'')" and b = demo_base and w = world0
               and url = "''tilesets/v1/sources/alice/roads''" and path = "''data/points.geojson''" and ft = "''file''"
               and f = "\<lparr>Name = ''data/points.geojson'', Contents = (''{}'', None)\<rparr>"
               and resp = "\<lparr>StatusCode = 404, Body = (''{\"message\":\"Not Found\"}'', None)\<rparr>", THEN conjunct2, THEN conjunct2, THEN conjunct2, THEN conjunct2, THEN conjunct2, THEN conjunct2, THEN conjunct2, THEN conjunct2, THEN conjunct2, THEN conjunct2, THEN conjunct2, THEN conjunct2, THEN conjunct2, THEN conjunct2, THEN conjunct2, THEN conjunct2, THEN conjunct1]
    by (simp add: demo_env_def demo_files_def always_reply_def response_of_def demo_base_def world0_def
          filepath_Base_def)
  moreover have "fst (UploadGeoJSON (demo_env (always_reply 200 ''<html>'')) demo_tileset ''data/points.geojson'' world0) = Exits 1"
    using sentinels_for_429_and_401_generic_error_or_exit_elsewhere
            [where env = "demo_env (always_reply 200 ''<html>'')" and t = demo_tileset and w = world0
               and path = "''data/points.geojson''" and res = "Some ''<html>''" and x = SyntaxError, THEN conjunct2, THEN conjunct2, THEN conjunct2, THEN conjunct2, THEN conjunct2, THEN conjunct2, THEN conjunct2, THEN conjunct2, THEN conjunct2, THEN conjunct2, THEN conjunct2, THEN conjunct2, THEN conjunct2, THEN conjunct2, THEN conjunct2, THEN conjunct2, THEN conjunct2, THEN conjunct2, THEN conjunct2, THEN conjunct1]
    by (simp add: demo_upload_result demo_unmarshal_upload bytes_of_def)
  moreover have "fst (UploadGeoJSON (demo_env (always_reply 404 ''<html>'')) demo_tileset ''data/points.geojson'' world0)
       = Returns (None, Some (ErrorString ''Bad Request (400) - no message''))"
    using sentinels_for_429_and_401_generic_error_or_exit_elsewhere
            [where env = "demo_env (always_reply 404 ''<html>'')" and t = demo_tileset and w = world0
               and path = "''data/points.geojson''" and res = None
               and e = "ErrorString ''Bad Request (400) - no message''", THEN conjunct2, THEN conjunct2, THEN conjunct2, THEN conjunct2, THEN conjunct2, THEN conjunct2, THEN conjunct2, THEN conjunct2, THEN conjunct2, THEN conjunct2, THEN conjunct2, THEN conjunct2, THEN conjunct2, THEN conjunct2, THEN conjunct2, THEN conjunct2, THEN conjunct2, THEN conjunct2, THEN conjunct1]
    by (simp add: demo_upload_result demo_unmarshal_message)
  moreover have "fst (CreateTileset (demo_env (always_fail (URLError ''timeout''))) demo_tileset ''missing.json'' world0)
       = Returns (None, Some (LibError (PathError ''no such file or directory'')))"
    using sentinels_for_429_and_401_generic_error_or_exit_elsewhere
            [where env = "demo_env (always_fail (URLError ''timeout''))" and t = demo_tileset and w = world0
               and path = "''missing.json''" and x = "PathError ''no such file or directory''", THEN conjunct2, THEN conjunct2, THEN conjunct2, THEN conjunct2, THEN conjunct2, THEN conjunct2, THEN conjunct2, THEN conjunct2, THEN conjunct2, THEN conjunct2, THEN conjunct2, THEN conjunct2, THEN conjunct2, THEN conjunct2, THEN conjunct2, THEN conjunct2, THEN conjunct2, THEN conjunct2, THEN conjunct2, THEN conjunct2, THEN conjunct1]
    by (simp add: demo_env_def demo_files_def)
  moreover have "(\<exists>w'. CheckJobStatus (demo_env (always_fail (URLError ''timeout''))) demo_tileset world0 = Some (Some (LibError (URLError ''timeout'')), w'))"
    using sentinels_for_429_and_401_generic_error_or_exit_elsewhere
            [where env = "demo_env (always_fail (URLError ''timeout''))" and t = demo_tileset and w = world0
               and e = "LibError (URLError ''timeout'')", THEN conjunct2, THEN conjunct2, THEN conjunct2, THEN conjunct2, THEN conjunct2, THEN conjunct2, THEN conjunct2, THEN conjunct2, THEN conjunct2, THEN conjunct2, THEN conjunct2, THEN conjunct2, THEN conjunct2, THEN conjunct2, THEN conjunct2, THEN conjunct2, THEN conjunct2, THEN conjunct2, THEN conjunct2, THEN conjunct2, THEN conjunct2, THEN conjunct2, THEN conjunct2, THEN conjunct2, THEN conjunct1]
    by (simp add: SimpleGET_def http_Get_def http_NewRequest_def client_Do_def demo_env_def always_fail_def
          postURL_def demo_base_def world0_def Println_def print_def)
  moreover have "\<not> is_sentinel (LibError (URLError ''timeout''))"
    using sentinels_for_429_and_401_generic_error_or_exit_elsewhere
            [where env = "demo_env (always_fail (URLError ''timeout''))" and b = demo_base and w = world0
               and url = "''tilesets/v1/alice.roads/status''" and e = "LibError (URLError ''timeout'')", THEN conjunct2, THEN conjunct2, THEN conjunct2, THEN conjunct2, THEN conjunct2, THEN conjunct2, THEN conjunct2, THEN conjunct2, THEN conjunct2, THEN conjunct2, THEN conjunct2, THEN conjunct2, THEN conjunct2, THEN conjunct2, THEN conjunct2, THEN conjunct2, THEN conjunct2, THEN conjunct2, THEN conjunct2, THEN conjunct2, THEN conjunct2, THEN conjunct2, THEN conjunct2, THEN conjunct2, THEN conjunct2, THEN conjunct2, THEN conjunct1]
          demo_SimpleGET_fails
    by simp
  ultimately show ?thesis by blast
qed

section \<open>The token as a query parameter\<close>

lemma strings_Cut_absent: "sep \<notin> set s \<Longrightarrow> strings_Cut sep s = (s, None)"
  by (induction s) auto

lemma strings_Cut_first: "sep \<notin> set s \<Longrightarrow> strings_Cut sep (s @ sep # r) = (s, Some r)"
  by (induction s) auto

lemma split_on_absent: "sep \<notin> set s \<Longrightarrow> split_on sep s = [s]"
  by (induction s) auto

lemma QueryUnescape_plain: "CHR ''%'' \<notin> set s \<Longrightarrow> CHR ''+'' \<notin> set s \<Longrightarrow> QueryUnescape s = Some s"
  by (induction s) auto

lemma url_RawQuery_appended:
  assumes "CHR ''#'' \<notin> set p" "CHR ''?'' \<notin> set p" "CHR ''#'' \<notin> set tok"
  shows "url_RawQuery (p @ ''?access_token='' @ tok) = ''access_token='' @ tok"
proof -
  have "CHR ''#'' \<notin> set (p @ ''?access_token='' @ tok)" using assms by simp
  then have a: "strings_Cut CHR ''#'' (p @ ''?access_token='' @ tok) = (p @ ''?access_token='' @ tok, None)"
    by (rule strings_Cut_absent)
  have b: "strings_Cut CHR ''?'' (p @ ''?access_token='' @ tok) = (p, Some (''access_token='' @ tok))"
    using strings_Cut_first [of "CHR ''?''" p "''access_token='' @ tok"] assms(2) by simp
  show ?thesis by (simp only: url_RawQuery_def a b Let_def prod.case option.case)
qed

lemma ParseQuery_token:
  assumes "CHR ''&'' \<notin> set tok" "CHR 0x3B \<notin> set tok" "CHR ''%'' \<notin> set tok" "CHR ''+'' \<notin> set tok"
  shows "ParseQuery (''access_token='' @ tok) = [(''access_token'', tok)]"
proof -
  have s: "split_on CHR ''&'' (''access_token='' @ tok) = [''access_token='' @ tok]"
    using assms(1) by (intro split_on_absent) simp
  have c: "strings_Cut CHR ''='' (''access_token='' @ tok) = (''access_token'', Some tok)"
    using strings_Cut_first [of "CHR ''=''" "''access_token''" tok] by simp
  have k: "QueryUnescape ''access_token'' = Some ''access_token''"
    by (intro QueryUnescape_plain) simp_all
  have v: "QueryUnescape tok = Some tok"
    using assms(3,4) by (rule QueryUnescape_plain)
  have n: "CHR 0x3B \<notin> set (''access_token='' @ tok)" using assms(2) by simp
  show ?thesis
    unfolding ParseQuery_def s using n assms(2) by (simp add: v)
qed

text \<open>
  What holds of claim C5 for \<^verbatim>\<open>SimpleGET\<close>, \<^verbatim>\<open>PostRequest\<close> and
  \<^verbatim>\<open>PostUploadFileRequest\<close>: the text of the URL is always the base URL, the path and
  the token after \<^verbatim>\<open>?access_token=\<close>, and the request sent carries the token as its
  one \<^verbatim>\<open>access_token\<close> parameter when the path has no \<^verbatim>\<open>?\<close> and no \<^verbatim>\<open>#\<close> and the
  token none of \<^verbatim>\<open>#\<close>, \<^verbatim>\<open>&\<close>, \<^verbatim>\<open>;\<close>, \<^verbatim>\<open>%\<close> and \<^verbatim>\<open>+\<close>.
\<close>

lemma token_carried_for_plain_path_and_token:
  assumes "CHR ''#'' \<notin> set url" "CHR ''?'' \<notin> set url"
      and "CHR ''#'' \<notin> set (token b)" "CHR ''&'' \<notin> set (token b)" "CHR 0x3B \<notin> set (token b)"
          "CHR ''%'' \<notin> set (token b)" "CHR ''+'' \<notin> set (token b)"
  shows "\<forall>r \<in> set (drop (length (sent w)) (sent (snd (SimpleGET env b url w)))).
           URL r = BaseURL @ ''/'' @ url @ ''?access_token='' @ token b \<and> URL_Query r ''access_token'' = [token b]"
    and "\<forall>r \<in> set (drop (length (sent w)) (sent (snd (PostRequest env b url data w)))).
           URL r = BaseURL @ ''/'' @ url @ ''?access_token='' @ token b \<and> URL_Query r ''access_token'' = [token b]"
    and "\<forall>r \<in> set (drop (length (sent w)) (sent (snd (PostUploadFileRequest env b url path ft w)))).
           URL r = BaseURL @ ''/'' @ url @ ''/?access_token='' @ token b \<and> URL_Query r ''access_token'' = [token b]"
proof -
  have q: "url_RawQuery (BaseURL @ ''/'' @ url @ ''?access_token='' @ token b) = ''access_token='' @ token b"
    using url_RawQuery_appended [of "BaseURL @ ''/'' @ url" "token b"] assms(1,2,3) by simp
  have q': "url_RawQuery (BaseURL @ ''/'' @ url @ ''/?access_token='' @ token b) = ''access_token='' @ token b"
    using url_RawQuery_appended [of "BaseURL @ ''/'' @ url @ ''/''" "token b"] assms(1,2,3) by simp
  note p = ParseQuery_token [OF assms(4,5,6,7), simplified]
  note q = q [simplified] and q' = q' [simplified]
  show "\<forall>r \<in> set (drop (length (sent w)) (sent (snd (SimpleGET env b url w)))).
           URL r = BaseURL @ ''/'' @ url @ ''?access_token='' @ token b \<and> URL_Query r ''access_token'' = [token b]"
    by (simp add: SimpleGET_sends URL_Query_def q p)
  show "\<forall>r \<in> set (drop (length (sent w)) (sent (snd (PostRequest env b url data w)))).
           URL r = BaseURL @ ''/'' @ url @ ''?access_token='' @ token b \<and> URL_Query r ''access_token'' = [token b]"
    by (simp add: PostRequest_sends URL_Query_def q p)
  show "\<forall>r \<in> set (drop (length (sent w)) (sent (snd (PostUploadFileRequest env b url path ft w)))).
           URL r = BaseURL @ ''/'' @ url @ ''/?access_token='' @ token b \<and> URL_Query r ''access_token'' = [token b]"
    by (auto simp: PostUploadFileRequest_sends URL_Query_def q' p split: sum.splits if_splits)
qed

text \<open>
  \<^verbatim>\<open>QueryRequest\<close> sets the parameter in the values of the query: its request is
  rooted at the base URL and carries the token for every path and every token.
\<close>

lemma QueryRequest_carries_token:
  "\<forall>r \<in> set (drop (length (sent w)) (sent (snd (QueryRequest env b q v w)))).
     URL r = BaseURL @ ''/'' @ q \<and> URL_Query r ''access_token'' = [token b]"
  by (simp add: QueryRequest_sends URL_Query_def)

text \<open>
  Claim C5 at a path with a fragment, and at a token with a \<^verbatim>\<open>&\<close>. \<^verbatim>\<open>SimpleGET\<close>,
  \<^verbatim>\<open>PostRequest\<close> and \<^verbatim>\<open>PostUploadFileRequest\<close> paste path and token into the text of
  the URL. For the path \<^verbatim>\<open>tilesets/v1/alice.roads/status#x\<close> each sends one request,
  rooted at the base URL, in which \<^verbatim>\<open>?access_token=pk.abc\<close> is part of the fragment:
  the request has no query and no \<^verbatim>\<open>access_token\<close> parameter. For the token
  \<^verbatim>\<open>pk&abc\<close> the parameter is \<^verbatim>\<open>pk\<close>, not the token. \<^verbatim>\<open>QueryRequest\<close> on the same
  path and on the same token carries the token.
\<close>

theorem token_not_carried_for_path_with_fragment:
  "sent (snd (SimpleGET (demo_env (always_reply 200 ''null'')) demo_base ''tilesets/v1/alice.roads/status#x'' world0))
     = [\<lparr>Method = ''GET'', URL = ''https://api.mapbox.com/tilesets/v1/alice.roads/status#x?access_token=pk.abc'',
          RawQuery = None, Header = [], Payload = NoBody\<rparr>]
   \<and> sent (snd (PostRequest (demo_env (always_reply 200 ''null'')) demo_base ''tilesets/v1/alice.roads/status#x'' None world0))
     = [\<lparr>Method = ''POST'', URL = ''https://api.mapbox.com/tilesets/v1/alice.roads/status#x?access_token=pk.abc'',
          RawQuery = None, Header = [], Payload = Raw []\<rparr>]
   \<and> sent (snd (PostUploadFileRequest (demo_env (always_reply 200 ''null'')) demo_base ''tilesets/v1/alice.roads/status#x''
                   ''data/points.geojson'' ''file'' world0))
     = [\<lparr>Method = ''POST'', URL = ''https://api.mapbox.com/tilesets/v1/alice.roads/status#x/?access_token=pk.abc'',
          RawQuery = None, Header = [(''Content-Type'', ''multipart/form-data'')],
          Payload = Multipart ''file'' ''points.geojson'' ''{}''\<rparr>]
   \<and> url_RawQuery ''https://api.mapbox.com/tilesets/v1/alice.roads/status#x?access_token=pk.abc'' = ''''
   \<and> URL_Query \<lparr>Method = ''GET'', URL = ''https://api.mapbox.com/tilesets/v1/alice.roads/status#x?access_token=pk.abc'',
                  RawQuery = None, Header = [], Payload = NoBody\<rparr> ''access_token'' = []
   \<and> URL_Query \<lparr>Method = ''POST'', URL = ''https://api.mapbox.com/tilesets/v1/alice.roads/status#x?access_token=pk.abc'',
                  RawQuery = None, Header = [], Payload = Raw []\<rparr> ''access_token'' = []
   \<and> URL_Query \<lparr>Method = ''POST'', URL = ''https://api.mapbox.com/tilesets/v1/alice.roads/status#x/?access_token=pk.abc'',
                  RawQuery = None, Header = [(''Content-Type'', ''multipart/form-data'')],
                  Payload = Multipart ''file'' ''points.geojson'' ''{}''\<rparr> ''access_token'' = []
   \<and> map (\<lambda>r. URL_Query r ''access_token'')
        (sent (snd (SimpleGET (demo_env (always_reply 200 ''null'')) \<lparr>token = ''pk&abc'', debug = False\<rparr>
                      ''tilesets/v1/alice.roads/status'' world0)))
     = [[''pk'']]
   \<and> map (\<lambda>r. URL_Query r ''access_token'')
        (sent (snd (QueryRequest (demo_env (always_reply 200 ''null'')) demo_base ''tilesets/v1/alice.roads/status#x''
                      Map.empty world0)))
     = [[''pk.abc'']]
   \<and> map (\<lambda>r. URL_Query r ''access_token'')
        (sent (snd (QueryRequest (demo_env (always_reply 200 ''null'')) \<lparr>token = ''pk&abc'', debug = False\<rparr>
                      ''tilesets/v1/alice.roads/status'' Map.empty world0)))
     = [[''pk&abc'']]"
proof -
  let ?E = "demo_env (always_reply 200 ''null'')"
  have u: "\<And>s. CHR 0x0A \<notin> set s \<Longrightarrow> url_error ?E s = None" by (simp add: demo_env_def)
  have o: "os_Open ?E ''data/points.geojson'' = Inr \<lparr>Name = ''data/points.geojson'', Contents = (''{}'', None)\<rparr>"
    by (simp add: demo_env_def demo_files_def)
  have f1: "sent (snd (SimpleGET ?E demo_base ''tilesets/v1/alice.roads/status#x'' world0))
     = [\<lparr>Method = ''GET'', URL = ''https://api.mapbox.com/tilesets/v1/alice.roads/status#x?access_token=pk.abc'',
          RawQuery = None, Header = [], Payload = NoBody\<rparr>]"
    by (simp add: SimpleGET_sends u demo_base_def world0_def)
  have f2: "sent (snd (PostRequest ?E demo_base ''tilesets/v1/alice.roads/status#x'' None world0))
     = [\<lparr>Method = ''POST'', URL = ''https://api.mapbox.com/tilesets/v1/alice.roads/status#x?access_token=pk.abc'',
          RawQuery = None, Header = [], Payload = Raw []\<rparr>]"
    by (simp add: PostRequest_sends u demo_base_def world0_def bytes_of_def)
  have f3: "sent (snd (PostUploadFileRequest ?E demo_base ''tilesets/v1/alice.roads/status#x''
                   ''data/points.geojson'' ''file'' world0))
     = [\<lparr>Method = ''POST'', URL = ''https://api.mapbox.com/tilesets/v1/alice.roads/status#x/?access_token=pk.abc'',
          RawQuery = None, Header = [(''Content-Type'', ''multipart/form-data'')],
          Payload = Multipart ''file'' ''points.geojson'' ''{}''\<rparr>]"
    by (simp add: PostUploadFileRequest_sends u o demo_base_def world0_def filepath_Base_def)
  have f4: "url_RawQuery ''https://api.mapbox.com/tilesets/v1/alice.roads/status#x?access_token=pk.abc'' = ''''"
    by (simp add: url_RawQuery_def)
  have f4b: "url_RawQuery ''https://api.mapbox.com/tilesets/v1/alice.roads/status#x/?access_token=pk.abc'' = ''''"
    by (simp add: url_RawQuery_def)
  have e: "ParseQuery '''' = []" by (simp add: ParseQuery_def)
  have f5: "map (\<lambda>r. URL_Query r ''access_token'')
        (sent (snd (SimpleGET ?E \<lparr>token = ''pk&abc'', debug = False\<rparr> ''tilesets/v1/alice.roads/status'' world0)))
     = [[''pk'']]"
    by (simp add: SimpleGET_sends u world0_def URL_Query_def url_RawQuery_def ParseQuery_def)
  have f6: "map (\<lambda>r. URL_Query r ''access_token'')
        (sent (snd (QueryRequest ?E demo_base ''tilesets/v1/alice.roads/status#x'' Map.empty world0)))
     = [[''pk.abc'']]"
    by (simp add: QueryRequest_sends u world0_def demo_base_def URL_Query_def)
  have f7: "map (\<lambda>r. URL_Query r ''access_token'')
        (sent (snd (QueryRequest ?E \<lparr>token = ''pk&abc'', debug = False\<rparr> ''tilesets/v1/alice.roads/status'' Map.empty world0)))
     = [[''pk&abc'']]"
    by (simp add: QueryRequest_sends u world0_def URL_Query_def)
  show ?thesis
    by (simp only: f1 f2 f3 f4 f5 f6 f7 simp_thms) (simp add: URL_Query_def f4 f4b e)
qed

end
